theory Spec2Isabelle
  imports Complex_Main "HOL-Library.Word" "HOL-Library.Log_Nat"
begin

unbundle bit_operations_syntax

section \<open>Pixel formats of OgrePixelFormatGpuUtils.cpp\<close>

text \<open>
  The development follows \<^verbatim>\<open>OgreMain/src/OgrePixelFormatGpuUtils.cpp\<close>.
  Machine integers are words: \<^verbatim>\<open>uint8\<close>, \<^verbatim>\<open>uint16\<close> and \<^verbatim>\<open>uint32\<close> are
  \<^typ>\<open>8 word\<close>, \<^typ>\<open>16 word\<close> and \<^typ>\<open>32 word\<close>; \<^verbatim>\<open>size_t\<close> is taken to be
  64 bits wide (\<^typ>\<open>64 word\<close>). Exceptions raised through \<^verbatim>\<open>OGRE_EXCEPT\<close> and
  failing \<^verbatim>\<open>assert\<close>s are values of type \<open>error\<close>, returned with \<^const>\<open>Inl\<close>.
\<close>

subsection \<open>Errors\<close>

datatype error =
    ERR_INVALIDPARAMS
  | ERR_NOT_IMPLEMENTED
  | AssertionFailed
  | DivisionByZero
  | UndefinedConversion
  | BadAccess

text \<open>Sequencing of computations that may fail: the first error ends the computation.\<close>

definition bindE :: "error + 'a \<Rightarrow> ('a \<Rightarrow> error + 'b) \<Rightarrow> error + 'b" where
  "bindE m f = (case m of Inl e \<Rightarrow> Inl e | Inr v \<Rightarrow> f v)"

primrec sequenceE :: "(error + 'a) list \<Rightarrow> error + 'a list" where
  "sequenceE [] = Inr []"
| "sequenceE (m # ms) = bindE m (\<lambda>v. bindE (sequenceE ms) (\<lambda>vs. Inr (v # vs)))"

subsection \<open>The enumeration PixelFormatGpu\<close>

text \<open>
  Modelled from the spec: the enumeration \<^verbatim>\<open>PixelFormatGpu\<close> is declared in a header
  that is not part of the sources at hand. The spec describes it as a dense enumeration
  of the supported encodings between the two sentinels Unknown and Count, which bound
  the valid index range. \<^verbatim>\<open>getDescriptionFor\<close> indexes \<^verbatim>\<open>msPixelFormatDesc\<close> with
  \<^verbatim>\<open>(int)fmt\<close>, so the order of the enumerators is the order of the rows of that
  table: 115 enumerators, from \<^verbatim>\<open>PFG_UNKNOWN\<close> (0) to \<^verbatim>\<open>PFG_COUNT\<close> (114). A format
  is represented by its index and every enumerator is a named constant. (The rows of
  the two signed 32-bit formats carry the names \<^verbatim>\<open>PFG_RGBA32_INT\<close> and
  \<^verbatim>\<open>PFG_RGB32_INT\<close>; the enumerators, as the switch statements spell them, are
  \<^verbatim>\<open>PFG_RGBA32_SINT\<close> and \<^verbatim>\<open>PFG_RGB32_SINT\<close>.)
\<close>

type_synonym PixelFormatGpu = nat

named_theorems PixelFormatGpu_defs

definition PFG_UNKNOWN :: PixelFormatGpu where [PixelFormatGpu_defs]: "PFG_UNKNOWN = 0"
definition PFG_RGBA32_FLOAT :: PixelFormatGpu where [PixelFormatGpu_defs]: "PFG_RGBA32_FLOAT = 1"
definition PFG_RGBA32_UINT :: PixelFormatGpu where [PixelFormatGpu_defs]: "PFG_RGBA32_UINT = 2"
definition PFG_RGBA32_SINT :: PixelFormatGpu where [PixelFormatGpu_defs]: "PFG_RGBA32_SINT = 3"
definition PFG_RGB32_FLOAT :: PixelFormatGpu where [PixelFormatGpu_defs]: "PFG_RGB32_FLOAT = 4"
definition PFG_RGB32_UINT :: PixelFormatGpu where [PixelFormatGpu_defs]: "PFG_RGB32_UINT = 5"
definition PFG_RGB32_SINT :: PixelFormatGpu where [PixelFormatGpu_defs]: "PFG_RGB32_SINT = 6"
definition PFG_RGBA16_FLOAT :: PixelFormatGpu where [PixelFormatGpu_defs]: "PFG_RGBA16_FLOAT = 7"
definition PFG_RGBA16_UNORM :: PixelFormatGpu where [PixelFormatGpu_defs]: "PFG_RGBA16_UNORM = 8"
definition PFG_RGBA16_UINT :: PixelFormatGpu where [PixelFormatGpu_defs]: "PFG_RGBA16_UINT = 9"
definition PFG_RGBA16_SNORM :: PixelFormatGpu where [PixelFormatGpu_defs]: "PFG_RGBA16_SNORM = 10"
definition PFG_RGBA16_SINT :: PixelFormatGpu where [PixelFormatGpu_defs]: "PFG_RGBA16_SINT = 11"
definition PFG_RG32_FLOAT :: PixelFormatGpu where [PixelFormatGpu_defs]: "PFG_RG32_FLOAT = 12"
definition PFG_RG32_UINT :: PixelFormatGpu where [PixelFormatGpu_defs]: "PFG_RG32_UINT = 13"
definition PFG_RG32_SINT :: PixelFormatGpu where [PixelFormatGpu_defs]: "PFG_RG32_SINT = 14"
definition PFG_D32_FLOAT_S8X24_UINT :: PixelFormatGpu where [PixelFormatGpu_defs]: "PFG_D32_FLOAT_S8X24_UINT = 15"
definition PFG_R10G10B10A2_UNORM :: PixelFormatGpu where [PixelFormatGpu_defs]: "PFG_R10G10B10A2_UNORM = 16"
definition PFG_R10G10B10A2_UINT :: PixelFormatGpu where [PixelFormatGpu_defs]: "PFG_R10G10B10A2_UINT = 17"
definition PFG_R11G11B10_FLOAT :: PixelFormatGpu where [PixelFormatGpu_defs]: "PFG_R11G11B10_FLOAT = 18"
definition PFG_RGBA8_UNORM :: PixelFormatGpu where [PixelFormatGpu_defs]: "PFG_RGBA8_UNORM = 19"
definition PFG_RGBA8_UNORM_SRGB :: PixelFormatGpu where [PixelFormatGpu_defs]: "PFG_RGBA8_UNORM_SRGB = 20"
definition PFG_RGBA8_UINT :: PixelFormatGpu where [PixelFormatGpu_defs]: "PFG_RGBA8_UINT = 21"
definition PFG_RGBA8_SNORM :: PixelFormatGpu where [PixelFormatGpu_defs]: "PFG_RGBA8_SNORM = 22"
definition PFG_RGBA8_SINT :: PixelFormatGpu where [PixelFormatGpu_defs]: "PFG_RGBA8_SINT = 23"
definition PFG_RG16_FLOAT :: PixelFormatGpu where [PixelFormatGpu_defs]: "PFG_RG16_FLOAT = 24"
definition PFG_RG16_UNORM :: PixelFormatGpu where [PixelFormatGpu_defs]: "PFG_RG16_UNORM = 25"
definition PFG_RG16_UINT :: PixelFormatGpu where [PixelFormatGpu_defs]: "PFG_RG16_UINT = 26"
definition PFG_RG16_SNORM :: PixelFormatGpu where [PixelFormatGpu_defs]: "PFG_RG16_SNORM = 27"
definition PFG_RG16_SINT :: PixelFormatGpu where [PixelFormatGpu_defs]: "PFG_RG16_SINT = 28"
definition PFG_D32_FLOAT :: PixelFormatGpu where [PixelFormatGpu_defs]: "PFG_D32_FLOAT = 29"
definition PFG_R32_FLOAT :: PixelFormatGpu where [PixelFormatGpu_defs]: "PFG_R32_FLOAT = 30"
definition PFG_R32_UINT :: PixelFormatGpu where [PixelFormatGpu_defs]: "PFG_R32_UINT = 31"
definition PFG_R32_SINT :: PixelFormatGpu where [PixelFormatGpu_defs]: "PFG_R32_SINT = 32"
definition PFG_D24_UNORM :: PixelFormatGpu where [PixelFormatGpu_defs]: "PFG_D24_UNORM = 33"
definition PFG_D24_UNORM_S8_UINT :: PixelFormatGpu where [PixelFormatGpu_defs]: "PFG_D24_UNORM_S8_UINT = 34"
definition PFG_RG8_UNORM :: PixelFormatGpu where [PixelFormatGpu_defs]: "PFG_RG8_UNORM = 35"
definition PFG_RG8_UINT :: PixelFormatGpu where [PixelFormatGpu_defs]: "PFG_RG8_UINT = 36"
definition PFG_RG8_SNORM :: PixelFormatGpu where [PixelFormatGpu_defs]: "PFG_RG8_SNORM = 37"
definition PFG_RG8_SINT :: PixelFormatGpu where [PixelFormatGpu_defs]: "PFG_RG8_SINT = 38"
definition PFG_R16_FLOAT :: PixelFormatGpu where [PixelFormatGpu_defs]: "PFG_R16_FLOAT = 39"
definition PFG_D16_UNORM :: PixelFormatGpu where [PixelFormatGpu_defs]: "PFG_D16_UNORM = 40"
definition PFG_R16_UNORM :: PixelFormatGpu where [PixelFormatGpu_defs]: "PFG_R16_UNORM = 41"
definition PFG_R16_UINT :: PixelFormatGpu where [PixelFormatGpu_defs]: "PFG_R16_UINT = 42"
definition PFG_R16_SNORM :: PixelFormatGpu where [PixelFormatGpu_defs]: "PFG_R16_SNORM = 43"
definition PFG_R16_SINT :: PixelFormatGpu where [PixelFormatGpu_defs]: "PFG_R16_SINT = 44"
definition PFG_R8_UNORM :: PixelFormatGpu where [PixelFormatGpu_defs]: "PFG_R8_UNORM = 45"
definition PFG_R8_UINT :: PixelFormatGpu where [PixelFormatGpu_defs]: "PFG_R8_UINT = 46"
definition PFG_R8_SNORM :: PixelFormatGpu where [PixelFormatGpu_defs]: "PFG_R8_SNORM = 47"
definition PFG_R8_SINT :: PixelFormatGpu where [PixelFormatGpu_defs]: "PFG_R8_SINT = 48"
definition PFG_A8_UNORM :: PixelFormatGpu where [PixelFormatGpu_defs]: "PFG_A8_UNORM = 49"
definition PFG_R1_UNORM :: PixelFormatGpu where [PixelFormatGpu_defs]: "PFG_R1_UNORM = 50"
definition PFG_R9G9B9E5_SHAREDEXP :: PixelFormatGpu where [PixelFormatGpu_defs]: "PFG_R9G9B9E5_SHAREDEXP = 51"
definition PFG_R8G8_B8G8_UNORM :: PixelFormatGpu where [PixelFormatGpu_defs]: "PFG_R8G8_B8G8_UNORM = 52"
definition PFG_G8R8_G8B8_UNORM :: PixelFormatGpu where [PixelFormatGpu_defs]: "PFG_G8R8_G8B8_UNORM = 53"
definition PFG_BC1_UNORM :: PixelFormatGpu where [PixelFormatGpu_defs]: "PFG_BC1_UNORM = 54"
definition PFG_BC1_UNORM_SRGB :: PixelFormatGpu where [PixelFormatGpu_defs]: "PFG_BC1_UNORM_SRGB = 55"
definition PFG_BC2_UNORM :: PixelFormatGpu where [PixelFormatGpu_defs]: "PFG_BC2_UNORM = 56"
definition PFG_BC2_UNORM_SRGB :: PixelFormatGpu where [PixelFormatGpu_defs]: "PFG_BC2_UNORM_SRGB = 57"
definition PFG_BC3_UNORM :: PixelFormatGpu where [PixelFormatGpu_defs]: "PFG_BC3_UNORM = 58"
definition PFG_BC3_UNORM_SRGB :: PixelFormatGpu where [PixelFormatGpu_defs]: "PFG_BC3_UNORM_SRGB = 59"
definition PFG_BC4_UNORM :: PixelFormatGpu where [PixelFormatGpu_defs]: "PFG_BC4_UNORM = 60"
definition PFG_BC4_SNORM :: PixelFormatGpu where [PixelFormatGpu_defs]: "PFG_BC4_SNORM = 61"
definition PFG_BC5_UNORM :: PixelFormatGpu where [PixelFormatGpu_defs]: "PFG_BC5_UNORM = 62"
definition PFG_BC5_SNORM :: PixelFormatGpu where [PixelFormatGpu_defs]: "PFG_BC5_SNORM = 63"
definition PFG_B5G6R5_UNORM :: PixelFormatGpu where [PixelFormatGpu_defs]: "PFG_B5G6R5_UNORM = 64"
definition PFG_B5G5R5A1_UNORM :: PixelFormatGpu where [PixelFormatGpu_defs]: "PFG_B5G5R5A1_UNORM = 65"
definition PFG_BGRA8_UNORM :: PixelFormatGpu where [PixelFormatGpu_defs]: "PFG_BGRA8_UNORM = 66"
definition PFG_BGRX8_UNORM :: PixelFormatGpu where [PixelFormatGpu_defs]: "PFG_BGRX8_UNORM = 67"
definition PFG_R10G10B10_XR_BIAS_A2_UNORM :: PixelFormatGpu where [PixelFormatGpu_defs]: "PFG_R10G10B10_XR_BIAS_A2_UNORM = 68"
definition PFG_BGRA8_UNORM_SRGB :: PixelFormatGpu where [PixelFormatGpu_defs]: "PFG_BGRA8_UNORM_SRGB = 69"
definition PFG_BGRX8_UNORM_SRGB :: PixelFormatGpu where [PixelFormatGpu_defs]: "PFG_BGRX8_UNORM_SRGB = 70"
definition PFG_BC6H_UF16 :: PixelFormatGpu where [PixelFormatGpu_defs]: "PFG_BC6H_UF16 = 71"
definition PFG_BC6H_SF16 :: PixelFormatGpu where [PixelFormatGpu_defs]: "PFG_BC6H_SF16 = 72"
definition PFG_BC7_UNORM :: PixelFormatGpu where [PixelFormatGpu_defs]: "PFG_BC7_UNORM = 73"
definition PFG_BC7_UNORM_SRGB :: PixelFormatGpu where [PixelFormatGpu_defs]: "PFG_BC7_UNORM_SRGB = 74"
definition PFG_AYUV :: PixelFormatGpu where [PixelFormatGpu_defs]: "PFG_AYUV = 75"
definition PFG_Y410 :: PixelFormatGpu where [PixelFormatGpu_defs]: "PFG_Y410 = 76"
definition PFG_Y416 :: PixelFormatGpu where [PixelFormatGpu_defs]: "PFG_Y416 = 77"
definition PFG_NV12 :: PixelFormatGpu where [PixelFormatGpu_defs]: "PFG_NV12 = 78"
definition PFG_P010 :: PixelFormatGpu where [PixelFormatGpu_defs]: "PFG_P010 = 79"
definition PFG_P016 :: PixelFormatGpu where [PixelFormatGpu_defs]: "PFG_P016 = 80"
definition PFG_420_OPAQUE :: PixelFormatGpu where [PixelFormatGpu_defs]: "PFG_420_OPAQUE = 81"
definition PFG_YUY2 :: PixelFormatGpu where [PixelFormatGpu_defs]: "PFG_YUY2 = 82"
definition PFG_Y210 :: PixelFormatGpu where [PixelFormatGpu_defs]: "PFG_Y210 = 83"
definition PFG_Y216 :: PixelFormatGpu where [PixelFormatGpu_defs]: "PFG_Y216 = 84"
definition PFG_NV11 :: PixelFormatGpu where [PixelFormatGpu_defs]: "PFG_NV11 = 85"
definition PFG_AI44 :: PixelFormatGpu where [PixelFormatGpu_defs]: "PFG_AI44 = 86"
definition PFG_IA44 :: PixelFormatGpu where [PixelFormatGpu_defs]: "PFG_IA44 = 87"
definition PFG_P8 :: PixelFormatGpu where [PixelFormatGpu_defs]: "PFG_P8 = 88"
definition PFG_A8P8 :: PixelFormatGpu where [PixelFormatGpu_defs]: "PFG_A8P8 = 89"
definition PFG_B4G4R4A4_UNORM :: PixelFormatGpu where [PixelFormatGpu_defs]: "PFG_B4G4R4A4_UNORM = 90"
definition PFG_P208 :: PixelFormatGpu where [PixelFormatGpu_defs]: "PFG_P208 = 91"
definition PFG_V208 :: PixelFormatGpu where [PixelFormatGpu_defs]: "PFG_V208 = 92"
definition PFG_V408 :: PixelFormatGpu where [PixelFormatGpu_defs]: "PFG_V408 = 93"
definition PFG_PVRTC_RGB2 :: PixelFormatGpu where [PixelFormatGpu_defs]: "PFG_PVRTC_RGB2 = 94"
definition PFG_PVRTC_RGBA2 :: PixelFormatGpu where [PixelFormatGpu_defs]: "PFG_PVRTC_RGBA2 = 95"
definition PFG_PVRTC_RGB4 :: PixelFormatGpu where [PixelFormatGpu_defs]: "PFG_PVRTC_RGB4 = 96"
definition PFG_PVRTC_RGBA4 :: PixelFormatGpu where [PixelFormatGpu_defs]: "PFG_PVRTC_RGBA4 = 97"
definition PFG_PVRTC2_2BPP :: PixelFormatGpu where [PixelFormatGpu_defs]: "PFG_PVRTC2_2BPP = 98"
definition PFG_PVRTC2_4BPP :: PixelFormatGpu where [PixelFormatGpu_defs]: "PFG_PVRTC2_4BPP = 99"
definition PFG_ETC1_RGB8_UNORM :: PixelFormatGpu where [PixelFormatGpu_defs]: "PFG_ETC1_RGB8_UNORM = 100"
definition PFG_ETC2_RGB8_UNORM :: PixelFormatGpu where [PixelFormatGpu_defs]: "PFG_ETC2_RGB8_UNORM = 101"
definition PFG_ETC2_RGB8_UNORM_SRGB :: PixelFormatGpu where [PixelFormatGpu_defs]: "PFG_ETC2_RGB8_UNORM_SRGB = 102"
definition PFG_ETC2_RGBA8_UNORM :: PixelFormatGpu where [PixelFormatGpu_defs]: "PFG_ETC2_RGBA8_UNORM = 103"
definition PFG_ETC2_RGBA8_UNORM_SRGB :: PixelFormatGpu where [PixelFormatGpu_defs]: "PFG_ETC2_RGBA8_UNORM_SRGB = 104"
definition PFG_ETC2_RGB8A1_UNORM :: PixelFormatGpu where [PixelFormatGpu_defs]: "PFG_ETC2_RGB8A1_UNORM = 105"
definition PFG_ETC2_RGB8A1_UNORM_SRGB :: PixelFormatGpu where [PixelFormatGpu_defs]: "PFG_ETC2_RGB8A1_UNORM_SRGB = 106"
definition PFG_EAC_R11_UNORM :: PixelFormatGpu where [PixelFormatGpu_defs]: "PFG_EAC_R11_UNORM = 107"
definition PFG_EAC_R11_SNORM :: PixelFormatGpu where [PixelFormatGpu_defs]: "PFG_EAC_R11_SNORM = 108"
definition PFG_EAC_R11G11_UNORM :: PixelFormatGpu where [PixelFormatGpu_defs]: "PFG_EAC_R11G11_UNORM = 109"
definition PFG_EAC_R11G11_SNORM :: PixelFormatGpu where [PixelFormatGpu_defs]: "PFG_EAC_R11G11_SNORM = 110"
definition PFG_ATC_RGB :: PixelFormatGpu where [PixelFormatGpu_defs]: "PFG_ATC_RGB = 111"
definition PFG_ATC_RGBA_EXPLICIT_ALPHA :: PixelFormatGpu where [PixelFormatGpu_defs]: "PFG_ATC_RGBA_EXPLICIT_ALPHA = 112"
definition PFG_ATC_RGBA_INTERPOLATED_ALPHA :: PixelFormatGpu where [PixelFormatGpu_defs]: "PFG_ATC_RGBA_INTERPOLATED_ALPHA = 113"
definition PFG_COUNT :: PixelFormatGpu where [PixelFormatGpu_defs]: "PFG_COUNT = 114"

subsection \<open>Flags and descriptors\<close>

text \<open>
  Modelled from the spec: the constants of \<^verbatim>\<open>PixelFormatFlags\<close> are declared in
  \<^verbatim>\<open>OgrePixelFormatGpuUtils.h\<close>, which is not part of the sources at hand. The spec
  describes the flags of a format as a bit set over Float, Half, FloatRare, Integer,
  Signed, Normalized, sRGB, Depth, Stencil, Compressed and Palette: every flag is one
  bit of a \<^verbatim>\<open>uint32\<close>, and the bits are pairwise different.
\<close>

named_theorems PFF_defs

definition PFF_FLOAT :: "32 word" where [PFF_defs]: "PFF_FLOAT = 1"
definition PFF_HALF :: "32 word" where [PFF_defs]: "PFF_HALF = 2"
definition PFF_FLOAT_RARE :: "32 word" where [PFF_defs]: "PFF_FLOAT_RARE = 4"
definition PFF_INTEGER :: "32 word" where [PFF_defs]: "PFF_INTEGER = 8"
definition PFF_NORMALIZED :: "32 word" where [PFF_defs]: "PFF_NORMALIZED = 16"
definition PFF_SIGNED :: "32 word" where [PFF_defs]: "PFF_SIGNED = 32"
definition PFF_DEPTH :: "32 word" where [PFF_defs]: "PFF_DEPTH = 64"
definition PFF_STENCIL :: "32 word" where [PFF_defs]: "PFF_STENCIL = 128"
definition PFF_SRGB :: "32 word" where [PFF_defs]: "PFF_SRGB = 256"
definition PFF_COMPRESSED :: "32 word" where [PFF_defs]: "PFF_COMPRESSED = 512"
definition PFF_PALLETE :: "32 word" where [PFF_defs]: "PFF_PALLETE = 1024"

definition PFF_COMPRESSED_COMMON :: "32 word" where
  [PFF_defs]: "PFF_COMPRESSED_COMMON = PFF_COMPRESSED OR PFF_INTEGER OR PFF_NORMALIZED"

definition sizeof_uint8 :: "32 word" where [PFF_defs]: "sizeof_uint8 = 1"
definition sizeof_uint16 :: "32 word" where [PFF_defs]: "sizeof_uint16 = 2"
definition sizeof_uint32 :: "32 word" where [PFF_defs]: "sizeof_uint32 = 4"

text \<open>
  Modelled from the spec: the struct \<^verbatim>\<open>PixelFormatDesc\<close> is declared in the same
  header. Its members are those of the rows of \<^verbatim>\<open>msPixelFormatDesc\<close>, the spec's
  descriptor: a name, the component count, the bytes per pixel and the flags.
\<close>

record PixelFormatDesc =
  name :: string
  components :: "32 word"
  bytesPerPixel :: "32 word"
  flags :: "32 word"

definition msPixelFormatDesc :: "PixelFormatDesc list" where
  "msPixelFormatDesc =
    [
     \<lparr>name = ''PFG_UNKNOWN'', components = 1, bytesPerPixel = 0, flags = 0\<rparr>,
     \<lparr>name = ''PFG_RGBA32_FLOAT'', components = 4, bytesPerPixel = 4 * sizeof_uint32, flags = PFF_FLOAT\<rparr>,
     \<lparr>name = ''PFG_RGBA32_UINT'', components = 4, bytesPerPixel = 4 * sizeof_uint32, flags = PFF_INTEGER\<rparr>,
     \<lparr>name = ''PFG_RGBA32_INT'', components = 4, bytesPerPixel = 4 * sizeof_uint32, flags = PFF_INTEGER OR PFF_SIGNED\<rparr>,
     \<lparr>name = ''PFG_RGB32_FLOAT'', components = 3, bytesPerPixel = 3 * sizeof_uint32, flags = PFF_FLOAT\<rparr>,
     \<lparr>name = ''PFG_RGB32_UINT'', components = 3, bytesPerPixel = 3 * sizeof_uint32, flags = PFF_INTEGER\<rparr>,
     \<lparr>name = ''PFG_RGB32_INT'', components = 3, bytesPerPixel = 3 * sizeof_uint32, flags = PFF_INTEGER OR PFF_SIGNED\<rparr>,
     \<lparr>name = ''PFG_RGBA16_FLOAT'', components = 4, bytesPerPixel = 4 * sizeof_uint16, flags = PFF_HALF\<rparr>,
     \<lparr>name = ''PFG_RGBA16_UNORM'', components = 4, bytesPerPixel = 4 * sizeof_uint16, flags = PFF_INTEGER OR PFF_NORMALIZED\<rparr>,
     \<lparr>name = ''PFG_RGBA16_UINT'', components = 4, bytesPerPixel = 4 * sizeof_uint16, flags = PFF_INTEGER\<rparr>,
     \<lparr>name = ''PFG_RGBA16_SNORM'', components = 4, bytesPerPixel = 4 * sizeof_uint16, flags = PFF_INTEGER OR PFF_SIGNED OR PFF_NORMALIZED\<rparr>,
     \<lparr>name = ''PFG_RGBA16_SINT'', components = 4, bytesPerPixel = 4 * sizeof_uint16, flags = PFF_INTEGER OR PFF_SIGNED\<rparr>,
     \<lparr>name = ''PFG_RG32_FLOAT'', components = 2, bytesPerPixel = 2 * sizeof_uint32, flags = PFF_FLOAT\<rparr>,
     \<lparr>name = ''PFG_RG32_UINT'', components = 2, bytesPerPixel = 2 * sizeof_uint32, flags = PFF_INTEGER\<rparr>,
     \<lparr>name = ''PFG_RG32_SINT'', components = 2, bytesPerPixel = 2 * sizeof_uint32, flags = PFF_INTEGER OR PFF_SIGNED\<rparr>,
     \<lparr>name = ''PFG_D32_FLOAT_S8X24_UINT'', components = 2, bytesPerPixel = 2 * sizeof_uint32, flags = PFF_FLOAT OR PFF_DEPTH OR PFF_STENCIL\<rparr>,
     \<lparr>name = ''PFG_R10G10B10A2_UNORM'', components = 4, bytesPerPixel = 1 * sizeof_uint32, flags = PFF_INTEGER OR PFF_NORMALIZED\<rparr>,
     \<lparr>name = ''PFG_R10G10B10A2_UINT'', components = 4, bytesPerPixel = 1 * sizeof_uint32, flags = PFF_INTEGER\<rparr>,
     \<lparr>name = ''PFG_R11G11B10_FLOAT'', components = 3, bytesPerPixel = 1 * sizeof_uint32, flags = PFF_FLOAT_RARE\<rparr>,
     \<lparr>name = ''PFG_RGBA8_UNORM'', components = 4, bytesPerPixel = 4 * sizeof_uint8, flags = PFF_INTEGER OR PFF_NORMALIZED\<rparr>,
     \<lparr>name = ''PFG_RGBA8_UNORM_SRGB'', components = 4, bytesPerPixel = 4 * sizeof_uint8, flags = PFF_INTEGER OR PFF_NORMALIZED OR PFF_SRGB\<rparr>,
     \<lparr>name = ''PFG_RGBA8_UINT'', components = 4, bytesPerPixel = 4 * sizeof_uint8, flags = PFF_INTEGER\<rparr>,
     \<lparr>name = ''PFG_RGBA8_SNORM'', components = 4, bytesPerPixel = 4 * sizeof_uint8, flags = PFF_INTEGER OR PFF_SIGNED OR PFF_NORMALIZED\<rparr>,
     \<lparr>name = ''PFG_RGBA8_SINT'', components = 4, bytesPerPixel = 4 * sizeof_uint8, flags = PFF_INTEGER OR PFF_SIGNED\<rparr>,
     \<lparr>name = ''PFG_RG16_FLOAT'', components = 2, bytesPerPixel = 2 * sizeof_uint16, flags = PFF_HALF\<rparr>,
     \<lparr>name = ''PFG_RG16_UNORM'', components = 2, bytesPerPixel = 2 * sizeof_uint16, flags = PFF_INTEGER OR PFF_NORMALIZED\<rparr>,
     \<lparr>name = ''PFG_RG16_UINT'', components = 2, bytesPerPixel = 2 * sizeof_uint16, flags = PFF_INTEGER\<rparr>,
     \<lparr>name = ''PFG_RG16_SNORM'', components = 2, bytesPerPixel = 2 * sizeof_uint16, flags = PFF_INTEGER OR PFF_SIGNED OR PFF_NORMALIZED\<rparr>,
     \<lparr>name = ''PFG_RG16_SINT'', components = 2, bytesPerPixel = 2 * sizeof_uint16, flags = PFF_INTEGER OR PFF_SIGNED\<rparr>,
     \<lparr>name = ''PFG_D32_FLOAT'', components = 1, bytesPerPixel = 1 * sizeof_uint32, flags = PFF_FLOAT OR PFF_DEPTH\<rparr>,
     \<lparr>name = ''PFG_R32_FLOAT'', components = 1, bytesPerPixel = 1 * sizeof_uint32, flags = PFF_FLOAT\<rparr>,
     \<lparr>name = ''PFG_R32_UINT'', components = 1, bytesPerPixel = 1 * sizeof_uint32, flags = PFF_INTEGER\<rparr>,
     \<lparr>name = ''PFG_R32_SINT'', components = 1, bytesPerPixel = 1 * sizeof_uint32, flags = PFF_INTEGER OR PFF_SIGNED\<rparr>,
     \<lparr>name = ''PFG_D24_UNORM'', components = 1, bytesPerPixel = 1 * sizeof_uint32, flags = PFF_INTEGER OR PFF_NORMALIZED OR PFF_DEPTH\<rparr>,
     \<lparr>name = ''PFG_D24_UNORM_S8_UINT'', components = 1, bytesPerPixel = 1 * sizeof_uint32, flags = PFF_INTEGER OR PFF_NORMALIZED OR PFF_DEPTH OR PFF_STENCIL\<rparr>,
     \<lparr>name = ''PFG_RG8_UNORM'', components = 2, bytesPerPixel = 2 * sizeof_uint8, flags = PFF_INTEGER OR PFF_NORMALIZED\<rparr>,
     \<lparr>name = ''PFG_RG8_UINT'', components = 2, bytesPerPixel = 2 * sizeof_uint8, flags = PFF_INTEGER\<rparr>,
     \<lparr>name = ''PFG_RG8_SNORM'', components = 2, bytesPerPixel = 2 * sizeof_uint8, flags = PFF_INTEGER OR PFF_SIGNED OR PFF_NORMALIZED\<rparr>,
     \<lparr>name = ''PFG_RG8_SINT'', components = 2, bytesPerPixel = 2 * sizeof_uint8, flags = PFF_INTEGER OR PFF_SIGNED\<rparr>,
     \<lparr>name = ''PFG_R16_FLOAT'', components = 1, bytesPerPixel = 1 * sizeof_uint16, flags = PFF_HALF\<rparr>,
     \<lparr>name = ''PFG_D16_UNORM'', components = 1, bytesPerPixel = 1 * sizeof_uint16, flags = PFF_INTEGER OR PFF_NORMALIZED OR PFF_DEPTH\<rparr>,
     \<lparr>name = ''PFG_R16_UNORM'', components = 1, bytesPerPixel = 1 * sizeof_uint16, flags = PFF_INTEGER OR PFF_NORMALIZED\<rparr>,
     \<lparr>name = ''PFG_R16_UINT'', components = 1, bytesPerPixel = 1 * sizeof_uint16, flags = PFF_INTEGER\<rparr>,
     \<lparr>name = ''PFG_R16_SNORM'', components = 1, bytesPerPixel = 1 * sizeof_uint16, flags = PFF_INTEGER OR PFF_SIGNED OR PFF_NORMALIZED\<rparr>,
     \<lparr>name = ''PFG_R16_SINT'', components = 1, bytesPerPixel = 1 * sizeof_uint16, flags = PFF_INTEGER OR PFF_SIGNED\<rparr>,
     \<lparr>name = ''PFG_R8_UNORM'', components = 1, bytesPerPixel = 1 * sizeof_uint8, flags = PFF_INTEGER OR PFF_NORMALIZED\<rparr>,
     \<lparr>name = ''PFG_R8_UINT'', components = 1, bytesPerPixel = 1 * sizeof_uint8, flags = PFF_INTEGER\<rparr>,
     \<lparr>name = ''PFG_R8_SNORM'', components = 1, bytesPerPixel = 1 * sizeof_uint8, flags = PFF_INTEGER OR PFF_SIGNED OR PFF_NORMALIZED\<rparr>,
     \<lparr>name = ''PFG_R8_SINT'', components = 1, bytesPerPixel = 1 * sizeof_uint8, flags = PFF_INTEGER OR PFF_SIGNED\<rparr>,
     \<lparr>name = ''PFG_A8_UNORM'', components = 1, bytesPerPixel = 1 * sizeof_uint8, flags = PFF_INTEGER OR PFF_NORMALIZED\<rparr>,
     \<lparr>name = ''PFG_R1_UNORM'', components = 1, bytesPerPixel = 0, flags = 0\<rparr>,
     \<lparr>name = ''PFG_R9G9B9E5_SHAREDEXP'', components = 1, bytesPerPixel = 1 * sizeof_uint32, flags = PFF_FLOAT_RARE\<rparr>,
     \<lparr>name = ''PFG_R8G8_B8G8_UNORM'', components = 4, bytesPerPixel = 4 * sizeof_uint8, flags = PFF_INTEGER OR PFF_NORMALIZED\<rparr>,
     \<lparr>name = ''PFG_G8R8_G8B8_UNORM'', components = 4, bytesPerPixel = 4 * sizeof_uint8, flags = PFF_INTEGER OR PFF_SIGNED OR PFF_NORMALIZED\<rparr>,
     \<lparr>name = ''PFG_BC1_UNORM'', components = 4, bytesPerPixel = 0, flags = PFF_COMPRESSED_COMMON\<rparr>,
     \<lparr>name = ''PFG_BC1_UNORM_SRGB'', components = 4, bytesPerPixel = 0, flags = PFF_COMPRESSED_COMMON OR PFF_SRGB\<rparr>,
     \<lparr>name = ''PFG_BC2_UNORM'', components = 4, bytesPerPixel = 0, flags = PFF_COMPRESSED_COMMON\<rparr>,
     \<lparr>name = ''PFG_BC2_UNORM_SRGB'', components = 4, bytesPerPixel = 0, flags = PFF_COMPRESSED_COMMON OR PFF_SRGB\<rparr>,
     \<lparr>name = ''PFG_BC3_UNORM'', components = 4, bytesPerPixel = 0, flags = PFF_COMPRESSED_COMMON\<rparr>,
     \<lparr>name = ''PFG_BC3_UNORM_SRGB'', components = 4, bytesPerPixel = 0, flags = PFF_COMPRESSED_COMMON OR PFF_SRGB\<rparr>,
     \<lparr>name = ''PFG_BC4_UNORM'', components = 1, bytesPerPixel = 0, flags = PFF_COMPRESSED_COMMON\<rparr>,
     \<lparr>name = ''PFG_BC4_SNORM'', components = 1, bytesPerPixel = 0, flags = PFF_COMPRESSED_COMMON OR PFF_SIGNED\<rparr>,
     \<lparr>name = ''PFG_BC5_UNORM'', components = 2, bytesPerPixel = 0, flags = PFF_COMPRESSED_COMMON\<rparr>,
     \<lparr>name = ''PFG_BC5_SNORM'', components = 2, bytesPerPixel = 0, flags = PFF_COMPRESSED_COMMON OR PFF_SIGNED\<rparr>,
     \<lparr>name = ''PFG_B5G6R5_UNORM'', components = 3, bytesPerPixel = 1 * sizeof_uint16, flags = PFF_INTEGER OR PFF_NORMALIZED\<rparr>,
     \<lparr>name = ''PFG_B5G5R5A1_UNORM'', components = 3, bytesPerPixel = 1 * sizeof_uint16, flags = PFF_INTEGER OR PFF_NORMALIZED\<rparr>,
     \<lparr>name = ''PFG_BGRA8_UNORM'', components = 4, bytesPerPixel = 4 * sizeof_uint8, flags = PFF_INTEGER OR PFF_NORMALIZED\<rparr>,
     \<lparr>name = ''PFG_BGRX8_UNORM'', components = 4, bytesPerPixel = 4 * sizeof_uint8, flags = PFF_INTEGER OR PFF_NORMALIZED\<rparr>,
     \<lparr>name = ''PFG_R10G10B10_XR_BIAS_A2_UNORM'', components = 4, bytesPerPixel = 1 * sizeof_uint32, flags = PFF_FLOAT_RARE\<rparr>,
     \<lparr>name = ''PFG_BGRA8_UNORM_SRGB'', components = 4, bytesPerPixel = 4 * sizeof_uint8, flags = PFF_INTEGER OR PFF_NORMALIZED OR PFF_SRGB\<rparr>,
     \<lparr>name = ''PFG_BGRX8_UNORM_SRGB'', components = 3, bytesPerPixel = 4 * sizeof_uint8, flags = PFF_INTEGER OR PFF_NORMALIZED OR PFF_SRGB\<rparr>,
     \<lparr>name = ''PFG_BC6H_UF16'', components = 3, bytesPerPixel = 0, flags = PFF_COMPRESSED OR PFF_FLOAT_RARE\<rparr>,
     \<lparr>name = ''PFG_BC6H_SF16'', components = 3, bytesPerPixel = 0, flags = PFF_COMPRESSED OR PFF_FLOAT_RARE OR PFF_SIGNED\<rparr>,
     \<lparr>name = ''PFG_BC7_UNORM'', components = 4, bytesPerPixel = 0, flags = PFF_COMPRESSED_COMMON\<rparr>,
     \<lparr>name = ''PFG_BC7_UNORM_SRGB'', components = 4, bytesPerPixel = 0, flags = PFF_COMPRESSED_COMMON OR PFF_SRGB\<rparr>,
     \<lparr>name = ''PFG_AYUV'', components = 3, bytesPerPixel = 0, flags = 0\<rparr>,
     \<lparr>name = ''PFG_Y410'', components = 3, bytesPerPixel = 0, flags = 0\<rparr>,
     \<lparr>name = ''PFG_Y416'', components = 3, bytesPerPixel = 0, flags = 0\<rparr>,
     \<lparr>name = ''PFG_NV12'', components = 3, bytesPerPixel = 0, flags = 0\<rparr>,
     \<lparr>name = ''PFG_P010'', components = 3, bytesPerPixel = 0, flags = 0\<rparr>,
     \<lparr>name = ''PFG_P016'', components = 3, bytesPerPixel = 0, flags = 0\<rparr>,
     \<lparr>name = ''PFG_420_OPAQUE'', components = 3, bytesPerPixel = 0, flags = 0\<rparr>,
     \<lparr>name = ''PFG_YUY2'', components = 3, bytesPerPixel = 0, flags = 0\<rparr>,
     \<lparr>name = ''PFG_Y210'', components = 3, bytesPerPixel = 0, flags = 0\<rparr>,
     \<lparr>name = ''PFG_Y216'', components = 3, bytesPerPixel = 0, flags = 0\<rparr>,
     \<lparr>name = ''PFG_NV11'', components = 3, bytesPerPixel = 0, flags = 0\<rparr>,
     \<lparr>name = ''PFG_AI44'', components = 3, bytesPerPixel = 0, flags = 0\<rparr>,
     \<lparr>name = ''PFG_IA44'', components = 3, bytesPerPixel = 0, flags = 0\<rparr>,
     \<lparr>name = ''PFG_P8'', components = 1, bytesPerPixel = 1 * sizeof_uint8, flags = PFF_PALLETE\<rparr>,
     \<lparr>name = ''PFG_A8P8'', components = 1, bytesPerPixel = 2 * sizeof_uint8, flags = PFF_PALLETE\<rparr>,
     \<lparr>name = ''PFG_B4G4R4A4_UNORM'', components = 4, bytesPerPixel = 1 * sizeof_uint16, flags = PFF_INTEGER OR PFF_NORMALIZED\<rparr>,
     \<lparr>name = ''PFG_P208'', components = 3, bytesPerPixel = 0, flags = 0\<rparr>,
     \<lparr>name = ''PFG_V208'', components = 3, bytesPerPixel = 0, flags = 0\<rparr>,
     \<lparr>name = ''PFG_V408'', components = 3, bytesPerPixel = 0, flags = 0\<rparr>,
     \<lparr>name = ''PFG_PVRTC_RGB2'', components = 3, bytesPerPixel = 0, flags = PFF_COMPRESSED_COMMON\<rparr>,
     \<lparr>name = ''PFG_PVRTC_RGBA2'', components = 4, bytesPerPixel = 0, flags = PFF_COMPRESSED_COMMON\<rparr>,
     \<lparr>name = ''PFG_PVRTC_RGB4'', components = 3, bytesPerPixel = 0, flags = PFF_COMPRESSED_COMMON\<rparr>,
     \<lparr>name = ''PFG_PVRTC_RGBA4'', components = 4, bytesPerPixel = 0, flags = PFF_COMPRESSED_COMMON\<rparr>,
     \<lparr>name = ''PFG_PVRTC2_2BPP'', components = 3, bytesPerPixel = 0, flags = PFF_COMPRESSED_COMMON\<rparr>,
     \<lparr>name = ''PFG_PVRTC2_4BPP'', components = 3, bytesPerPixel = 0, flags = PFF_COMPRESSED_COMMON\<rparr>,
     \<lparr>name = ''PFG_ETC1_RGB8_UNORM'', components = 3, bytesPerPixel = 0, flags = PFF_COMPRESSED_COMMON\<rparr>,
     \<lparr>name = ''PFG_ETC2_RGB8_UNORM'', components = 3, bytesPerPixel = 0, flags = PFF_COMPRESSED_COMMON\<rparr>,
     \<lparr>name = ''PFG_ETC2_RGB8_UNORM_SRGB'', components = 3, bytesPerPixel = 0, flags = PFF_COMPRESSED_COMMON OR PFF_SRGB\<rparr>,
     \<lparr>name = ''PFG_ETC2_RGBA8_UNORM'', components = 4, bytesPerPixel = 0, flags = PFF_COMPRESSED_COMMON\<rparr>,
     \<lparr>name = ''PFG_ETC2_RGBA8_UNORM_SRGB'', components = 4, bytesPerPixel = 0, flags = PFF_COMPRESSED_COMMON OR PFF_SRGB\<rparr>,
     \<lparr>name = ''PFG_ETC2_RGB8A1_UNORM'', components = 4, bytesPerPixel = 0, flags = PFF_COMPRESSED_COMMON\<rparr>,
     \<lparr>name = ''PFG_ETC2_RGB8A1_UNORM_SRGB'', components = 4, bytesPerPixel = 0, flags = PFF_COMPRESSED_COMMON OR PFF_SRGB\<rparr>,
     \<lparr>name = ''PFG_EAC_R11_UNORM'', components = 1, bytesPerPixel = 0, flags = PFF_COMPRESSED_COMMON\<rparr>,
     \<lparr>name = ''PFG_EAC_R11_SNORM'', components = 1, bytesPerPixel = 0, flags = PFF_COMPRESSED_COMMON OR PFF_SIGNED\<rparr>,
     \<lparr>name = ''PFG_EAC_R11G11_UNORM'', components = 2, bytesPerPixel = 0, flags = PFF_COMPRESSED_COMMON\<rparr>,
     \<lparr>name = ''PFG_EAC_R11G11_SNORM'', components = 2, bytesPerPixel = 0, flags = PFF_COMPRESSED_COMMON OR PFF_SIGNED\<rparr>,
     \<lparr>name = ''PFG_ATC_RGB'', components = 3, bytesPerPixel = 0, flags = PFF_COMPRESSED_COMMON\<rparr>,
     \<lparr>name = ''PFG_ATC_RGBA_EXPLICIT_ALPHA'', components = 4, bytesPerPixel = 0, flags = PFF_COMPRESSED_COMMON\<rparr>,
     \<lparr>name = ''PFG_ATC_RGBA_INTERPOLATED_ALPHA'', components = 4, bytesPerPixel = 0, flags = PFF_COMPRESSED_COMMON\<rparr>,
     \<lparr>name = ''PFG_COUNT'', components = 1, bytesPerPixel = 0, flags = 0\<rparr>
    ]"

text \<open>
  \<^verbatim>\<open>getDescriptionFor\<close> asserts \<^verbatim>\<open>idx >= 0 && idx < PFG_COUNT\<close> before it reads the
  table. The failing assertion is the error \<^const>\<open>AssertionFailed\<close>.
\<close>

definition getDescriptionFor :: "PixelFormatGpu \<Rightarrow> error + PixelFormatDesc" where
  "getDescriptionFor fmt =
     (if fmt < PFG_COUNT then Inr (msPixelFormatDesc ! fmt) else Inl AssertionFailed)"

definition getBytesPerPixel :: "PixelFormatGpu \<Rightarrow> error + 64 word" where
  "getBytesPerPixel format =
     (case getDescriptionFor format of Inl e \<Rightarrow> Inl e | Inr desc \<Rightarrow> Inr (ucast (bytesPerPixel desc)))"

definition getNumberOfComponents :: "PixelFormatGpu \<Rightarrow> error + 64 word" where
  "getNumberOfComponents format =
     (case getDescriptionFor format of Inl e \<Rightarrow> Inl e | Inr desc \<Rightarrow> Inr (ucast (components desc)))"

definition getFlags :: "PixelFormatGpu \<Rightarrow> error + 32 word" where
  "getFlags format =
     (case getDescriptionFor format of Inl e \<Rightarrow> Inl e | Inr desc \<Rightarrow> Inr (flags desc))"

definition isCompressed :: "PixelFormatGpu \<Rightarrow> error + bool" where
  "isCompressed format =
     (case getDescriptionFor format of Inl e \<Rightarrow> Inl e
      | Inr desc \<Rightarrow> Inr (flags desc AND PFF_COMPRESSED \<noteq> 0))"

subsection \<open>Sizes\<close>

text \<open>
  Modelled from the spec: \<^verbatim>\<open>alignToNextMultiple\<close> is declared in \<^verbatim>\<open>OgreCommon.h\<close>,
  which is not part of the sources at hand. The spec calls it \<open>alignUp\<close>: the row size
  rounded up to the next multiple of the row alignment, computed on \<^verbatim>\<open>size_t\<close> with
  one integer division. For an alignment of 0 there is no such multiple and the
  division has no result: the model returns \<^const>\<open>DivisionByZero\<close>.
\<close>

definition alignToNextMultiple :: "64 word \<Rightarrow> 64 word \<Rightarrow> error + 64 word" where
  "alignToNextMultiple offset alignment =
     (if alignment = 0 then Inl DivisionByZero
      else Inr (((offset + alignment - 1) div alignment) * alignment))"

definition getSizeBytes ::
  "32 word \<Rightarrow> 32 word \<Rightarrow> 32 word \<Rightarrow> 32 word \<Rightarrow> PixelFormatGpu \<Rightarrow> 32 word \<Rightarrow> error + 64 word"
where
  "getSizeBytes width height depth slices format rowAlignment =
     (case isCompressed format of
        Inl e \<Rightarrow> Inl e
      | Inr compressed \<Rightarrow>
          if \<not> compressed then
            (case getBytesPerPixel format of
               Inl e \<Rightarrow> Inl e
             | Inr bpp \<Rightarrow>
                 (case alignToNextMultiple (ucast width * bpp) (ucast rowAlignment) of
                    Inl e \<Rightarrow> Inl e
                  | Inr retVal \<Rightarrow> Inr (retVal * ucast (height * depth * slices))))
          else if format \<in> {PFG_BC1_UNORM, PFG_BC1_UNORM_SRGB, PFG_BC4_UNORM, PFG_BC4_SNORM,
                             PFG_EAC_R11_UNORM, PFG_EAC_R11_SNORM, PFG_ETC1_RGB8_UNORM,
                             PFG_ETC2_RGB8_UNORM_SRGB, PFG_ETC2_RGB8A1_UNORM,
                             PFG_ETC2_RGB8A1_UNORM_SRGB, PFG_ATC_RGB} then
            Inr (ucast (((width + 3) div 4) * ((height + 3) div 4) * 8 * depth * slices))
          else if format \<in> {PFG_BC2_UNORM, PFG_BC2_UNORM_SRGB, PFG_BC3_UNORM, PFG_BC3_UNORM_SRGB,
                             PFG_BC5_SNORM, PFG_BC5_UNORM, PFG_BC6H_SF16, PFG_BC6H_UF16,
                             PFG_BC7_UNORM, PFG_BC7_UNORM_SRGB, PFG_ETC2_RGBA8_UNORM,
                             PFG_ETC2_RGBA8_UNORM_SRGB, PFG_EAC_R11G11_UNORM,
                             PFG_EAC_R11G11_SNORM, PFG_ATC_RGBA_EXPLICIT_ALPHA,
                             PFG_ATC_RGBA_INTERPOLATED_ALPHA} then
            Inr (ucast (((width + 3) div 4) * ((height + 3) div 4) * 16 * depth * slices))
          else if format \<in> {PFG_PVRTC_RGB2, PFG_PVRTC_RGBA2, PFG_PVRTC2_2BPP} then
            Inr (ucast ((max width 16 * max height 8 * 2 + 7) div 8 * depth * slices))
          else if format \<in> {PFG_PVRTC_RGB4, PFG_PVRTC_RGBA4, PFG_PVRTC2_4BPP} then
            Inr (ucast ((max width 8 * max height 8 * 4 + 7) div 8 * depth * slices))
          else Inl ERR_INVALIDPARAMS)"

text \<open>
  The loop of \<^verbatim>\<open>calculateSizeBytes\<close>, with \<^verbatim>\<open>totalBytes\<close> as accumulator. The
  counter \<^verbatim>\<open>numMipmaps\<close> is a \<^verbatim>\<open>uint8\<close> that the loop decrements while it is
  positive, which bounds the number of iterations.
\<close>

function calculateSizeBytes_loop ::
  "64 word \<Rightarrow> 32 word \<Rightarrow> 32 word \<Rightarrow> 32 word \<Rightarrow> 32 word \<Rightarrow> PixelFormatGpu \<Rightarrow> 8 word \<Rightarrow> 32 word
     \<Rightarrow> error + 64 word"
where
  "calculateSizeBytes_loop totalBytes width height depth slices format numMipmaps rowAlignment =
     (if (width > 1 \<or> height > 1 \<or> depth > 1) \<and> numMipmaps > 0 then
        (case getSizeBytes width height depth slices format rowAlignment of
           Inl e \<Rightarrow> Inl e
         | Inr sz \<Rightarrow>
             calculateSizeBytes_loop (totalBytes + sz)
               (max 1 (drop_bit 1 width)) (max 1 (drop_bit 1 height)) (max 1 (drop_bit 1 depth))
               slices format (numMipmaps - 1) rowAlignment)
      else Inr totalBytes)"
  by pat_completeness auto
termination
proof (relation "measure (\<lambda>(t, w, h, d, s, f, n, a). unat n)")
  show "wf (measure (\<lambda>(t, w, h, d, s, f, n, a). unat n))"
    by simp
next
  fix totalBytes :: "64 word" and width height depth slices rowAlignment :: "32 word"
    and format :: PixelFormatGpu and numMipmaps :: "8 word" and sz :: "64 word"
  assume "(1 < width \<or> 1 < height \<or> 1 < depth) \<and> 0 < numMipmaps"
  then have "numMipmaps \<noteq> 0"
    by auto
  then have "unat (numMipmaps - 1) < unat numMipmaps"
    by (simp add: unat_minus_one unat_gt_0 word_neq_0_conv)
  then show "((totalBytes + sz, max 1 (drop_bit 1 width), max 1 (drop_bit 1 height),
                max 1 (drop_bit 1 depth), slices, format, numMipmaps - 1, rowAlignment),
              totalBytes, width, height, depth, slices, format, numMipmaps, rowAlignment)
             \<in> measure (\<lambda>(t, w, h, d, s, f, n, a). unat n)"
    by simp
qed

declare calculateSizeBytes_loop.simps [simp del]

definition calculateSizeBytes ::
  "32 word \<Rightarrow> 32 word \<Rightarrow> 32 word \<Rightarrow> 32 word \<Rightarrow> PixelFormatGpu \<Rightarrow> 8 word \<Rightarrow> 32 word \<Rightarrow> error + 64 word"
where
  "calculateSizeBytes width height depth slices format numMipmaps rowAlignment =
     calculateSizeBytes_loop 0 width height depth slices format numMipmaps rowAlignment"

text \<open>
  The size of a mip chain as the specification words it: the sum of the sizes of the
  mip levels, the dimensions halved (rounding down, at least 1) after each level,
  until \<open>mipCount\<close> levels have been consumed or all three dimensions have reached 1,
  the level of size 1x1x1 being the last one summed.
\<close>

fun mipChainSizeBytes_spec ::
  "32 word \<Rightarrow> 32 word \<Rightarrow> 32 word \<Rightarrow> 32 word \<Rightarrow> PixelFormatGpu \<Rightarrow> nat \<Rightarrow> 32 word \<Rightarrow> error + 64 word"
where
  "mipChainSizeBytes_spec width height depth slices format 0 rowAlignment = Inr 0"
| "mipChainSizeBytes_spec width height depth slices format (Suc mipCount) rowAlignment =
     (case getSizeBytes width height depth slices format rowAlignment of
        Inl e \<Rightarrow> Inl e
      | Inr sz \<Rightarrow>
          if width \<le> 1 \<and> height \<le> 1 \<and> depth \<le> 1 then Inr sz
          else
            (case mipChainSizeBytes_spec (max 1 (drop_bit 1 width)) (max 1 (drop_bit 1 height))
                    (max 1 (drop_bit 1 depth)) slices format mipCount rowAlignment of
               Inl e \<Rightarrow> Inl e
             | Inr r \<Rightarrow> Inr (sz + r)))"

subsection \<open>Block sizes\<close>

text \<open>
  The default branch of \<^verbatim>\<open>getCompressedBlockWidth\<close> asserts that the format is not
  compressed before it returns 1.
\<close>

definition getCompressedBlockWidth :: "PixelFormatGpu \<Rightarrow> bool \<Rightarrow> error + 32 word" where
  "getCompressedBlockWidth format apiStrict =
     (if format \<in> {PFG_BC1_UNORM, PFG_BC1_UNORM_SRGB, PFG_BC2_UNORM, PFG_BC2_UNORM_SRGB,
                    PFG_BC3_UNORM, PFG_BC3_UNORM_SRGB, PFG_BC4_UNORM, PFG_BC4_SNORM,
                    PFG_BC5_UNORM, PFG_BC5_SNORM, PFG_BC6H_UF16, PFG_BC6H_SF16,
                    PFG_BC7_UNORM, PFG_BC7_UNORM_SRGB,
                    PFG_ETC2_RGB8_UNORM, PFG_ETC2_RGB8_UNORM_SRGB,
                    PFG_ETC2_RGBA8_UNORM, PFG_ETC2_RGBA8_UNORM_SRGB,
                    PFG_ETC2_RGB8A1_UNORM, PFG_ETC2_RGB8A1_UNORM_SRGB,
                    PFG_EAC_R11_UNORM, PFG_EAC_R11_SNORM,
                    PFG_EAC_R11G11_UNORM, PFG_EAC_R11G11_SNORM,
                    PFG_ATC_RGB, PFG_ATC_RGBA_EXPLICIT_ALPHA,
                    PFG_ATC_RGBA_INTERPOLATED_ALPHA} then Inr 4
      else if format = PFG_ETC1_RGB8_UNORM then Inr (if apiStrict then 0 else 4)
      else if format \<in> {PFG_PVRTC_RGB2, PFG_PVRTC_RGBA2, PFG_PVRTC_RGB4, PFG_PVRTC_RGBA4,
                         PFG_PVRTC2_2BPP, PFG_PVRTC2_4BPP} then Inr 0
      else (case isCompressed format of
              Inl e \<Rightarrow> Inl e
            | Inr compressed \<Rightarrow> if compressed then Inl AssertionFailed else Inr 1))"

definition getCompressedBlockHeight :: "PixelFormatGpu \<Rightarrow> bool \<Rightarrow> error + 32 word" where
  "getCompressedBlockHeight format apiStrict = getCompressedBlockWidth format apiStrict"

subsection \<open>Families\<close>

definition getFamily :: "PixelFormatGpu \<Rightarrow> PixelFormatGpu" where
  "getFamily format =
     (if format \<in> {PFG_RGBA32_FLOAT, PFG_RGBA32_UINT, PFG_RGBA32_SINT} then PFG_RGBA32_UINT
      else if format \<in> {PFG_RGB32_FLOAT, PFG_RGB32_UINT, PFG_RGB32_SINT} then PFG_RGB32_UINT
      else if format \<in> {PFG_RGBA16_FLOAT, PFG_RGBA16_UNORM, PFG_RGBA16_UINT, PFG_RGBA16_SNORM,
                         PFG_RGBA16_SINT} then PFG_RGBA16_UINT
      else if format \<in> {PFG_RG32_FLOAT, PFG_RG32_UINT, PFG_RG32_SINT} then PFG_RG32_UINT
      else if format \<in> {PFG_R10G10B10A2_UNORM, PFG_R10G10B10A2_UINT} then PFG_R10G10B10A2_UINT
      else if format = PFG_R11G11B10_FLOAT then PFG_R11G11B10_FLOAT
      else if format \<in> {PFG_RGBA8_UNORM, PFG_RGBA8_UNORM_SRGB, PFG_RGBA8_UINT, PFG_RGBA8_SNORM,
                         PFG_RGBA8_SINT} then PFG_RGBA8_UNORM
      else if format \<in> {PFG_RG16_FLOAT, PFG_RG16_UNORM, PFG_RG16_UINT, PFG_RG16_SNORM,
                         PFG_RG16_SINT} then PFG_RG16_UINT
      else if format \<in> {PFG_D32_FLOAT, PFG_R32_FLOAT, PFG_R32_UINT, PFG_R32_SINT} then PFG_R32_UINT
      else if format \<in> {PFG_D24_UNORM, PFG_D24_UNORM_S8_UINT} then PFG_D24_UNORM_S8_UINT
      else if format \<in> {PFG_RG8_UNORM, PFG_RG8_UINT, PFG_RG8_SNORM, PFG_RG8_SINT} then PFG_RG8_UINT
      else if format \<in> {PFG_R16_FLOAT, PFG_D16_UNORM, PFG_R16_UNORM, PFG_R16_UINT, PFG_R16_SNORM,
                         PFG_R16_SINT} then PFG_R16_UINT
      else if format \<in> {PFG_R8_UNORM, PFG_R8_UINT, PFG_R8_SNORM, PFG_R8_SINT, PFG_A8_UNORM}
        then PFG_R8_UINT
      else if format \<in> {PFG_R8G8_B8G8_UNORM, PFG_G8R8_G8B8_UNORM} then PFG_R8G8_B8G8_UNORM
      else if format \<in> {PFG_BC1_UNORM, PFG_BC1_UNORM_SRGB} then PFG_BC1_UNORM
      else if format \<in> {PFG_BC2_UNORM, PFG_BC2_UNORM_SRGB} then PFG_BC2_UNORM
      else if format \<in> {PFG_BC3_UNORM, PFG_BC3_UNORM_SRGB} then PFG_BC3_UNORM
      else if format \<in> {PFG_BC4_UNORM, PFG_BC4_SNORM} then PFG_BC4_UNORM
      else if format \<in> {PFG_BC5_UNORM, PFG_BC5_SNORM} then PFG_BC5_UNORM
      else if format \<in> {PFG_BGRA8_UNORM, PFG_BGRA8_UNORM_SRGB} then PFG_BGRA8_UNORM
      else if format \<in> {PFG_BGRX8_UNORM, PFG_BGRX8_UNORM_SRGB} then PFG_BGRX8_UNORM
      else if format \<in> {PFG_BC6H_UF16, PFG_BC6H_SF16} then PFG_BC6H_UF16
      else if format \<in> {PFG_BC7_UNORM, PFG_BC7_UNORM_SRGB} then PFG_BC7_UNORM
      else format)"

subsection \<open>Single-precision values\<close>

text \<open>
  A \<^verbatim>\<open>float\<close> is represented by the real number it denotes; infinities and NaN have
  no representation. The conversion of an integer to \<^verbatim>\<open>float\<close> rounds to 24
  significant bits, to nearest and ties to even (\<open>float_of_nat\<close>, \<open>float_of_int\<close>);
  it is exact below \<open>2 ^ 24\<close>. The quotient \<^verbatim>\<open>val / (float)std::numeric_limits<T>::max()\<close>
  of \<^verbatim>\<open>convertToFloat\<close> is rounded to single precision (\<open>float_round\<close>). The
  other sums, products and quotients of the codecs are exact real arithmetic: their
  rounding is not tracked.
\<close>

definition float_of_nat :: "nat \<Rightarrow> real" where
  "float_of_nat n =
     (if n < 2 ^ 24 then real n
      else
        let e = floorlog 2 n - 24;
            q = n div 2 ^ e;
            r = n mod 2 ^ e;
            q' = (if 2 * r > 2 ^ e \<or> (2 * r = 2 ^ e \<and> odd q) then q + 1 else q)
        in real (q' * 2 ^ e))"

definition float_of_int :: "int \<Rightarrow> real" where
  "float_of_int i = (if i < 0 then - float_of_nat (nat (- i)) else float_of_nat (nat i))"

text \<open>
  The result of an arithmetic operation is the value of the format nearest to the exact
  result, ties to even (IEEE 754 binary32, the default rounding mode). For \<open>x\<close> other
  than 0, \<open>float_exponent x\<close> is the integer \<open>e\<close> with \<open>2 ^ e \<le> \<bar>x\<bar> < 2 ^ (e + 1)\<close>
  (lemma \<open>float_exponent_bounds\<close>). The values of the format around \<open>x\<close> are the
  multiples of \<open>2 ^ (e - 23)\<close>, where \<open>e\<close> is not taken below - 126 (subnormal
  values). A magnitude of \<open>2 ^ 128 - 2 ^ 103\<close> or more rounds to an infinity, which has
  no representation here: \<open>float_round\<close> is meant for smaller magnitudes only. It is
  applied to the quotients of \<^verbatim>\<open>convertToFloat\<close>, which are at most \<open>128 / 127\<close> in
  magnitude for the integer types.
\<close>

definition float_exponent :: "real \<Rightarrow> int" where
  "float_exponent x =
     (if 1 \<le> \<bar>x\<bar> then int (floorlog 2 (nat \<lfloor>\<bar>x\<bar>\<rfloor>)) - 1
      else - int (floorlog 2 (nat (\<lceil>1 / \<bar>x\<bar>\<rceil> - 1))))"

definition float_round :: "real \<Rightarrow> real" where
  "float_round x =
     (if x = 0 then 0
      else
        let e = max (float_exponent x) (- 126);
            u = 2 powi (e - 23);
            q = \<lfloor>x / u\<rfloor>;
            r = x / u - of_int q;
            q' = (if 1 / 2 < r \<or> (r = 1 / 2 \<and> odd q) then q + 1 else q)
        in of_int q' * u)"

text \<open>
  The conversion of a \<^verbatim>\<open>float\<close> to an integer type truncates towards zero. C++
  leaves it undefined when the truncated value is not a value of the target type;
  the model stops with \<open>UndefinedConversion\<close> there.
\<close>

definition truncf :: "real \<Rightarrow> int" where
  "truncf x = (if x \<ge> 0 then \<lfloor>x\<rfloor> else \<lceil>x\<rceil>)"

definition float_to_unsigned :: "real \<Rightarrow> error + 'a::len word" where
  "float_to_unsigned x =
     (if 0 \<le> truncf x \<and> truncf x < 2 ^ LENGTH('a) then Inr (word_of_int (truncf x))
      else Inl UndefinedConversion)"

definition float_to_signed :: "real \<Rightarrow> error + 'a::len word" where
  "float_to_signed x =
     (if - (2 ^ (LENGTH('a) - 1)) \<le> truncf x \<and> truncf x < 2 ^ (LENGTH('a) - 1)
      then Inr (word_of_int (truncf x))
      else Inl UndefinedConversion)"

text \<open>\<^verbatim>\<open>roundf\<close>, as the file itself defines it for old compilers: ties away from zero.\<close>

definition roundf :: "real \<Rightarrow> real" where
  "roundf x = (if x \<ge> 0 then of_int \<lfloor>x + 1 / 2\<rfloor> else of_int \<lceil>x - 1 / 2\<rceil>)"

text \<open>
  Modelled from the spec: \<^verbatim>\<open>Math::saturate\<close> and \<^verbatim>\<open>Math::Clamp\<close> are declared in
  \<^verbatim>\<open>OgreMath.h\<close>, which is not part of the sources at hand. The spec has them clamp
  to \<open>[0, 1]\<close> and to the given interval.
\<close>

definition saturate :: "real \<Rightarrow> real" where
  "saturate t = (if t < 0 then 0 else if t > 1 then 1 else t)"

definition Clamp :: "real \<Rightarrow> real \<Rightarrow> real \<Rightarrow> real" where
  "Clamp val minval maxval = max (min val maxval) minval"

text \<open>The transfer functions; \<^verbatim>\<open>powf\<close> is the real power.\<close>

definition toSRGB :: "real \<Rightarrow> real" where
  "toSRGB x = (if x \<le> 0.0031308 then 12.92 * x else 1.055 * (x powr (1 / 2.4)) - 0.055)"

definition fromSRGB :: "real \<Rightarrow> real" where
  "fromSRGB x = (if x \<le> 0.040449907 then x / 12.92 else ((x + 0.055) / 1.055) powr 2.4)"

subsection \<open>Mip counts\<close>

text \<open>
  \<^verbatim>\<open>floorf\<close> is the floor; \<^verbatim>\<open>log2f\<close> belongs to the C library, and how it rounds its
  result is not fixed by the language: \<^verbatim>\<open>getMaxMipmapCount\<close> takes it as a parameter.
  The model follows the branch \<^verbatim>\<open>floorf( log2f( x ) )\<close> of the preprocessor
  conditional. The \<^verbatim>\<open>uint8\<close> counter is promoted for \<^verbatim>\<open>numMipmaps + 1u\<close> and the sum
  is cut to \<^verbatim>\<open>uint8\<close> by the return.
\<close>

definition floorf :: "real \<Rightarrow> real" where
  "floorf x = of_int \<lfloor>x\<rfloor>"

definition getMaxMipmapCount :: "(real \<Rightarrow> real) \<Rightarrow> 32 word \<Rightarrow> error + 8 word" where
  "getMaxMipmapCount log2f maxResolution =
     (if maxResolution = 0 then Inr 0
      else
        bindE (float_to_unsigned (floorf (log2f (float_of_nat (unat maxResolution)))))
          (\<lambda>numMipmaps :: 8 word. Inr (ucast ((ucast numMipmaps :: 32 word) + 1))))"

text \<open>The overloads for two and for three dimensions.\<close>

definition getMaxMipmapCount_wh :: "(real \<Rightarrow> real) \<Rightarrow> 32 word \<Rightarrow> 32 word \<Rightarrow> error + 8 word" where
  "getMaxMipmapCount_wh log2f width height = getMaxMipmapCount log2f (max width height)"

definition getMaxMipmapCount_whd ::
  "(real \<Rightarrow> real) \<Rightarrow> 32 word \<Rightarrow> 32 word \<Rightarrow> 32 word \<Rightarrow> error + 8 word"
where
  "getMaxMipmapCount_whd log2f width height depth =
     getMaxMipmapCount log2f (max (max width height) depth)"

subsection \<open>Pixels in memory\<close>

text \<open>
  \<^verbatim>\<open>packColour\<close> and \<^verbatim>\<open>unpackColour\<close> reach a pixel through a \<^verbatim>\<open>void*\<close> that they
  cast to \<^verbatim>\<open>float*\<close>, \<^verbatim>\<open>uint8*\<close>, \<^verbatim>\<open>uint16*\<close>, \<^verbatim>\<open>uint32*\<close> or to a pointer to the
  template parameter. A pixel is the list of the objects written or read in this way,
  each with the type it was written with. Signed and unsigned integers of one width
  share a cell; the type of the access decides how the bits are read. Reading a cell
  through a pointer to a type of another size or kind depends on the layout of values in
  memory, which is outside this model: such a read, like a read past the end of the
  pixel, is the error \<open>BadAccess\<close>.
\<close>

datatype cell = CFloat real | CU8 "8 word" | CU16 "16 word" | CU32 "32 word"

text \<open>The types at which the templates \<^verbatim>\<open>convertFromFloat\<close> and \<^verbatim>\<open>convertToFloat\<close> are used.\<close>

datatype ctype = T_float | T_uint32 | T_int32 | T_uint16 | T_int16 | T_uint8 | T_int8

text \<open>\<^verbatim>\<open>(float)std::numeric_limits<T>::max()\<close>\<close>

definition numeric_limits_max :: "ctype \<Rightarrow> real" where
  "numeric_limits_max T =
     (case T of
        T_float \<Rightarrow> (2 - 1 / 2 ^ 23) * 2 ^ 127
      | T_uint32 \<Rightarrow> float_of_nat 4294967295
      | T_int32 \<Rightarrow> float_of_nat 2147483647
      | T_uint16 \<Rightarrow> float_of_nat 65535
      | T_int16 \<Rightarrow> float_of_nat 32767
      | T_uint8 \<Rightarrow> float_of_nat 255
      | T_int8 \<Rightarrow> float_of_nat 127)"

text \<open>\<^verbatim>\<open>static_cast<T>( x )\<close> for a \<^verbatim>\<open>float\<close> \<open>x\<close>, stored as an object of type \<open>T\<close>.\<close>

definition static_cast_T :: "ctype \<Rightarrow> real \<Rightarrow> error + cell" where
  "static_cast_T T x =
     (case T of
        T_float \<Rightarrow> Inr (CFloat x)
      | T_uint32 \<Rightarrow> map_sum id CU32 (float_to_unsigned x)
      | T_int32 \<Rightarrow> map_sum id CU32 (float_to_signed x)
      | T_uint16 \<Rightarrow> map_sum id CU16 (float_to_unsigned x)
      | T_int16 \<Rightarrow> map_sum id CU16 (float_to_signed x)
      | T_uint8 \<Rightarrow> map_sum id CU8 (float_to_unsigned x)
      | T_int8 \<Rightarrow> map_sum id CU8 (float_to_signed x))"

text \<open>\<^verbatim>\<open>static_cast<float>( ((const T*)srcPtr)[i] )\<close> for the cell at index \<open>i\<close>.\<close>

definition read_T :: "ctype \<Rightarrow> cell \<Rightarrow> error + real" where
  "read_T T c =
     (case (T, c) of
        (T_float, CFloat x) \<Rightarrow> Inr x
      | (T_uint32, CU32 w) \<Rightarrow> Inr (float_of_int (uint w))
      | (T_int32, CU32 w) \<Rightarrow> Inr (float_of_int (sint w))
      | (T_uint16, CU16 w) \<Rightarrow> Inr (float_of_int (uint w))
      | (T_int16, CU16 w) \<Rightarrow> Inr (float_of_int (sint w))
      | (T_uint8, CU8 w) \<Rightarrow> Inr (float_of_int (uint w))
      | (T_int8, CU8 w) \<Rightarrow> Inr (float_of_int (sint w))
      | _ \<Rightarrow> Inl BadAccess)"

definition cell_at :: "cell list \<Rightarrow> nat \<Rightarrow> error + cell" where
  "cell_at p i = (if i < length p then Inr (p ! i) else Inl BadAccess)"

subsection \<open>The channel codecs\<close>

text \<open>
  \<^verbatim>\<open>Bitwise::floatToHalf\<close> and \<^verbatim>\<open>Bitwise::halfToFloat\<close> are declared in
  \<^verbatim>\<open>OgreBitwise.h\<close>, which is not part of the sources at hand: the codecs take them
  as parameters. The body of the loop of \<^verbatim>\<open>convertFromFloat<T>\<close> is
  \<open>convertFromFloat_channel\<close>, that of \<^verbatim>\<open>convertToFloat<T>\<close> is
  \<open>convertToFloat_channel\<close>.
\<close>

definition convertFromFloat_channel ::
  "(real \<Rightarrow> 16 word) \<Rightarrow> ctype \<Rightarrow> 32 word \<Rightarrow> real \<Rightarrow> error + cell"
where
  "convertFromFloat_channel floatToHalf T flags v =
     (if flags AND PFF_FLOAT \<noteq> 0 then Inr (CFloat v)
      else if flags AND PFF_HALF \<noteq> 0 then Inr (CU16 (floatToHalf v))
      else if flags AND PFF_NORMALIZED \<noteq> 0 then
        (if flags AND PFF_SIGNED = 0 then
           let val = saturate v;
               val = (if flags AND PFF_SRGB \<noteq> 0 then toSRGB val else val);
               val = val * numeric_limits_max T
           in static_cast_T T (roundf val)
         else
           let val = Clamp v (- 1) 1;
               val = val * numeric_limits_max T
           in static_cast_T T (roundf val))
      else static_cast_T T (roundf v))"
  for flags

definition convertFromFloat ::
  "(real \<Rightarrow> 16 word) \<Rightarrow> ctype \<Rightarrow> real list \<Rightarrow> nat \<Rightarrow> 32 word \<Rightarrow> error + cell list"
where
  "convertFromFloat floatToHalf T rgbaPtr numComponents flags =
     sequenceE (map (\<lambda>i. convertFromFloat_channel floatToHalf T flags (rgbaPtr ! i))
                    [0..<numComponents])"
  for flags

definition convertToFloat_channel ::
  "(16 word \<Rightarrow> real) \<Rightarrow> ctype \<Rightarrow> 32 word \<Rightarrow> cell \<Rightarrow> error + real"
where
  "convertToFloat_channel halfToFloat T flags c =
     (if flags AND PFF_FLOAT \<noteq> 0 then
        (case c of CFloat x \<Rightarrow> Inr x | _ \<Rightarrow> Inl BadAccess)
      else if flags AND PFF_HALF \<noteq> 0 then
        (case c of CU16 h \<Rightarrow> Inr (halfToFloat h) | _ \<Rightarrow> Inl BadAccess)
      else if flags AND PFF_NORMALIZED \<noteq> 0 then
        bindE (read_T T c) (\<lambda>val.
          let rawValue = float_round (val / numeric_limits_max T) in
          if flags AND PFF_SIGNED = 0 then
            Inr (if flags AND PFF_SRGB \<noteq> 0 then fromSRGB rawValue else rawValue)
          else Inr (max rawValue (- 1)))
      else read_T T c)"
  for flags

text \<open>
  After the channels, \<^verbatim>\<open>convertToFloat\<close> sets the lanes from \<open>numComponents\<close> up to 2
  to 0 and, when there are fewer than 4 components, the alpha lane to 1.
\<close>

definition convertToFloat ::
  "(16 word \<Rightarrow> real) \<Rightarrow> ctype \<Rightarrow> cell list \<Rightarrow> nat \<Rightarrow> 32 word \<Rightarrow> error + real list"
where
  "convertToFloat halfToFloat T srcPtr numComponents flags =
     bindE (sequenceE (map (\<lambda>i. bindE (cell_at srcPtr i) (convertToFloat_channel halfToFloat T flags))
                           [0..<numComponents]))
       (\<lambda>vs. Inr (vs @ replicate (3 - numComponents) 0 @ (if numComponents < 4 then [1] else [])))"
  for flags

text \<open>
  The decoding rule for a signed normalized channel in the words of the specification,
  in exact arithmetic: the stored value \<open>v\<close> of a channel of \<open>w\<close> bits, divided by
  \<open>2 ^ (w - 1) - 1\<close> and clamped below at \<open>- 1\<close>.
\<close>

definition snorm_decode_spec :: "nat \<Rightarrow> int \<Rightarrow> real" where
  "snorm_decode_spec w v = max (real_of_int v / (2 ^ (w - 1) - 1)) (- 1)"

subsection \<open>packColour and unpackColour\<close>

definition read_float :: "cell list \<Rightarrow> nat \<Rightarrow> error + real" where
  "read_float p i = bindE (cell_at p i) (\<lambda>c. case c of CFloat v \<Rightarrow> Inr v | _ \<Rightarrow> Inl BadAccess)"

definition read_uint32 :: "cell list \<Rightarrow> nat \<Rightarrow> error + 32 word" where
  "read_uint32 p i = bindE (cell_at p i) (\<lambda>c. case c of CU32 v \<Rightarrow> Inr v | _ \<Rightarrow> Inl BadAccess)"

definition read_uint16 :: "cell list \<Rightarrow> nat \<Rightarrow> error + 16 word" where
  "read_uint16 p i = bindE (cell_at p i) (\<lambda>c. case c of CU16 v \<Rightarrow> Inr v | _ \<Rightarrow> Inl BadAccess)"

text \<open>\<^verbatim>\<open>std::swap( rgbaPtr[0], rgbaPtr[2] )\<close>\<close>

definition swap_0_2 :: "real list \<Rightarrow> error + real list" where
  "swap_0_2 rgbaPtr = Inr (rgbaPtr[0 := rgbaPtr ! 2, 2 := rgbaPtr ! 0])"

text \<open>
  \<^verbatim>\<open>packColour\<close> returns the objects it writes through \<^verbatim>\<open>dstPtr\<close>, in the order of
  their addresses. The four lanes are \<open>rgbaPtr ! 0\<close> to \<open>rgbaPtr ! 3\<close>. Operands of
  type \<^verbatim>\<open>uint8\<close> and \<^verbatim>\<open>uint16\<close> are promoted to 32 bits before they are shifted and
  or-ed, and the result is cut to the width of the object stored. The switch has a
  case for every enumerator, so the last branch is never taken for a format that passes
  the assertion of \<^verbatim>\<open>getFlags\<close>.
\<close>

definition packColour ::
  "(real \<Rightarrow> 16 word) \<Rightarrow> real list \<Rightarrow> PixelFormatGpu \<Rightarrow> error + cell list"
where
  "packColour floatToHalf rgbaPtr pf =
     bindE (getFlags pf) (\<lambda>flags.
        if pf = PFG_RGBA32_FLOAT then
          convertFromFloat floatToHalf T_float rgbaPtr 4 flags
        else if pf = PFG_RGBA32_UINT then
          convertFromFloat floatToHalf T_uint32 rgbaPtr 4 flags
        else if pf = PFG_RGBA32_SINT then
          convertFromFloat floatToHalf T_int32 rgbaPtr 4 flags
        else if pf = PFG_RGB32_FLOAT then
          convertFromFloat floatToHalf T_float rgbaPtr 3 flags
        else if pf = PFG_RGB32_UINT then
          convertFromFloat floatToHalf T_uint32 rgbaPtr 3 flags
        else if pf = PFG_RGB32_SINT then
          convertFromFloat floatToHalf T_int32 rgbaPtr 3 flags
        else if pf = PFG_RGBA16_FLOAT then
          convertFromFloat floatToHalf T_uint16 rgbaPtr 4 flags
        else if pf = PFG_RGBA16_UNORM then
          convertFromFloat floatToHalf T_uint16 rgbaPtr 4 flags
        else if pf = PFG_RGBA16_UINT then
          convertFromFloat floatToHalf T_uint16 rgbaPtr 4 flags
        else if pf = PFG_RGBA16_SNORM then
          convertFromFloat floatToHalf T_int16 rgbaPtr 4 flags
        else if pf = PFG_RGBA16_SINT then
          convertFromFloat floatToHalf T_int16 rgbaPtr 4 flags
        else if pf = PFG_RG32_FLOAT then
          convertFromFloat floatToHalf T_float rgbaPtr 2 flags
        else if pf = PFG_RG32_UINT then
          convertFromFloat floatToHalf T_uint32 rgbaPtr 2 flags
        else if pf = PFG_RG32_SINT then
          convertFromFloat floatToHalf T_int32 rgbaPtr 2 flags
        else if pf = PFG_D32_FLOAT_S8X24_UINT then
          bindE (float_to_unsigned (rgbaPtr ! 1)) (\<lambda>s :: 32 word.
            Inr [CFloat (rgbaPtr ! 0), CU32 (push_bit 24 s)])
        else if pf = PFG_R10G10B10A2_UNORM then
          bindE (float_to_unsigned (saturate (rgbaPtr ! 0) * 1023 + 0.5)) (\<lambda>ir :: 16 word.
          bindE (float_to_unsigned (saturate (rgbaPtr ! 1) * 1023 + 0.5)) (\<lambda>ig :: 16 word.
          bindE (float_to_unsigned (saturate (rgbaPtr ! 2) * 1023 + 0.5)) (\<lambda>ib :: 16 word.
          bindE (float_to_unsigned (saturate (rgbaPtr ! 3) * 3 + 0.5)) (\<lambda>ia :: 16 word.
            Inr [CU32 (push_bit 30 (ucast ia) OR push_bit 20 (ucast ib) OR push_bit 10 (ucast ig)
                       OR ucast ir)]))))
        else if pf = PFG_R10G10B10A2_UINT then
          bindE (float_to_unsigned (Clamp (rgbaPtr ! 0) 0 1023)) (\<lambda>ir :: 16 word.
          bindE (float_to_unsigned (Clamp (rgbaPtr ! 1) 0 1023)) (\<lambda>ig :: 16 word.
          bindE (float_to_unsigned (Clamp (rgbaPtr ! 2) 0 1023)) (\<lambda>ib :: 16 word.
          bindE (float_to_unsigned (Clamp (rgbaPtr ! 3) 0 3)) (\<lambda>ia :: 16 word.
            Inr [CU32 (push_bit 30 (ucast ia) OR push_bit 20 (ucast ib) OR push_bit 10 (ucast ig)
                       OR ucast ir)]))))
        else if pf = PFG_R11G11B10_FLOAT then
          Inl ERR_NOT_IMPLEMENTED
        else if pf = PFG_RGBA8_UNORM then
          convertFromFloat floatToHalf T_uint8 rgbaPtr 4 flags
        else if pf = PFG_RGBA8_UNORM_SRGB then
          convertFromFloat floatToHalf T_uint8 rgbaPtr 4 flags
        else if pf = PFG_RGBA8_UINT then
          convertFromFloat floatToHalf T_uint8 rgbaPtr 4 flags
        else if pf = PFG_RGBA8_SNORM then
          convertFromFloat floatToHalf T_int8 rgbaPtr 4 flags
        else if pf = PFG_RGBA8_SINT then
          convertFromFloat floatToHalf T_int8 rgbaPtr 4 flags
        else if pf = PFG_RG16_FLOAT then
          convertFromFloat floatToHalf T_uint16 rgbaPtr 2 flags
        else if pf = PFG_RG16_UNORM then
          convertFromFloat floatToHalf T_uint16 rgbaPtr 2 flags
        else if pf = PFG_RG16_UINT then
          convertFromFloat floatToHalf T_uint16 rgbaPtr 2 flags
        else if pf = PFG_RG16_SNORM then
          convertFromFloat floatToHalf T_int16 rgbaPtr 2 flags
        else if pf = PFG_RG16_SINT then
          convertFromFloat floatToHalf T_int16 rgbaPtr 2 flags
        else if pf = PFG_D32_FLOAT then
          convertFromFloat floatToHalf T_float rgbaPtr 1 flags
        else if pf = PFG_R32_FLOAT then
          convertFromFloat floatToHalf T_float rgbaPtr 1 flags
        else if pf = PFG_R32_UINT then
          convertFromFloat floatToHalf T_uint32 rgbaPtr 1 flags
        else if pf = PFG_R32_SINT then
          convertFromFloat floatToHalf T_int32 rgbaPtr 1 flags
        else if pf = PFG_D24_UNORM then
          bindE (float_to_unsigned (roundf (rgbaPtr ! 0 * 16777215))) (\<lambda>d :: 32 word.
            Inr [CU32 d])
        else if pf = PFG_D24_UNORM_S8_UINT then
          bindE (float_to_unsigned (rgbaPtr ! 1)) (\<lambda>s :: 32 word.
          bindE (float_to_unsigned (roundf (rgbaPtr ! 0 * 16777215))) (\<lambda>d :: 32 word.
            Inr [CU32 (push_bit 24 s OR d)]))
        else if pf = PFG_RG8_UNORM then
          convertFromFloat floatToHalf T_uint8 rgbaPtr 2 flags
        else if pf = PFG_RG8_UINT then
          convertFromFloat floatToHalf T_uint8 rgbaPtr 2 flags
        else if pf = PFG_RG8_SNORM then
          convertFromFloat floatToHalf T_int8 rgbaPtr 2 flags
        else if pf = PFG_RG8_SINT then
          convertFromFloat floatToHalf T_int8 rgbaPtr 2 flags
        else if pf = PFG_R16_FLOAT then
          convertFromFloat floatToHalf T_uint16 rgbaPtr 1 flags
        else if pf = PFG_D16_UNORM then
          convertFromFloat floatToHalf T_uint16 rgbaPtr 1 flags
        else if pf = PFG_R16_UNORM then
          convertFromFloat floatToHalf T_uint16 rgbaPtr 1 flags
        else if pf = PFG_R16_UINT then
          convertFromFloat floatToHalf T_uint16 rgbaPtr 1 flags
        else if pf = PFG_R16_SNORM then
          convertFromFloat floatToHalf T_int16 rgbaPtr 1 flags
        else if pf = PFG_R16_SINT then
          convertFromFloat floatToHalf T_int16 rgbaPtr 1 flags
        else if pf = PFG_R8_UNORM then
          convertFromFloat floatToHalf T_uint8 rgbaPtr 1 flags
        else if pf = PFG_R8_UINT then
          convertFromFloat floatToHalf T_uint8 rgbaPtr 1 flags
        else if pf = PFG_R8_SNORM then
          convertFromFloat floatToHalf T_int8 rgbaPtr 1 flags
        else if pf = PFG_R8_SINT then
          convertFromFloat floatToHalf T_int8 rgbaPtr 1 flags
        else if pf = PFG_A8_UNORM then
          convertFromFloat floatToHalf T_uint8 rgbaPtr 1 flags
        else if pf \<in> {PFG_R1_UNORM, PFG_R9G9B9E5_SHAREDEXP, PFG_R8G8_B8G8_UNORM,
                   PFG_G8R8_G8B8_UNORM} then
          Inl ERR_NOT_IMPLEMENTED
        else if pf = PFG_B5G6R5_UNORM then
          bindE (float_to_unsigned (saturate (rgbaPtr ! 0) * 31 + 0.5)) (\<lambda>ir :: 8 word.
          bindE (float_to_unsigned (saturate (rgbaPtr ! 1) * 63 + 0.5)) (\<lambda>ig :: 8 word.
          bindE (float_to_unsigned (saturate (rgbaPtr ! 2) * 31 + 0.5)) (\<lambda>ib :: 8 word.
            Inr [CU16 (ucast (push_bit 11 (ucast ir :: 32 word) OR push_bit 5 (ucast ig)
                              OR ucast ib))])))
        else if pf = PFG_B5G5R5A1_UNORM then
          bindE (float_to_unsigned (saturate (rgbaPtr ! 0) * 31 + 0.5)) (\<lambda>ir :: 8 word.
          bindE (float_to_unsigned (saturate (rgbaPtr ! 1) * 31 + 0.5)) (\<lambda>ig :: 8 word.
          bindE (float_to_unsigned (saturate (rgbaPtr ! 2) * 31 + 0.5)) (\<lambda>ib :: 8 word.
            let ia = (if rgbaPtr ! 3 = 0 then 0 else 1 :: 8 word) in
            Inr [CU16 (ucast (push_bit 15 (ucast ia :: 32 word) OR push_bit 10 (ucast ir)
                              OR push_bit 5 (ucast ig) OR ucast ib))])))
        else if pf = PFG_BGRA8_UNORM then
          bindE (float_to_unsigned (saturate (rgbaPtr ! 2) * 255 + 0.5)) (\<lambda>b0 :: 8 word.
          bindE (float_to_unsigned (saturate (rgbaPtr ! 1) * 255 + 0.5)) (\<lambda>b1 :: 8 word.
          bindE (float_to_unsigned (saturate (rgbaPtr ! 0) * 255 + 0.5)) (\<lambda>b2 :: 8 word.
          bindE (float_to_unsigned (saturate (rgbaPtr ! 3) * 255 + 0.5)) (\<lambda>b3 :: 8 word.
            Inr [CU8 b0, CU8 b1, CU8 b2, CU8 b3]))))
        else if pf = PFG_BGRX8_UNORM then
          bindE (float_to_unsigned (saturate (rgbaPtr ! 2) * 255 + 0.5)) (\<lambda>b0 :: 8 word.
          bindE (float_to_unsigned (saturate (rgbaPtr ! 1) * 255 + 0.5)) (\<lambda>b1 :: 8 word.
          bindE (float_to_unsigned (saturate (rgbaPtr ! 0) * 255 + 0.5)) (\<lambda>b2 :: 8 word.
            Inr [CU8 b0, CU8 b1, CU8 b2, CU8 255])))
        else if pf = PFG_R10G10B10_XR_BIAS_A2_UNORM then
          Inl ERR_NOT_IMPLEMENTED
        else if pf = PFG_BGRA8_UNORM_SRGB then
          bindE (float_to_unsigned (saturate (toSRGB (rgbaPtr ! 2)) * 255 + 0.5)) (\<lambda>b0 :: 8 word.
          bindE (float_to_unsigned (saturate (toSRGB (rgbaPtr ! 1)) * 255 + 0.5)) (\<lambda>b1 :: 8 word.
          bindE (float_to_unsigned (saturate (toSRGB (rgbaPtr ! 0)) * 255 + 0.5)) (\<lambda>b2 :: 8 word.
          bindE (float_to_unsigned (saturate (rgbaPtr ! 3) * 255 + 0.5)) (\<lambda>b3 :: 8 word.
            Inr [CU8 b0, CU8 b1, CU8 b2, CU8 b3]))))
        else if pf = PFG_BGRX8_UNORM_SRGB then
          bindE (float_to_unsigned (saturate (toSRGB (rgbaPtr ! 2)) * 255 + 0.5)) (\<lambda>b0 :: 8 word.
          bindE (float_to_unsigned (saturate (toSRGB (rgbaPtr ! 1)) * 255 + 0.5)) (\<lambda>b1 :: 8 word.
          bindE (float_to_unsigned (saturate (toSRGB (rgbaPtr ! 0)) * 255 + 0.5)) (\<lambda>b2 :: 8 word.
            Inr [CU8 b0, CU8 b1, CU8 b2, CU8 255])))
        else if pf = PFG_B4G4R4A4_UNORM then
          bindE (float_to_unsigned (saturate (rgbaPtr ! 0) * 15 + 0.5)) (\<lambda>ir :: 8 word.
          bindE (float_to_unsigned (saturate (rgbaPtr ! 1) * 15 + 0.5)) (\<lambda>ig :: 8 word.
          bindE (float_to_unsigned (saturate (rgbaPtr ! 2) * 15 + 0.5)) (\<lambda>ib :: 8 word.
          bindE (float_to_unsigned (saturate (rgbaPtr ! 2) * 15 + 0.5)) (\<lambda>ia :: 8 word.
            Inr [CU16 (ucast (push_bit 12 (ucast ia :: 32 word) OR push_bit 8 (ucast ir)
                              OR push_bit 4 (ucast ig) OR ucast ib))]))))
        else if pf \<in> {PFG_AYUV, PFG_Y410, PFG_Y416, PFG_NV12, PFG_P010, PFG_P016,
                   PFG_420_OPAQUE, PFG_YUY2, PFG_Y210, PFG_Y216, PFG_NV11, PFG_AI44,
                   PFG_IA44, PFG_P8, PFG_A8P8, PFG_P208, PFG_V208, PFG_V408, PFG_UNKNOWN,
                   PFG_COUNT} then
          Inl ERR_NOT_IMPLEMENTED
        else if pf \<in> {PFG_BC1_UNORM, PFG_BC1_UNORM_SRGB, PFG_BC2_UNORM, PFG_BC2_UNORM_SRGB,
                   PFG_BC3_UNORM, PFG_BC3_UNORM_SRGB, PFG_BC4_UNORM, PFG_BC4_SNORM,
                   PFG_BC5_UNORM, PFG_BC5_SNORM, PFG_BC6H_UF16, PFG_BC6H_SF16,
                   PFG_BC7_UNORM, PFG_BC7_UNORM_SRGB, PFG_PVRTC_RGB2, PFG_PVRTC_RGBA2,
                   PFG_PVRTC_RGB4, PFG_PVRTC_RGBA4, PFG_PVRTC2_2BPP, PFG_PVRTC2_4BPP,
                   PFG_ETC1_RGB8_UNORM, PFG_ETC2_RGB8_UNORM, PFG_ETC2_RGB8_UNORM_SRGB,
                   PFG_ETC2_RGBA8_UNORM, PFG_ETC2_RGBA8_UNORM_SRGB, PFG_ETC2_RGB8A1_UNORM,
                   PFG_ETC2_RGB8A1_UNORM_SRGB, PFG_EAC_R11_UNORM, PFG_EAC_R11_SNORM,
                   PFG_EAC_R11G11_UNORM, PFG_EAC_R11G11_SNORM, PFG_ATC_RGB,
                   PFG_ATC_RGBA_EXPLICIT_ALPHA, PFG_ATC_RGBA_INTERPOLATED_ALPHA} then
          Inl ERR_INVALIDPARAMS
        else Inr [])"

text \<open>\<^verbatim>\<open>unpackColour\<close> returns the four lanes it writes to \<^verbatim>\<open>rgbaPtr\<close>.\<close>

definition unpackColour ::
  "(16 word \<Rightarrow> real) \<Rightarrow> PixelFormatGpu \<Rightarrow> cell list \<Rightarrow> error + real list"
where
  "unpackColour halfToFloat pf srcPtr =
     bindE (getFlags pf) (\<lambda>flags.
        if pf = PFG_RGBA32_FLOAT then
          convertToFloat halfToFloat T_float srcPtr 4 flags
        else if pf = PFG_RGBA32_UINT then
          convertToFloat halfToFloat T_uint32 srcPtr 4 flags
        else if pf = PFG_RGBA32_SINT then
          convertToFloat halfToFloat T_int32 srcPtr 4 flags
        else if pf = PFG_RGB32_FLOAT then
          convertToFloat halfToFloat T_float srcPtr 3 flags
        else if pf = PFG_RGB32_UINT then
          convertToFloat halfToFloat T_uint32 srcPtr 3 flags
        else if pf = PFG_RGB32_SINT then
          convertToFloat halfToFloat T_int32 srcPtr 3 flags
        else if pf = PFG_RGBA16_FLOAT then
          convertToFloat halfToFloat T_uint16 srcPtr 4 flags
        else if pf = PFG_RGBA16_UNORM then
          convertToFloat halfToFloat T_uint16 srcPtr 4 flags
        else if pf = PFG_RGBA16_UINT then
          convertToFloat halfToFloat T_uint16 srcPtr 4 flags
        else if pf = PFG_RGBA16_SNORM then
          convertToFloat halfToFloat T_int16 srcPtr 4 flags
        else if pf = PFG_RGBA16_SINT then
          convertToFloat halfToFloat T_int16 srcPtr 4 flags
        else if pf = PFG_RG32_FLOAT then
          convertToFloat halfToFloat T_float srcPtr 2 flags
        else if pf = PFG_RG32_UINT then
          convertToFloat halfToFloat T_uint32 srcPtr 2 flags
        else if pf = PFG_RG32_SINT then
          convertToFloat halfToFloat T_int32 srcPtr 2 flags
        else if pf = PFG_D32_FLOAT_S8X24_UINT then
          bindE (read_float srcPtr 0) (\<lambda>d.
          bindE (read_uint32 srcPtr 1) (\<lambda>s.
            Inr [d, float_of_nat (unat (drop_bit 24 s)), 0, 1]))
        else if pf = PFG_R10G10B10A2_UNORM then
          bindE (read_uint32 srcPtr 0) (\<lambda>val.
            Inr [float_of_nat (unat (val AND 0x3FF)) / 1023,
                 float_of_nat (unat (drop_bit 10 val AND 0x3FF)) / 1023,
                 float_of_nat (unat (drop_bit 20 val AND 0x3FF)) / 1023,
                 float_of_nat (unat (drop_bit 30 val)) / 3])
        else if pf = PFG_R10G10B10A2_UINT then
          bindE (read_uint32 srcPtr 0) (\<lambda>val.
            Inr [float_of_nat (unat (val AND 0x3FF)),
                 float_of_nat (unat (drop_bit 10 val AND 0x3FF)),
                 float_of_nat (unat (drop_bit 20 val AND 0x3FF)),
                 float_of_nat (unat (drop_bit 30 val))])
        else if pf = PFG_R11G11B10_FLOAT then
          Inl ERR_NOT_IMPLEMENTED
        else if pf = PFG_RGBA8_UNORM then
          convertToFloat halfToFloat T_uint8 srcPtr 4 flags
        else if pf = PFG_RGBA8_UNORM_SRGB then
          convertToFloat halfToFloat T_uint8 srcPtr 4 flags
        else if pf = PFG_RGBA8_UINT then
          convertToFloat halfToFloat T_uint8 srcPtr 4 flags
        else if pf = PFG_RGBA8_SNORM then
          convertToFloat halfToFloat T_int8 srcPtr 4 flags
        else if pf = PFG_RGBA8_SINT then
          convertToFloat halfToFloat T_int8 srcPtr 4 flags
        else if pf = PFG_RG16_FLOAT then
          convertToFloat halfToFloat T_uint16 srcPtr 2 flags
        else if pf = PFG_RG16_UNORM then
          convertToFloat halfToFloat T_uint16 srcPtr 2 flags
        else if pf = PFG_RG16_UINT then
          convertToFloat halfToFloat T_uint16 srcPtr 2 flags
        else if pf = PFG_RG16_SNORM then
          convertToFloat halfToFloat T_int16 srcPtr 2 flags
        else if pf = PFG_RG16_SINT then
          convertToFloat halfToFloat T_int16 srcPtr 2 flags
        else if pf = PFG_D32_FLOAT then
          convertToFloat halfToFloat T_float srcPtr 1 flags
        else if pf = PFG_R32_FLOAT then
          convertToFloat halfToFloat T_float srcPtr 1 flags
        else if pf = PFG_R32_UINT then
          convertToFloat halfToFloat T_uint32 srcPtr 1 flags
        else if pf = PFG_R32_SINT then
          convertToFloat halfToFloat T_int32 srcPtr 1 flags
        else if pf = PFG_D24_UNORM then
          bindE (read_uint32 srcPtr 0) (\<lambda>val.
            Inr [float_of_nat (unat val) / 16777215, 0, 0, 1])
        else if pf = PFG_D24_UNORM_S8_UINT then
          bindE (read_uint32 srcPtr 0) (\<lambda>val.
            Inr [float_of_nat (unat (val AND 0x00FFFFFF)) / 16777215,
                 float_of_nat (unat (drop_bit 24 val)), 0, 1])
        else if pf = PFG_RG8_UNORM then
          convertToFloat halfToFloat T_uint8 srcPtr 2 flags
        else if pf = PFG_RG8_UINT then
          convertToFloat halfToFloat T_uint8 srcPtr 2 flags
        else if pf = PFG_RG8_SNORM then
          convertToFloat halfToFloat T_int8 srcPtr 2 flags
        else if pf = PFG_RG8_SINT then
          convertToFloat halfToFloat T_int8 srcPtr 2 flags
        else if pf = PFG_R16_FLOAT then
          convertToFloat halfToFloat T_uint16 srcPtr 1 flags
        else if pf = PFG_D16_UNORM then
          convertToFloat halfToFloat T_uint16 srcPtr 1 flags
        else if pf = PFG_R16_UNORM then
          convertToFloat halfToFloat T_uint16 srcPtr 1 flags
        else if pf = PFG_R16_UINT then
          convertToFloat halfToFloat T_uint16 srcPtr 1 flags
        else if pf = PFG_R16_SNORM then
          convertToFloat halfToFloat T_int16 srcPtr 1 flags
        else if pf = PFG_R16_SINT then
          convertToFloat halfToFloat T_int16 srcPtr 1 flags
        else if pf = PFG_R8_UNORM then
          convertToFloat halfToFloat T_uint8 srcPtr 1 flags
        else if pf = PFG_R8_UINT then
          convertToFloat halfToFloat T_uint8 srcPtr 1 flags
        else if pf = PFG_R8_SNORM then
          convertToFloat halfToFloat T_int8 srcPtr 1 flags
        else if pf = PFG_R8_SINT then
          convertToFloat halfToFloat T_int8 srcPtr 1 flags
        else if pf = PFG_A8_UNORM then
          bindE (read_uint32 srcPtr 0) (\<lambda>val.
            Inr [0, 0, 0, float_of_nat (unat val)])
        else if pf \<in> {PFG_R1_UNORM, PFG_R9G9B9E5_SHAREDEXP, PFG_R8G8_B8G8_UNORM,
                   PFG_G8R8_G8B8_UNORM} then
          Inl ERR_NOT_IMPLEMENTED
        else if pf = PFG_B5G6R5_UNORM then
          bindE (read_uint16 srcPtr 0) (\<lambda>val.
            Inr [float_of_nat (unat (drop_bit 11 (ucast val :: 32 word) AND 0x1F)) / 31,
                 float_of_nat (unat (drop_bit 5 (ucast val :: 32 word) AND 0x3F)) / 63,
                 float_of_nat (unat ((ucast val :: 32 word) AND 0x1F)) / 31,
                 1])
        else if pf = PFG_B5G5R5A1_UNORM then
          bindE (read_uint16 srcPtr 0) (\<lambda>val.
            Inr [float_of_nat (unat (drop_bit 10 (ucast val :: 32 word) AND 0x1F)) / 31,
                 float_of_nat (unat (drop_bit 5 (ucast val :: 32 word) AND 0x1F)) / 31,
                 float_of_nat (unat ((ucast val :: 32 word) AND 0x1F)) / 31,
                 (if drop_bit 15 (ucast val :: 32 word) = 0 then 0 else 1)])
        else if pf = PFG_BGRA8_UNORM then
          bindE (convertToFloat halfToFloat T_uint8 srcPtr 4 flags) swap_0_2
        else if pf = PFG_BGRX8_UNORM then
          bindE (convertToFloat halfToFloat T_uint8 srcPtr 4 flags) swap_0_2
        else if pf = PFG_R10G10B10_XR_BIAS_A2_UNORM then
          Inl ERR_NOT_IMPLEMENTED
        else if pf = PFG_BGRA8_UNORM_SRGB then
          bindE (convertToFloat halfToFloat T_uint8 srcPtr 4 flags) swap_0_2
        else if pf = PFG_BGRX8_UNORM_SRGB then
          bindE (convertToFloat halfToFloat T_uint8 srcPtr 3 flags) swap_0_2
        else if pf = PFG_B4G4R4A4_UNORM then
          bindE (read_uint16 srcPtr 0) (\<lambda>val.
            Inr [float_of_nat (unat (drop_bit 8 (ucast val :: 32 word) AND 0xF)) / 15,
                 float_of_nat (unat (drop_bit 4 (ucast val :: 32 word) AND 0xF)) / 15,
                 float_of_nat (unat ((ucast val :: 32 word) AND 0xF)) / 15,
                 float_of_nat (unat (drop_bit 12 (ucast val :: 32 word) AND 0xF)) / 15])
        else if pf \<in> {PFG_AYUV, PFG_Y410, PFG_Y416, PFG_NV12, PFG_P010, PFG_P016,
                   PFG_420_OPAQUE, PFG_YUY2, PFG_Y210, PFG_Y216, PFG_NV11, PFG_AI44,
                   PFG_IA44, PFG_P8, PFG_A8P8, PFG_P208, PFG_V208, PFG_V408, PFG_UNKNOWN,
                   PFG_COUNT} then
          Inl ERR_NOT_IMPLEMENTED
        else if pf \<in> {PFG_BC1_UNORM, PFG_BC1_UNORM_SRGB, PFG_BC2_UNORM, PFG_BC2_UNORM_SRGB,
                   PFG_BC3_UNORM, PFG_BC3_UNORM_SRGB, PFG_BC4_UNORM, PFG_BC4_SNORM,
                   PFG_BC5_UNORM, PFG_BC5_SNORM, PFG_BC6H_UF16, PFG_BC6H_SF16,
                   PFG_BC7_UNORM, PFG_BC7_UNORM_SRGB, PFG_PVRTC_RGB2, PFG_PVRTC_RGBA2,
                   PFG_PVRTC_RGB4, PFG_PVRTC_RGBA4, PFG_PVRTC2_2BPP, PFG_PVRTC2_4BPP,
                   PFG_ETC1_RGB8_UNORM, PFG_ETC2_RGB8_UNORM, PFG_ETC2_RGB8_UNORM_SRGB,
                   PFG_ETC2_RGBA8_UNORM, PFG_ETC2_RGBA8_UNORM_SRGB, PFG_ETC2_RGB8A1_UNORM,
                   PFG_ETC2_RGB8A1_UNORM_SRGB, PFG_EAC_R11_UNORM, PFG_EAC_R11_SNORM,
                   PFG_EAC_R11G11_UNORM, PFG_EAC_R11G11_SNORM, PFG_ATC_RGB,
                   PFG_ATC_RGBA_EXPLICIT_ALPHA, PFG_ATC_RGBA_INTERPOLATED_ALPHA} then
          Inl ERR_INVALIDPARAMS
        else Inr [])"

subsection \<open>Regions and bulk conversion\<close>

text \<open>
  Memory is an array of bytes indexed by 64-bit addresses. \<^verbatim>\<open>memcpy\<close> copies \<open>n\<close>
  bytes; C leaves it undefined when the two ranges overlap, the model reads the source
  range as it is before the copy.
\<close>

type_synonym memory = "64 word \<Rightarrow> 8 word"

definition memcpy :: "64 word \<Rightarrow> 64 word \<Rightarrow> 64 word \<Rightarrow> memory \<Rightarrow> memory" where
  "memcpy dst src n mem = (\<lambda>a. if a - dst < n then mem (src + (a - dst)) else mem a)"

text \<open>
  Modelled from the spec: \<^verbatim>\<open>TextureBox\<close> is declared in \<^verbatim>\<open>OgreTextureBox.h\<close>, which
  is not part of the sources at hand. The spec describes a region by its extent, its
  offset \<open>(x, y, z)\<close>, the strides \<open>bytesPerPixel\<close>, \<open>bytesPerRow\<close> and
  \<open>bytesPerImage\<close> of its buffer, a first slice and a slice count, and a handle to a
  buffer it does not own. The record has the members that \<^verbatim>\<open>bulkPixelConversion\<close>
  reads, each with the prefix \<open>box_\<close>; the member functions it calls follow: two
  regions have equal size when width, height, depth and slice count agree, the depth or
  slice count is the larger of the two, as is the first index among \<open>z\<close> and the first
  slice, and \<open>at\<close> (here \<open>at_box\<close>) is the address of a pixel by the three strides.
\<close>

record TextureBox =
  box_x :: "32 word"
  box_y :: "32 word"
  box_z :: "32 word"
  box_sliceStart :: "32 word"
  box_width :: "32 word"
  box_height :: "32 word"
  box_depth :: "32 word"
  box_numSlices :: "32 word"
  box_bytesPerPixel :: "64 word"
  box_bytesPerRow :: "64 word"
  box_bytesPerImage :: "64 word"
  box_data :: "64 word"

definition equalSize :: "TextureBox \<Rightarrow> TextureBox \<Rightarrow> bool" where
  "equalSize a b \<longleftrightarrow>
     box_width a = box_width b \<and> box_height a = box_height b \<and>
     box_depth a = box_depth b \<and> box_numSlices a = box_numSlices b"

definition getMaxSlice :: "TextureBox \<Rightarrow> 32 word" where
  "getMaxSlice b = box_sliceStart b + box_numSlices b"

definition getDepthOrSlices :: "TextureBox \<Rightarrow> 32 word" where
  "getDepthOrSlices b = max (box_depth b) (box_numSlices b)"

definition getZOrSlice :: "TextureBox \<Rightarrow> 32 word" where
  "getZOrSlice b = max (box_z b) (box_sliceStart b)"

definition at_box :: "TextureBox \<Rightarrow> 64 word \<Rightarrow> 64 word \<Rightarrow> 64 word \<Rightarrow> 64 word" where
  "at_box b xPos yPos zPos =
     box_data b + zPos * box_bytesPerImage b + yPos * box_bytesPerRow b
       + xPos * box_bytesPerPixel b"

text \<open>
  How the typed objects of a pixel lie in memory (byte order, the encoding of a
  \<^verbatim>\<open>float\<close>) is not fixed by the file, nor are the half-precision conversions of
  \<^verbatim>\<open>OgreBitwise.h\<close>: they are the parameters of the conversion. \<open>pl_load\<close> gives the
  objects that \<^verbatim>\<open>unpackColour\<close> reads at an address for a format, \<open>pl_store\<close> the
  memory after the objects written by \<^verbatim>\<open>packColour\<close> have been stored at an address.
\<close>

record platform =
  pl_halfToFloat :: "16 word \<Rightarrow> real"
  pl_floatToHalf :: "real \<Rightarrow> 16 word"
  pl_load :: "memory \<Rightarrow> 64 word \<Rightarrow> PixelFormatGpu \<Rightarrow> cell list"
  pl_store :: "memory \<Rightarrow> 64 word \<Rightarrow> cell list \<Rightarrow> memory"

text \<open>
  A counted loop over a state: \<open>for_loop n body i s\<close> runs \<open>body\<close> for the indices
  \<open>i\<close>, \<open>i + 1\<close>, ... \<open>n\<close> times and stops at the first exception, keeping the state
  reached.
\<close>

primrec for_loop ::
  "nat \<Rightarrow> (nat \<Rightarrow> 's \<Rightarrow> error option \<times> 's) \<Rightarrow> nat \<Rightarrow> 's \<Rightarrow> error option \<times> 's"
where
  "for_loop 0 body i s = (None, s)"
| "for_loop (Suc n) body i s =
     (case body i s of
        (Some e, s') \<Rightarrow> (Some e, s')
      | (None, s') \<Rightarrow> for_loop n body (Suc i) s')"

text \<open>
  The result of \<^verbatim>\<open>bulkPixelConversion\<close> is the exception raised, if any, and the memory
  when the call ends.
\<close>

definition bulkPixelConversion ::
  "platform \<Rightarrow> memory \<Rightarrow> TextureBox \<Rightarrow> PixelFormatGpu \<Rightarrow> TextureBox \<Rightarrow> PixelFormatGpu
     \<Rightarrow> error option \<times> memory"
where
  "bulkPixelConversion pl mem src srcFormat dst dstFormat =
     (if \<not> equalSize src dst then (Some AssertionFailed, mem)
      else if box_bytesPerImage src = box_bytesPerImage dst \<and> srcFormat = dstFormat \<and>
              box_x src = 0 \<and> box_x dst = 0 \<and> box_y src = 0 \<and> box_y dst = 0 \<and>
              box_z src = 0 \<and> box_z dst = 0 then
        (None, memcpy (at_box dst 0 0 (ucast (box_sliceStart dst)))
                      (at_box src 0 0 (ucast (box_sliceStart src)))
                      (box_bytesPerImage src * ucast (box_numSlices src)) mem)
      else
        (case bindE (isCompressed srcFormat)
                (\<lambda>c. if c then Inr True else isCompressed dstFormat) of
           Inl e \<Rightarrow> (Some e, mem)
         | Inr True \<Rightarrow>
             if srcFormat = dstFormat then
               (case bindE (getCompressedBlockWidth dstFormat False) (\<lambda>blockWidth.
                       bindE (getCompressedBlockHeight dstFormat False) (\<lambda>blockHeight.
                         Inr (blockWidth, blockHeight))) of
                  Inl e \<Rightarrow> (Some e, mem)
                | Inr (blockWidth, blockHeight) \<Rightarrow>
                    if blockWidth = 0 \<or> blockHeight = 0 then (Some ERR_NOT_IMPLEMENTED, mem)
                    else
                      let srcptr = box_data src
                            + ucast ((box_x src + blockWidth - 1) div blockWidth)
                            + ucast ((box_y src + blockHeight - 1) div blockHeight)
                                * box_bytesPerRow src
                            + ucast (getZOrSlice src) * box_bytesPerImage src;
                          dstptr = box_data dst
                            + ucast ((box_x dst + blockWidth - 1) div blockWidth)
                            + ucast ((box_y dst + blockHeight - 1) div blockHeight)
                                * box_bytesPerRow dst
                            + ucast (getZOrSlice dst) * box_bytesPerImage dst;
                          srcBytesPerRow = box_bytesPerRow src;
                          srcSliceSkipBytes = box_bytesPerImage src;
                          dstBytesPerRow = box_bytesPerRow dst;
                          dstSliceSkipBytes = box_bytesPerImage dst;
                          compressedSrcY = (box_y src + blockHeight - 1) div blockHeight;
                          compressedSrcMaxY =
                            (box_y src + box_height src + blockHeight - 1) div blockHeight;
                          rows = (\<lambda>y (srcData, dstData, m).
                                    (None, (srcData + srcBytesPerRow, dstData + dstBytesPerRow,
                                            memcpy dstData srcData srcBytesPerRow m)));
                          slices = (\<lambda>z (sp, dp, m).
                                    (case for_loop (unat compressedSrcMaxY - unat compressedSrcY)
                                            rows (unat compressedSrcY) (sp, dp, m) of
                                       (r, (_, _, m')) \<Rightarrow>
                                         (r, (sp + srcSliceSkipBytes, dp + dstSliceSkipBytes, m'))))
                      in (case for_loop
                                 (unat (getZOrSlice src + getMaxSlice src) - unat (getZOrSlice src))
                                 slices (unat (getZOrSlice src)) (srcptr, dstptr, mem) of
                            (r, (_, _, m')) \<Rightarrow> (r, m')))
             else (Some ERR_NOT_IMPLEMENTED, mem)
         | Inr False \<Rightarrow>
             let srcData = at_box src (ucast (box_x src)) (ucast (box_y src)) (ucast (getZOrSlice src));
                 dstData = at_box dst (ucast (box_x dst)) (ucast (box_y dst)) (ucast (getZOrSlice dst))
             in
             if srcFormat = dstFormat then
               for_loop (unat (getDepthOrSlices src))
                 (\<lambda>z m.
                    (case for_loop (unat (box_height src))
                            (\<lambda>y (srcPtr, dstPtr, m').
                               (None, (srcPtr + box_bytesPerRow src, dstPtr + box_bytesPerRow dst,
                                       memcpy dstPtr srcPtr
                                         (ucast (box_width src) * box_bytesPerPixel src) m')))
                            0
                            (srcData + box_bytesPerImage src * of_nat z,
                             dstData + box_bytesPerImage dst * of_nat z, m) of
                       (r, (_, _, m')) \<Rightarrow> (r, m')))
                 0 mem
             else
               let srcBytesPerPixel = box_bytesPerPixel src;
                   dstBytesPerPixel = box_bytesPerPixel dst;
                   width = unat (box_width src);
                   height = unat (box_height src);
                   depthOrSlices = unat (getDepthOrSlices src)
               in
               for_loop depthOrSlices
                 (\<lambda>z m.
                    for_loop height
                      (\<lambda>y m'.
                         (case for_loop width
                                 (\<lambda>x (srcPtr, dstPtr, m'').
                                    (case bindE (unpackColour (pl_halfToFloat pl) srcFormat
                                                   (pl_load pl m'' srcPtr srcFormat))
                                            (\<lambda>rgba. packColour (pl_floatToHalf pl) rgba dstFormat) of
                                       Inl e \<Rightarrow> (Some e, (srcPtr, dstPtr, m''))
                                     | Inr cells \<Rightarrow>
                                         (None, (srcPtr + srcBytesPerPixel, dstPtr + dstBytesPerPixel,
                                                 pl_store pl m'' dstPtr cells))))
                                 0
                                 (srcData + box_bytesPerImage src * of_nat z
                                    + box_bytesPerRow src * of_nat y,
                                  dstData + box_bytesPerImage dst * of_nat z
                                    + box_bytesPerRow dst * of_nat y, m') of
                            (r, (_, _, m'')) \<Rightarrow> (r, m'')))
                      0 m)
                 0 mem))"

section \<open>Properties\<close>

subsection \<open>Evaluating the descriptor table\<close>

lemmas desc_defs = getDescriptionFor_def msPixelFormatDesc_def PixelFormatGpu_defs PFF_defs

text \<open>The formats below the sentinel \<^verbatim>\<open>PFG_COUNT\<close>, in the order of the enumeration.\<close>

lemma upt_114:
  "[0..<114] =
    [PFG_UNKNOWN, PFG_RGBA32_FLOAT, PFG_RGBA32_UINT, PFG_RGBA32_SINT,
     PFG_RGB32_FLOAT, PFG_RGB32_UINT, PFG_RGB32_SINT, PFG_RGBA16_FLOAT,
     PFG_RGBA16_UNORM, PFG_RGBA16_UINT, PFG_RGBA16_SNORM, PFG_RGBA16_SINT,
     PFG_RG32_FLOAT, PFG_RG32_UINT, PFG_RG32_SINT, PFG_D32_FLOAT_S8X24_UINT,
     PFG_R10G10B10A2_UNORM, PFG_R10G10B10A2_UINT, PFG_R11G11B10_FLOAT, PFG_RGBA8_UNORM,
     PFG_RGBA8_UNORM_SRGB, PFG_RGBA8_UINT, PFG_RGBA8_SNORM, PFG_RGBA8_SINT,
     PFG_RG16_FLOAT, PFG_RG16_UNORM, PFG_RG16_UINT, PFG_RG16_SNORM,
     PFG_RG16_SINT, PFG_D32_FLOAT, PFG_R32_FLOAT, PFG_R32_UINT,
     PFG_R32_SINT, PFG_D24_UNORM, PFG_D24_UNORM_S8_UINT, PFG_RG8_UNORM,
     PFG_RG8_UINT, PFG_RG8_SNORM, PFG_RG8_SINT, PFG_R16_FLOAT,
     PFG_D16_UNORM, PFG_R16_UNORM, PFG_R16_UINT, PFG_R16_SNORM,
     PFG_R16_SINT, PFG_R8_UNORM, PFG_R8_UINT, PFG_R8_SNORM,
     PFG_R8_SINT, PFG_A8_UNORM, PFG_R1_UNORM, PFG_R9G9B9E5_SHAREDEXP,
     PFG_R8G8_B8G8_UNORM, PFG_G8R8_G8B8_UNORM, PFG_BC1_UNORM, PFG_BC1_UNORM_SRGB,
     PFG_BC2_UNORM, PFG_BC2_UNORM_SRGB, PFG_BC3_UNORM, PFG_BC3_UNORM_SRGB,
     PFG_BC4_UNORM, PFG_BC4_SNORM, PFG_BC5_UNORM, PFG_BC5_SNORM,
     PFG_B5G6R5_UNORM, PFG_B5G5R5A1_UNORM, PFG_BGRA8_UNORM, PFG_BGRX8_UNORM,
     PFG_R10G10B10_XR_BIAS_A2_UNORM, PFG_BGRA8_UNORM_SRGB, PFG_BGRX8_UNORM_SRGB, PFG_BC6H_UF16,
     PFG_BC6H_SF16, PFG_BC7_UNORM, PFG_BC7_UNORM_SRGB, PFG_AYUV,
     PFG_Y410, PFG_Y416, PFG_NV12, PFG_P010,
     PFG_P016, PFG_420_OPAQUE, PFG_YUY2, PFG_Y210,
     PFG_Y216, PFG_NV11, PFG_AI44, PFG_IA44,
     PFG_P8, PFG_A8P8, PFG_B4G4R4A4_UNORM, PFG_P208,
     PFG_V208, PFG_V408, PFG_PVRTC_RGB2, PFG_PVRTC_RGBA2,
     PFG_PVRTC_RGB4, PFG_PVRTC_RGBA4, PFG_PVRTC2_2BPP, PFG_PVRTC2_4BPP,
     PFG_ETC1_RGB8_UNORM, PFG_ETC2_RGB8_UNORM, PFG_ETC2_RGB8_UNORM_SRGB, PFG_ETC2_RGBA8_UNORM,
     PFG_ETC2_RGBA8_UNORM_SRGB, PFG_ETC2_RGB8A1_UNORM, PFG_ETC2_RGB8A1_UNORM_SRGB, PFG_EAC_R11_UNORM,
     PFG_EAC_R11_SNORM, PFG_EAC_R11G11_UNORM, PFG_EAC_R11G11_SNORM, PFG_ATC_RGB,
     PFG_ATC_RGBA_EXPLICIT_ALPHA, PFG_ATC_RGBA_INTERPOLATED_ALPHA]"
  unfolding PixelFormatGpu_defs by code_simp

lemma msPixelFormatDesc_length: "length msPixelFormatDesc = 115"
  by (simp add: msPixelFormatDesc_def)

lemma msPixelFormatDesc_flags:
  "map flags msPixelFormatDesc =
    [0, 1, 8, 40, 1, 8, 40, 2, 24, 8, 56, 40, 1, 8, 40, 193, 24, 8, 4, 24, 280,
     8, 56, 40, 2, 24, 8, 56, 40, 65, 1, 8, 40, 88, 216, 24, 8, 56, 40, 2, 88,
     24, 8, 56, 40, 24, 8, 56, 40, 24, 0, 4, 24, 56, 536, 792, 536, 792, 536,
     792, 536, 568, 536, 568, 24, 24, 24, 24, 4, 280, 280, 516, 548, 536, 792,
     0, 0, 0, 0, 0, 0, 0, 0, 0, 0, 0, 0, 0, 1024, 1024, 24, 0, 0, 0, 536, 536,
     536, 536, 536, 536, 536, 536, 792, 536, 792, 536, 792, 536, 568, 536, 568,
     536, 536, 536, 0]"
  by (simp add: msPixelFormatDesc_def PFF_defs)

lemma msPixelFormatDesc_components:
  "map components msPixelFormatDesc =
    [1, 4, 4, 4, 3, 3, 3, 4, 4, 4, 4, 4, 2, 2, 2, 2, 4, 4, 3, 4, 4, 4, 4, 4, 2,
     2, 2, 2, 2, 1, 1, 1, 1, 1, 1, 2, 2, 2, 2, 1, 1, 1, 1, 1, 1, 1, 1, 1, 1, 1,
     1, 1, 4, 4, 4, 4, 4, 4, 4, 4, 1, 1, 2, 2, 3, 3, 4, 4, 4, 4, 3, 3, 3, 4, 4,
     3, 3, 3, 3, 3, 3, 3, 3, 3, 3, 3, 3, 3, 1, 1, 4, 3, 3, 3, 3, 4, 3, 4, 3, 3,
     3, 3, 3, 4, 4, 4, 4, 1, 1, 2, 2, 3, 4, 4, 1]"
  by (simp add: msPixelFormatDesc_def)

lemma msPixelFormatDesc_bytesPerPixel:
  "map bytesPerPixel msPixelFormatDesc =
    [0, 16, 16, 16, 12, 12, 12, 8, 8, 8, 8, 8, 8, 8, 8, 8, 4, 4, 4, 4, 4, 4, 4,
     4, 4, 4, 4, 4, 4, 4, 4, 4, 4, 4, 4, 2, 2, 2, 2, 2, 2, 2, 2, 2, 2, 1, 1, 1,
     1, 1, 0, 4, 4, 4, 0, 0, 0, 0, 0, 0, 0, 0, 0, 0, 2, 2, 4, 4, 4, 4, 4, 0, 0,
     0, 0, 0, 0, 0, 0, 0, 0, 0, 0, 0, 0, 0, 0, 0, 1, 2, 2, 0, 0, 0, 0, 0, 0, 0,
     0, 0, 0, 0, 0, 0, 0, 0, 0, 0, 0, 0, 0, 0, 0, 0, 0]"
  by (simp add: msPixelFormatDesc_def PFF_defs)

lemma flags_nth:
  "fmt < PFG_COUNT \<Longrightarrow> flags (msPixelFormatDesc ! fmt) = map flags msPixelFormatDesc ! fmt"
  by (simp add: PFG_COUNT_def msPixelFormatDesc_length)

lemma components_nth:
  "fmt < PFG_COUNT \<Longrightarrow>
     components (msPixelFormatDesc ! fmt) = map components msPixelFormatDesc ! fmt"
  by (simp add: PFG_COUNT_def msPixelFormatDesc_length)

lemma bytesPerPixel_nth:
  "fmt < PFG_COUNT \<Longrightarrow>
     bytesPerPixel (msPixelFormatDesc ! fmt) = map bytesPerPixel msPixelFormatDesc ! fmt"
  by (simp add: PFG_COUNT_def msPixelFormatDesc_length)

text \<open>The formats whose descriptor carries \<^const>\<open>PFF_COMPRESSED\<close>.\<close>

lemma isCompressed_table:
  "list_all (\<lambda>fmt. (map flags msPixelFormatDesc ! fmt AND PFF_COMPRESSED \<noteq> 0) =
      (fmt \<in> {PFG_BC1_UNORM, PFG_BC1_UNORM_SRGB, PFG_BC2_UNORM, PFG_BC2_UNORM_SRGB,
               PFG_BC3_UNORM, PFG_BC3_UNORM_SRGB, PFG_BC4_UNORM, PFG_BC4_SNORM,
               PFG_BC5_UNORM, PFG_BC5_SNORM, PFG_BC6H_UF16, PFG_BC6H_SF16,
               PFG_BC7_UNORM, PFG_BC7_UNORM_SRGB,
               PFG_PVRTC_RGB2, PFG_PVRTC_RGBA2, PFG_PVRTC_RGB4, PFG_PVRTC_RGBA4,
               PFG_PVRTC2_2BPP, PFG_PVRTC2_4BPP, PFG_ETC1_RGB8_UNORM,
               PFG_ETC2_RGB8_UNORM, PFG_ETC2_RGB8_UNORM_SRGB,
               PFG_ETC2_RGBA8_UNORM, PFG_ETC2_RGBA8_UNORM_SRGB,
               PFG_ETC2_RGB8A1_UNORM, PFG_ETC2_RGB8A1_UNORM_SRGB,
               PFG_EAC_R11_UNORM, PFG_EAC_R11_SNORM,
               PFG_EAC_R11G11_UNORM, PFG_EAC_R11G11_SNORM,
               PFG_ATC_RGB, PFG_ATC_RGBA_EXPLICIT_ALPHA,
               PFG_ATC_RGBA_INTERPOLATED_ALPHA})) [0..<114]"
  unfolding msPixelFormatDesc_flags PFF_defs
  by (simp add: upt_114 PixelFormatGpu_defs)

lemma isCompressed_iff:
  "fmt < PFG_COUNT \<Longrightarrow>
     isCompressed fmt =
       Inr (fmt \<in> {PFG_BC1_UNORM, PFG_BC1_UNORM_SRGB, PFG_BC2_UNORM, PFG_BC2_UNORM_SRGB,
               PFG_BC3_UNORM, PFG_BC3_UNORM_SRGB, PFG_BC4_UNORM, PFG_BC4_SNORM,
               PFG_BC5_UNORM, PFG_BC5_SNORM, PFG_BC6H_UF16, PFG_BC6H_SF16,
               PFG_BC7_UNORM, PFG_BC7_UNORM_SRGB,
               PFG_PVRTC_RGB2, PFG_PVRTC_RGBA2, PFG_PVRTC_RGB4, PFG_PVRTC_RGBA4,
               PFG_PVRTC2_2BPP, PFG_PVRTC2_4BPP, PFG_ETC1_RGB8_UNORM,
               PFG_ETC2_RGB8_UNORM, PFG_ETC2_RGB8_UNORM_SRGB,
               PFG_ETC2_RGBA8_UNORM, PFG_ETC2_RGBA8_UNORM_SRGB,
               PFG_ETC2_RGB8A1_UNORM, PFG_ETC2_RGB8A1_UNORM_SRGB,
               PFG_EAC_R11_UNORM, PFG_EAC_R11_SNORM,
               PFG_EAC_R11G11_UNORM, PFG_EAC_R11G11_SNORM,
               PFG_ATC_RGB, PFG_ATC_RGBA_EXPLICIT_ALPHA,
               PFG_ATC_RGBA_INTERPOLATED_ALPHA})"
  using isCompressed_table
  by (simp add: isCompressed_def getDescriptionFor_def flags_nth PFG_COUNT_def list_all_iff)

lemma isCompressed_out_of_range: "\<not> fmt < PFG_COUNT \<Longrightarrow> isCompressed fmt = Inl AssertionFailed"
  by (simp add: isCompressed_def getDescriptionFor_def)

subsection \<open>Sizes of single levels\<close>

text \<open>
  Claim C4, as stated for all positive dimensions, fails where the 32-bit product
  wraps around: a 131072x131072 level of \<^verbatim>\<open>PFG_BC1_UNORM\<close> has 32768 * 32768 blocks
  of 8 bytes, which is \<open>2 ^ 33\<close> bytes, and \<^verbatim>\<open>getSizeBytes\<close> returns 0.
\<close>

theorem getSizeBytes_block8_wraps:
  "getSizeBytes 131072 131072 1 1 PFG_BC1_UNORM 1 = Inr 0
   \<and> ((131072 + 3) div 4) * ((131072 + 3) div 4) * 8 * 1 * 1 = (8589934592 :: nat)"
  by (simp add: getSizeBytes_def isCompressed_def desc_defs)

lemma word32_ceil4:
  fixes w :: "32 word"
  assumes "unat w + 3 < 2 ^ 32"
  shows "(w + 3) div 4 = of_nat ((unat w + 3) div 4)"
proof -
  have "unat (w + 3) = unat w + 3"
    using assms by (simp add: unat_word_ariths)
  then have "unat ((w + 3) div 4) = (unat w + 3) div 4"
    by (simp add: unat_div)
  moreover have "(unat w + 3) div 4 < 2 ^ 32"
    using assms by simp
  ultimately show ?thesis
    by (simp add: word_unat_eq_iff unat_of_nat)
qed

lemma ucast_of_nat_32_64:
  assumes "n < 2 ^ 32"
  shows "(ucast (of_nat n :: 32 word) :: 64 word) = of_nat n"
    and "unat (of_nat n :: 64 word) = n"
proof -
  have lt: "n < 2 ^ 64"
    using assms by (rule less_trans) simp
  then show "unat (of_nat n :: 64 word) = n"
    by (simp add: unat_of_nat)
  have "unat (ucast (of_nat n :: 32 word) :: 64 word) = n"
    using assms lt by (simp add: unsigned_ucast_eq unat_of_nat take_bit_nat_eq_self)
  then show "(ucast (of_nat n :: 32 word) :: 64 word) = of_nat n"
    using lt by (simp add: word_unat_eq_iff unat_of_nat)
qed

text \<open>
  Claim C4, amended. For every format in the 8-bytes-per-block case of the switch
  (BC1, BC4, EAC R11, ETC1, ETC2 RGB8 sRGB, ETC2 RGB8A1, ATC RGB), when
  \<open>width + 3\<close> and \<open>height + 3\<close> fit in 32 bits and the product
  \<open>ceil (width / 4) * ceil (height / 4) * 8 * depth * slices\<close> is below \<open>2 ^ 32\<close>,
  \<^verbatim>\<open>getSizeBytes\<close> returns exactly that product.
\<close>

theorem getSizeBytes_block8:
  assumes fmt: "format \<in> {PFG_BC1_UNORM, PFG_BC1_UNORM_SRGB, PFG_BC4_UNORM, PFG_BC4_SNORM,
                          PFG_EAC_R11_UNORM, PFG_EAC_R11_SNORM, PFG_ETC1_RGB8_UNORM,
                          PFG_ETC2_RGB8_UNORM_SRGB, PFG_ETC2_RGB8A1_UNORM,
                          PFG_ETC2_RGB8A1_UNORM_SRGB, PFG_ATC_RGB}"
    and w: "unat width + 3 < 2 ^ 32" and h: "unat height + 3 < 2 ^ 32"
    and n: "((unat width + 3) div 4) * ((unat height + 3) div 4) * 8 * unat depth * unat slices < 2 ^ 32"
  shows "getSizeBytes width height depth slices format rowAlignment =
           Inr (of_nat (((unat width + 3) div 4) * ((unat height + 3) div 4) * 8 * unat depth * unat slices))
         \<and> unat (of_nat (((unat width + 3) div 4) * ((unat height + 3) div 4) * 8 * unat depth * unat slices) :: 64 word)
             = ((unat width + 3) div 4) * ((unat height + 3) div 4) * 8 * unat depth * unat slices"
proof -
  define N where "N = ((unat width + 3) div 4) * ((unat height + 3) div 4) * 8 * unat depth * unat slices"
  have valid: "format < PFG_COUNT"
    using fmt by (auto simp: PixelFormatGpu_defs)
  have comp: "isCompressed format = Inr True"
    using fmt unfolding isCompressed_iff [OF valid] by auto
  have prod: "((width + 3) div 4) * ((height + 3) div 4) * 8 * depth * slices = (of_nat N :: 32 word)"
    by (simp add: N_def word32_ceil4 [OF w] word32_ceil4 [OF h])
  have lt: "N < 2 ^ 32"
    using n by (simp add: N_def)
  have "getSizeBytes width height depth slices format rowAlignment = Inr (ucast (of_nat N :: 32 word))"
    using fmt comp by (simp add: getSizeBytes_def prod)
  then have "getSizeBytes width height depth slices format rowAlignment = Inr (of_nat N)
      \<and> unat (of_nat N :: 64 word) = N"
    by (simp add: ucast_of_nat_32_64 [OF lt])
  then show ?thesis
    by (simp only: N_def)
qed

theorem getSizeBytes_block8_witness:
  "getSizeBytes 128 128 1 1 PFG_BC1_UNORM 1 = Inr 8192"
proof -
  have h1: "PFG_BC1_UNORM \<in> {PFG_BC1_UNORM, PFG_BC1_UNORM_SRGB, PFG_BC4_UNORM, PFG_BC4_SNORM,
                          PFG_EAC_R11_UNORM, PFG_EAC_R11_SNORM, PFG_ETC1_RGB8_UNORM,
                          PFG_ETC2_RGB8_UNORM_SRGB, PFG_ETC2_RGB8A1_UNORM,
                          PFG_ETC2_RGB8A1_UNORM_SRGB, PFG_ATC_RGB}" by simp
  have h2: "unat (128 :: 32 word) + 3 < 2 ^ 32" by simp
  have h3: "((unat (128 :: 32 word) + 3) div 4) * ((unat (128 :: 32 word) + 3) div 4) * 8 * unat (1 :: 32 word) * unat (1 :: 32 word) < 2 ^ 32" by simp
  show ?thesis
    using getSizeBytes_block8 [OF h1 h2 h2 h3, of 1] by simp
qed

text \<open>
  Claim C10. \<^verbatim>\<open>PFG_ETC2_RGB8_UNORM\<close> carries the Compressed flag and belongs to the
  ETC2 block formats (\<^verbatim>\<open>getCompressedBlockWidth\<close> gives it 4x4 blocks, and its sRGB
  twin has a size), yet the switch of \<^verbatim>\<open>getSizeBytes\<close> has no case for it and
  raises \<^verbatim>\<open>ERR_INVALIDPARAMS\<close>.
\<close>

theorem getSizeBytes_ETC2_RGB8_UNORM_rejected:
  "isCompressed PFG_ETC2_RGB8_UNORM = Inr True
   \<and> getCompressedBlockWidth PFG_ETC2_RGB8_UNORM False = Inr 4
   \<and> getSizeBytes 128 128 1 1 PFG_ETC2_RGB8_UNORM_SRGB 1 = Inr 8192
   \<and> getSizeBytes 128 128 1 1 PFG_ETC2_RGB8_UNORM 1 = Inl ERR_INVALIDPARAMS"
  by (simp add: getSizeBytes_def isCompressed_def getCompressedBlockWidth_def desc_defs)

text \<open>
  Among the formats below \<^verbatim>\<open>PFG_COUNT\<close> this is the only one for which
  \<^verbatim>\<open>getSizeBytes\<close> raises \<^verbatim>\<open>ERR_INVALIDPARAMS\<close>. A format without the Compressed
  flag has a size whenever the row alignment is not 0, and the size is 0 when its
  descriptor gives 0 bytes per pixel.
\<close>

lemma alignToNextMultiple_zero: "alignment \<noteq> 0 \<Longrightarrow> alignToNextMultiple 0 alignment = Inr 0"
proof -
  assume a: "alignment \<noteq> 0"
  then have "unat (alignment - 1) < unat alignment"
    by (simp add: unat_minus_one unat_gt_0)
  then have "(alignment - 1) div alignment = 0"
    by (simp add: word_unat_eq_iff unat_div)
  with a show ?thesis
    by (simp add: alignToNextMultiple_def)
qed

lemma ucast_rowAlignment: "(rowAlignment :: 32 word) \<noteq> 0 \<Longrightarrow> (ucast rowAlignment :: 64 word) \<noteq> 0"
  by (simp add: word_unat_eq_iff unsigned_ucast_eq take_bit_nat_eq_self unsigned_less [THEN less_trans])

lemma getBytesPerPixel_valid: "fmt < PFG_COUNT \<Longrightarrow> \<exists>bpp. getBytesPerPixel fmt = Inr bpp"
  by (simp add: getBytesPerPixel_def getDescriptionFor_def)

lemma getSizeBytes_uncompressed:
  assumes "fmt < PFG_COUNT" and "isCompressed fmt = Inr False" and "rowAlignment \<noteq> 0"
  shows "\<exists>r. getSizeBytes width height depth slices fmt rowAlignment = Inr r"
  using assms ucast_rowAlignment [OF assms(3)] getBytesPerPixel_valid [OF assms(1)]
  by (auto simp: getSizeBytes_def alignToNextMultiple_def)

lemma getSizeBytes_zero_bytesPerPixel:
  assumes "isCompressed fmt = Inr False" and "getBytesPerPixel fmt = Inr 0" and "rowAlignment \<noteq> 0"
  shows "getSizeBytes width height depth slices fmt rowAlignment = Inr 0"
  using assms alignToNextMultiple_zero [OF ucast_rowAlignment [OF assms(3)]]
  by (simp add: getSizeBytes_def)

lemma getSizeBytes_InvalidParams_iff:
  assumes "fmt < PFG_COUNT"
  shows "getSizeBytes width height depth slices fmt rowAlignment = Inl ERR_INVALIDPARAMS
           \<longleftrightarrow> fmt = PFG_ETC2_RGB8_UNORM"
proof (cases "isCompressed fmt = Inr True")
  case True
  then have "fmt \<in> {PFG_BC1_UNORM, PFG_BC1_UNORM_SRGB, PFG_BC2_UNORM, PFG_BC2_UNORM_SRGB,
               PFG_BC3_UNORM, PFG_BC3_UNORM_SRGB, PFG_BC4_UNORM, PFG_BC4_SNORM,
               PFG_BC5_UNORM, PFG_BC5_SNORM, PFG_BC6H_UF16, PFG_BC6H_SF16,
               PFG_BC7_UNORM, PFG_BC7_UNORM_SRGB,
               PFG_PVRTC_RGB2, PFG_PVRTC_RGBA2, PFG_PVRTC_RGB4, PFG_PVRTC_RGBA4,
               PFG_PVRTC2_2BPP, PFG_PVRTC2_4BPP, PFG_ETC1_RGB8_UNORM,
               PFG_ETC2_RGB8_UNORM, PFG_ETC2_RGB8_UNORM_SRGB,
               PFG_ETC2_RGBA8_UNORM, PFG_ETC2_RGBA8_UNORM_SRGB,
               PFG_ETC2_RGB8A1_UNORM, PFG_ETC2_RGB8A1_UNORM_SRGB,
               PFG_EAC_R11_UNORM, PFG_EAC_R11_SNORM,
               PFG_EAC_R11G11_UNORM, PFG_EAC_R11G11_SNORM,
               PFG_ATC_RGB, PFG_ATC_RGBA_EXPLICIT_ALPHA,
               PFG_ATC_RGBA_INTERPOLATED_ALPHA}"
    unfolding isCompressed_iff [OF assms] by simp
  then show ?thesis
    unfolding getSizeBytes_def True
    by (auto simp: PixelFormatGpu_defs)
next
  case False
  then have unc: "isCompressed fmt = Inr False"
    using isCompressed_iff [OF assms] by auto
  have "fmt \<noteq> PFG_ETC2_RGB8_UNORM"
    using unc by (auto simp: isCompressed_def desc_defs)
  moreover have "getSizeBytes width height depth slices fmt rowAlignment \<noteq> Inl ERR_INVALIDPARAMS"
    using unc getBytesPerPixel_valid [OF assms]
    by (auto simp: getSizeBytes_def alignToNextMultiple_def split: if_splits)
  ultimately show ?thesis
    by simp
qed

subsection \<open>Mip chains\<close>

text \<open>
  Claim C9. For every format, slice count, row alignment and mip count,
  \<^verbatim>\<open>calculateSizeBytes\<close> of a 1x1x1 base level is 0: the loop tests the dimensions
  before it adds a level.
\<close>

theorem calculateSizeBytes_unit_base_level: "calculateSizeBytes 1 1 1 slices format numMipmaps rowAlignment = Inr 0"
  by (simp add: calculateSizeBytes_def calculateSizeBytes_loop.simps)

text \<open>
  Claim C2. For a 256x256 base level with depth 1, one slice and 9 mip levels the chain
  is to end with the 1x1 level as the ninth level summed. The loop of
  \<^verbatim>\<open>calculateSizeBytes\<close> stops as soon as all dimensions are 1, before it adds that
  level: for \<^verbatim>\<open>PFG_RGBA8_UNORM\<close> it returns the sum of the eight levels 256x256 to
  2x2, that is 349520 bytes, 4 bytes (the size of the 1x1 level) less than the sum of
  the nine levels.
\<close>

theorem calculateSizeBytes_skips_unit_level:
  "calculateSizeBytes 256 256 1 1 PFG_RGBA8_UNORM 9 1 = Inr 349520
   \<and> getSizeBytes 1 1 1 1 PFG_RGBA8_UNORM 1 = Inr 4
   \<and> mipChainSizeBytes_spec 256 256 1 1 PFG_RGBA8_UNORM 9 1 = Inr 349524"
  by code_simp

subsection \<open>Rounding to single precision\<close>

text \<open>
  \<open>float_exponent\<close> is the exponent of the binade of its argument; \<open>float_round\<close>
  moves its argument by at most half a unit in the last place, keeps the integers below
  \<open>2 ^ 24\<close> in magnitude and does not cross \<open>- 1\<close>.
\<close>

lemma float_exponent_bounds:
  assumes "x \<noteq> 0"
  shows "2 powi float_exponent x \<le> \<bar>x\<bar>" and "\<bar>x\<bar> < 2 powi (float_exponent x + 1)"
proof -
  have "2 powi float_exponent x \<le> \<bar>x\<bar> \<and> \<bar>x\<bar> < 2 powi (float_exponent x + 1)"
  proof (cases "1 \<le> \<bar>x\<bar>")
    case True
    define n where "n = nat \<lfloor>\<bar>x\<bar>\<rfloor>"
    define k where "k = floorlog 2 n"
    have n: "0 < n" "real n \<le> \<bar>x\<bar>" "\<bar>x\<bar> < real n + 1"
      using True by (simp_all add: n_def)
    have b: "2 ^ (k - 1) \<le> n" "n < 2 ^ k"
      using floorlog_bounds [of n 2] n(1) by (simp_all add: k_def)
    have k0: "0 < k"
      using n(1) by (simp add: k_def floorlog_def)
    have e: "float_exponent x = int (k - 1)" "float_exponent x + 1 = int k"
      using True k0 by (simp_all add: float_exponent_def n_def k_def)
    have "real (2 ^ (k - 1)) \<le> real n"
      using b(1) by (simp only: of_nat_le_iff)
    then have "real (2 ^ (k - 1)) \<le> \<bar>x\<bar>"
      using n(2) by (rule order_trans)
    then have lo: "2 ^ (k - 1) \<le> \<bar>x\<bar>"
      by simp
    have "n + 1 \<le> 2 ^ k"
      using b(2) by simp
    then have "real (n + 1) \<le> real (2 ^ k)"
      by (simp only: of_nat_le_iff)
    then have "\<bar>x\<bar> < real (2 ^ k)"
      using n(3) by simp
    then have hi: "\<bar>x\<bar> < 2 ^ k"
      by simp
    have A: "2 powi float_exponent x \<le> \<bar>x\<bar>"
      using lo by (simp only: e(1) power_int_of_nat)
    have B: "\<bar>x\<bar> < 2 powi (float_exponent x + 1)"
      using hi by (simp only: e(2) power_int_of_nat)
    from A B show ?thesis ..
  next
    case False
    define y where "y = 1 / \<bar>x\<bar>"
    define n where "n = nat (\<lceil>y\<rceil> - 1)"
    define k where "k = floorlog 2 n"
    have x0: "0 < \<bar>x\<bar>" "\<bar>x\<bar> < 1"
      using assms False by simp_all
    then have y1: "1 < y"
      by (simp add: y_def)
    then have "2 \<le> \<lceil>y\<rceil>"
      by linarith
    then have n: "0 < n" "real n < y" "y \<le> real n + 1"
      by (simp_all add: n_def) linarith+
    have b: "2 ^ (k - 1) \<le> n" "n < 2 ^ k"
      using floorlog_bounds [of n 2] n(1) by (simp_all add: k_def)
    have k0: "0 < k"
      using n(1) by (simp add: k_def floorlog_def)
    have e: "float_exponent x = - int k"
      using False by (simp add: float_exponent_def n_def k_def y_def)
    have "real (2 ^ (k - 1)) \<le> real n"
      using b(1) by (simp only: of_nat_le_iff)
    then have "real (2 ^ (k - 1)) < y"
      using n(2) by (rule le_less_trans)
    then have lo: "2 ^ (k - 1) < y"
      by simp
    have "n + 1 \<le> 2 ^ k"
      using b(2) by simp
    then have "real (n + 1) \<le> real (2 ^ k)"
      by (simp only: of_nat_le_iff)
    then have "y \<le> real (2 ^ k)"
      using n(3) by simp
    then have hi: "y \<le> 2 ^ k"
      by simp
    have xy: "\<bar>x\<bar> = 1 / y"
      by (simp add: y_def)
    have "1 / 2 ^ k \<le> 1 / y"
      using hi y1 by (intro divide_left_mono) simp_all
    then have A: "2 powi (- int k) \<le> \<bar>x\<bar>"
      by (simp add: xy power_int_minus field_simps)
    have "1 / y < 1 / (2::real) ^ (k - 1)"
      using lo y1 by (intro divide_strict_left_mono mult_pos_pos) simp_all
    then have "\<bar>x\<bar> < 2 powi (- int (k - 1))"
      by (simp only: xy power_int_minus power_int_of_nat inverse_eq_divide)
    moreover have "- int k + 1 = - int (k - 1)"
      using k0 by simp
    ultimately have B: "\<bar>x\<bar> < 2 powi (- int k + 1)"
      by (simp only:)
    show ?thesis
      using A B by (simp only: e)
  qed
  then show "2 powi float_exponent x \<le> \<bar>x\<bar>" and "\<bar>x\<bar> < 2 powi (float_exponent x + 1)"
    by simp_all
qed

lemma float_round_error:
  "\<bar>float_round x - x\<bar> \<le> 2 powi (max (float_exponent x) (- 126) - 24)"
proof (cases "x = 0")
  case True
  then show ?thesis by (simp add: float_round_def)
next
  case False
  define e where "e = max (float_exponent x) (- 126)"
  define u :: real where "u = 2 powi (e - 23)"
  define q where "q = \<lfloor>x / u\<rfloor>"
  define r where "r = x / u - of_int q"
  define q' where "q' = (if 1 / 2 < r \<or> (r = 1 / 2 \<and> odd q) then q + 1 else q)"
  have u0: "0 < u"
    by (simp add: u_def)
  have fr: "float_round x = of_int q' * u"
    using False by (simp add: float_round_def Let_def e_def u_def q_def r_def q'_def)
  have "0 \<le> r" "r < 1"
    unfolding r_def q_def by linarith+
  moreover have "of_int q' - x / u = (if 1 / 2 < r \<or> (r = 1 / 2 \<and> odd q) then 1 - r else - r)"
    by (simp add: q'_def r_def)
  ultimately have "\<bar>of_int q' - x / u\<bar> \<le> 1 / 2"
    by (simp split: if_splits)
  then have "\<bar>of_int q' - x / u\<bar> * u \<le> 1 / 2 * u"
    using u0 by (intro mult_right_mono) simp_all
  moreover have "(of_int q' - x / u) * u = of_int q' * u - x"
    using u0 by (simp add: left_diff_distrib)
  then have "\<bar>of_int q' - x / u\<bar> * u = \<bar>of_int q' * u - x\<bar>"
    using u0 abs_mult [of "of_int q' - x / u" u] by simp
  moreover have "1 / 2 * u = 2 powi (e - 24)"
    by (simp add: u_def power_int_diff)
  ultimately show ?thesis
    by (simp add: fr e_def)
qed


lemma float_exponent_nonneg:
  assumes "1 \<le> \<bar>x\<bar>"
  shows "0 \<le> float_exponent x"
proof -
  have "0 < nat \<lfloor>\<bar>x\<bar>\<rfloor>"
    using assms by simp
  then have "0 < floorlog 2 (nat \<lfloor>\<bar>x\<bar>\<rfloor>)"
    by (simp add: floorlog_def)
  then show ?thesis
    using assms by (simp add: float_exponent_def)
qed

lemma float_exponent_nonpos: "\<bar>x\<bar> < 2 \<Longrightarrow> float_exponent x \<le> 0"
proof (cases "1 \<le> \<bar>x\<bar>")
  case True
  assume "\<bar>x\<bar> < 2"
  with True have "\<lfloor>\<bar>x\<bar>\<rfloor> = 1"
    by linarith
  then show ?thesis
    using True by (simp add: float_exponent_def compute_floorlog)
next
  case False
  then show ?thesis
    by (simp add: float_exponent_def)
qed

lemma float_round_minus_one: "float_round (- 1) = - 1"
  by (simp add: float_round_def float_exponent_def compute_floorlog Let_def)

lemma float_round_le_minus_one:
  assumes "x \<le> - 1"
  shows "float_round x \<le> - 1"
proof -
  define e where "e = float_exponent x"
  define u :: real where "u = 2 powi (e - 23)"
  define q where "q = \<lfloor>x / u\<rfloor>"
  define r where "r = x / u - of_int q"
  define q' where "q' = (if 1 / 2 < r \<or> (r = 1 / 2 \<and> odd q) then q + 1 else q)"
  have x0: "x \<noteq> 0" and ax: "1 \<le> \<bar>x\<bar>" "\<bar>x\<bar> = - x"
    using assms by simp_all
  have e0: "0 \<le> e"
    unfolding e_def using ax(1) by (rule float_exponent_nonneg)
  then have me: "max (float_exponent x) (- 126) = e"
    by (simp add: e_def)
  have u0: "0 < u"
    by (simp add: u_def)
  have fr: "float_round x = of_int q' * u"
    using x0 by (simp add: float_round_def Let_def me u_def q_def r_def q'_def)
  have pe: "(2::real) powi e = 2 ^ 23 * u"
    by (simp add: u_def power_int_diff)
  have "2 ^ 23 * u \<le> - x"
    using float_exponent_bounds(1) [OF x0] by (simp add: e_def [symmetric] pe ax(2))
  then have "x / u \<le> - (2 ^ 23)"
    using u0 by (simp add: field_simps)
  moreover have "0 \<le> r" "r < 1"
    unfolding r_def q_def by linarith+
  ultimately have "of_int q' \<le> - ((2::real) ^ 23)"
  proof (cases "q + 1 \<le> - (2 ^ 23)")
    case True
    have "q' \<le> q + 1"
      by (simp add: q'_def)
    then have "q' \<le> - (2 ^ 23)"
      using True by (rule order_trans)
    then have "real_of_int q' \<le> real_of_int (- (2 ^ 23))"
      by (simp only: of_int_le_iff)
    then show ?thesis
      by simp
  next
    case False
    assume a: "x / u \<le> - (2 ^ 23)"
    then have "q \<le> - (2 ^ 23)"
      unfolding q_def by (simp add: floor_le_iff)
    with False have q: "q = - (2 ^ 23)"
      by simp
    have "of_int q \<le> x / u"
      unfolding q_def by simp
    then have "x / u = of_int q"
      using a q by simp
    then have "r = 0"
      by (simp add: r_def)
    then have "q' = q"
      by (simp add: q'_def)
    then show ?thesis
      by (simp add: q)
  qed
  then have "of_int q' * u \<le> - (2 ^ 23) * u"
    using u0 by (intro mult_right_mono) simp_all
  moreover have "1 \<le> (2::real) powi e"
    using e0 by (simp add: power_int_def)
  ultimately show ?thesis
    by (simp add: fr pe)
qed

lemma float_round_ge_minus_one:
  assumes "- 1 \<le> x"
  shows "- 1 \<le> float_round x"
proof -
  consider "x = - 1" | "0 \<le> x" | "- 1 < x" "x < 0"
    using assms by linarith
  then show ?thesis
  proof cases
    case 1
    then show ?thesis by (simp add: float_round_minus_one)
  next
    case 2
    define u :: real where "u = 2 powi (max (float_exponent x) (- 126) - 23)"
    have u0: "0 < u"
      by (simp add: u_def)
    then have "0 \<le> x / u"
      using 2 by simp
    then have "0 \<le> \<lfloor>x / u\<rfloor>"
      by simp
    then have "0 \<le> float_round x"
      using u0 by (simp add: float_round_def Let_def u_def [symmetric])
    then show ?thesis
      by simp
  next
    case 3
    define e where "e = max (float_exponent x) (- 126)"
    define u :: real where "u = 2 powi (e - 23)"
    define q where "q = \<lfloor>x / u\<rfloor>"
    define r where "r = x / u - of_int q"
    define q' where "q' = (if 1 / 2 < r \<or> (r = 1 / 2 \<and> odd q) then q + 1 else q)"
    have x0: "x \<noteq> 0" and ax: "\<bar>x\<bar> < 1" "\<bar>x\<bar> = - x"
      using 3 by simp_all
    have u0: "0 < u"
      by (simp add: u_def)
    have fr: "float_round x = of_int q' * u"
      using x0 by (simp add: float_round_def Let_def e_def u_def q_def r_def q'_def)
    have "float_exponent x < 0"
    proof (rule ccontr)
      assume "\<not> float_exponent x < 0"
      then have "1 \<le> (2::real) powi float_exponent x"
        by (simp add: power_int_def)
      then show False
        using float_exponent_bounds(1) [OF x0] ax(1) by simp
    qed
    then have e1: "e + 1 \<le> 0" and fe: "float_exponent x + 1 \<le> e + 1"
      by (simp_all add: e_def)
    have "(2::real) powi (float_exponent x + 1) \<le> 2 powi (e + 1)"
      using fe by (intro power_int_increasing) simp_all
    then have "- x < 2 powi (e + 1)"
      using float_exponent_bounds(2) [OF x0] ax(2) by simp
    moreover have pe: "(2::real) powi (e + 1) = 2 ^ 24 * u"
      by (simp add: u_def power_int_diff power_int_add)
    ultimately have "- (2 ^ 24) < x / u"
      using u0 by (simp add: field_simps)
    then have "- (2 ^ 24) \<le> q"
      unfolding q_def by (simp add: le_floor_iff)
    moreover have "q \<le> q'"
      by (simp add: q'_def)
    ultimately have "- (2 ^ 24) \<le> q'"
      by (rule order_trans)
    then have "real_of_int (- (2 ^ 24)) \<le> real_of_int q'"
      by (simp only: of_int_le_iff)
    then have "- (2 ^ 24) * u \<le> of_int q' * u"
      using u0 by (intro mult_right_mono) simp_all
    moreover have "(2::real) powi (e + 1) \<le> 1"
      using power_int_increasing [of "e + 1" 0 "2::real"] e1 by simp
    then have "2 ^ 24 * u \<le> 1"
      by (simp only: pe)
    ultimately show ?thesis
      by (simp add: fr)
  qed
qed

lemma float_round_max_minus_one: "max (float_round x) (- 1) = float_round (max x (- 1))"
proof (cases "x \<le> - 1")
  case True
  then show ?thesis
    using float_round_le_minus_one [OF True] by (simp add: max_def float_round_minus_one)
next
  case False
  then have "- 1 \<le> x" by simp
  then show ?thesis
    using float_round_ge_minus_one [of x] by (simp add: max_def)
qed

lemma float_round_error_small:
  assumes "\<bar>x\<bar> < 2"
  shows "\<bar>float_round x - x\<bar> \<le> 1 / 2 ^ 24"
proof -
  have "max (float_exponent x) (- 126) - 24 \<le> - 24"
    using float_exponent_nonpos [OF assms] by simp
  then have "(2::real) powi (max (float_exponent x) (- 126) - 24) \<le> 2 powi (- 24)"
    by (intro power_int_increasing) simp_all
  with float_round_error [of x] have "\<bar>float_round x - x\<bar> \<le> 2 powi (- 24)"
    by (rule order_trans)
  then show ?thesis
    by (simp add: power_int_minus field_simps)
qed


lemma float_exponent_less:
  assumes "x \<noteq> 0" and "\<bar>x\<bar> < 2 powi k"
  shows "float_exponent x < k"
proof (rule ccontr)
  assume "\<not> float_exponent x < k"
  then have "(2::real) powi k \<le> 2 powi float_exponent x"
    by (intro power_int_increasing) simp_all
  then show False
    using float_exponent_bounds(1) [OF assms(1)] assms(2) by simp
qed

lemma float_round_of_int:
  assumes "\<bar>i\<bar> < 2 ^ 24"
  shows "float_round (of_int i) = of_int i"
proof (cases "i = 0")
  case True
  then show ?thesis by (simp add: float_round_def)
next
  case False
  define x :: real where "x = of_int i"
  define e where "e = float_exponent x"
  have x0: "x \<noteq> 0" and x1: "1 \<le> \<bar>x\<bar>"
    using False by (simp_all add: x_def)
  have "\<bar>x\<bar> < 2 ^ 24"
    unfolding x_def using assms by (metis of_int_abs of_int_less_numeral_power_cancel_iff)
  then have "\<bar>x\<bar> < 2 powi 24"
    by simp
  then have e24: "e < 24"
    unfolding e_def by (rule float_exponent_less [OF x0])
  have e0: "0 \<le> e"
    unfolding e_def using x1 by (rule float_exponent_nonneg)
  define n where "n = nat (23 - e)"
  have me: "max (float_exponent x) (- 126) = e"
    using e0 by (simp add: e_def)
  have "e - 23 = - int n"
    using e24 by (simp add: n_def)
  then have u: "(2::real) powi (e - 23) = 1 / 2 ^ n"
    by (simp only: power_int_minus power_int_of_nat inverse_eq_divide)
  have xu: "x / (1 / 2 ^ n) = of_int (i * 2 ^ n)"
    by (simp add: x_def)
  have "float_round x = of_int (i * 2 ^ n) * (1 / 2 ^ n)"
    using x0 unfolding float_round_def Let_def me u xu by simp
  then show ?thesis
    by (simp add: x_def)
qed

lemma float_round_log2:
  assumes "1 \<le> x" and "x < 2 ^ 19"
  shows "\<bar>float_round (log 2 x) - log 2 x\<bar> < 1 / 2 ^ 19"
proof (cases "log 2 x = 0")
  case True
  then show ?thesis by (simp add: float_round_def)
next
  case False
  have l19: "log 2 ((2::real) ^ 19) = real 19"
    by (rule log_pow_cancel) simp_all
  have "log 2 x < log 2 (2 ^ 19)"
    using assms by (subst log_less_cancel_iff) simp_all
  then have "log 2 x < 19"
    unfolding l19 by simp
  moreover have "0 \<le> log 2 x"
    using assms by simp
  ultimately have "\<bar>log 2 x\<bar> < 2 powi 5"
    by simp
  then have "float_exponent (log 2 x) < 5"
    by (rule float_exponent_less [OF False])
  then have "max (float_exponent (log 2 x)) (- 126) - 24 \<le> - 20"
    by simp
  then have "(2::real) powi (max (float_exponent (log 2 x)) (- 126) - 24) \<le> 2 powi (- 20)"
    by (intro power_int_increasing) simp_all
  with float_round_error [of "log 2 x"] have "\<bar>float_round (log 2 x) - log 2 x\<bar> \<le> 2 powi (- 20)"
    by (rule order_trans)
  then show ?thesis
    by (simp add: power_int_minus field_simps)
qed

subsection \<open>The number of mip levels\<close>

text \<open>
  The integer part of \<^verbatim>\<open>log2f\<close> is the integer part of the exact logarithm for
  arguments below \<open>2 ^ 19\<close>, when \<^verbatim>\<open>log2f\<close> is, on the arguments from 1 up to
  \<open>2 ^ 19\<close>, exact at the powers of two and off by less than \<open>1 / 2 ^ 19\<close>
  elsewhere: below \<open>2 ^ 19\<close> the logarithm of a number that is not a power of two is
  at least that far from the next integers. The logarithms in question are below 19,
  where single-precision values are \<open>1 / 2 ^ 19\<close> or less apart: a \<^verbatim>\<open>log2f\<close> that rounds
  the exact logarithm to the nearest value is such a function (lemmas
  \<open>float_round_log2\<close> and \<open>float_round_of_int\<close>).
\<close>

lemma ln2_bounds: "0 < ln (2::real)" "ln (2::real) \<le> 1"
  using ln_le_minus_one [of "2::real"] by simp_all

lemma log2_one_plus:
  fixes t :: real
  assumes "0 \<le> t" and "t \<le> 1 / 2"
  shows "t / 2 \<le> log 2 (1 + t)"
proof -
  have "t - t\<^sup>2 \<le> ln (1 + t)"
    using assms by (intro ln_one_plus_pos_lower_bound) auto
  moreover have "t * t \<le> t * (1 / 2)"
    using assms by (intro mult_left_mono) auto
  ultimately have a: "t / 2 \<le> ln (1 + t)"
    by (simp add: power2_eq_square)
  have "0 \<le> ln (1 + t)"
    using assms by simp
  then have "ln (1 + t) * ln 2 \<le> ln (1 + t) * 1"
    using ln2_bounds by (intro mult_left_mono) auto
  then have "ln (1 + t) \<le> ln (1 + t) / ln 2"
    using ln2_bounds by (simp add: field_simps)
  with a have "t / 2 \<le> ln (1 + t) / ln 2"
    by (rule order_trans)
  then show ?thesis
    unfolding log_def .
qed

lemma log2_one_minus:
  fixes t :: real
  assumes "0 < t" and "t < 1"
  shows "log 2 (1 - t) \<le> - t"
proof -
  have a: "ln (1 - t) \<le> - t"
    using ln_le_minus_one [of "1 - t"] assms by simp
  then have "ln (1 - t) \<le> 0"
    using assms by simp
  then have "ln (1 - t) * 1 \<le> ln (1 - t) * ln 2"
    using ln2_bounds by (intro mult_left_mono_neg) auto
  then have "ln (1 - t) / ln 2 \<le> ln (1 - t)"
    using ln2_bounds by (simp add: field_simps)
  then have "ln (1 - t) / ln 2 \<le> - t"
    using a by (rule order_trans)
  then show ?thesis
    unfolding log_def .
qed

lemma floor_log2f:
  fixes m :: nat
  assumes acc: "\<forall>x. 1 \<le> x \<and> x < 2 ^ 19 \<longrightarrow> \<bar>log2f x - log 2 x\<bar> < 1 / 2 ^ 19"
    and pow2: "\<forall>k<19. log2f (2 ^ k) = real k"
    and m: "0 < m" "m < 2 ^ 19"
  shows "\<lfloor>log2f (real m)\<rfloor> = \<lfloor>log 2 (real m)\<rfloor>"
proof -
  define k where "k = nat \<lfloor>log 2 (real m)\<rfloor>"
  have "0 \<le> log 2 (real m)"
    using m by simp
  then have fl: "\<lfloor>log 2 (real m)\<rfloor> = int k"
    by (simp add: k_def)
  then have kb: "2 ^ k \<le> m" "m < 2 ^ (k + 1)"
    using floor_log_nat_eq_powr_iff [of 2 m k] m by simp_all
  have "(2::nat) ^ k < 2 ^ 19"
    using kb(1) m(2) by (rule le_less_trans)
  then have k19: "k < 19"
    by (rule power_less_imp_less_exp [of 2, rotated]) simp
  show ?thesis
  proof (cases "m = 2 ^ k")
    case True
    then have "log2f (real m) = real k"
      using pow2 k19 by simp
    then show ?thesis
      by (simp add: fl)
  next
    case False
    with kb have lo: "2 ^ k + 1 \<le> m" and hi: "m + 1 \<le> 2 ^ (k + 1)"
      by simp_all
    have k1: "1 \<le> k"
    proof (rule ccontr)
      assume "\<not> 1 \<le> k"
      then have "k = 0" by simp
      with kb m False show False by simp
    qed
    have p19: "(2::real) ^ k \<le> 2 ^ 18"
      using k19 by (intro power_increasing) simp_all
    have pk: "(2::real) ^ k \<ge> 2"
      using k1 power_increasing [of 1 k "2::real"] by simp
    have one2: "(1::real) < 2"
      by simp
    have mpos: "0 < real m"
      using m by simp
    have pk0: "0 < (2::real) ^ k"
      by simp
    have inv: "1 / (2::real) ^ k \<le> 1 / 2"
      using pk by (simp add: field_simps)
    \<comment> \<open>the logarithm is at least \<open>1 / 2 ^ 19\<close> above \<open>k\<close>\<close>
    have fl1: "0 < 1 + 1 / (2::real) ^ k"
      by (intro add_pos_pos) simp_all
    have posl: "0 < (2::real) ^ k * (1 + 1 / 2 ^ k)"
      using pk0 fl1 by (rule mult_pos_pos)
    have "real (2 ^ k + 1) \<le> real m"
      using lo by (simp only: of_nat_le_iff)
    moreover have "(2::real) ^ k * (1 + 1 / 2 ^ k) = 2 ^ k + 1"
      by (simp add: distrib_left)
    ultimately have "2 ^ k * (1 + 1 / 2 ^ k) \<le> real m"
      by simp
    then have "log 2 (2 ^ k * (1 + 1 / 2 ^ k)) \<le> log 2 (real m)"
      by (simp only: log_le_cancel_iff [OF one2 posl mpos])
    moreover have "log 2 (2 ^ k * (1 + 1 / 2 ^ k)) = real k + log 2 (1 + 1 / 2 ^ k)"
      by (simp add: log_mult_pos [OF pk0 fl1])
    moreover have "(1 / 2 ^ k) / 2 \<le> log 2 (1 + 1 / 2 ^ k)"
      using inv by (intro log2_one_plus) simp_all
    moreover have "1 / 2 ^ 19 \<le> (1 / (2::real) ^ k) / 2"
    proof -
      have "(2::real) ^ k * 2 \<le> 2 ^ 18 * 2"
        using p19 by simp
      then have "1 / (2 ^ 18 * 2) \<le> 1 / ((2::real) ^ k * 2)"
        by (intro divide_left_mono) simp_all
      then show ?thesis
        by simp
    qed
    ultimately have lower: "real k + 1 / 2 ^ 19 \<le> log 2 (real m)"
      by linarith
    \<comment> \<open>and at least \<open>1 / 2 ^ 19\<close> below \<open>k + 1\<close>\<close>
    define j where "j = k + 1"
    have j19: "j \<le> 19" and jk: "real j = real k + 1"
      using k19 by (simp_all add: j_def)
    have hj: "m + 1 \<le> 2 ^ j"
      using hi by (simp only: j_def)
    have pj0: "0 < (2::real) ^ j"
      by simp
    have pj2: "2 \<le> (2::real) ^ j"
      using power_increasing [of 1 j "2::real"] by (simp add: j_def)
    have invj: "1 / (2::real) ^ j < 1" "0 < 1 / (2::real) ^ j"
      using pj2 by (simp_all add: field_simps)
    have fu1: "0 < 1 - 1 / (2::real) ^ j"
      using invj(1) by simp
    have posu: "0 < (2::real) ^ j * (1 - 1 / 2 ^ j)"
      using pj0 fu1 by (rule mult_pos_pos)
    have "real (m + 1) \<le> real (2 ^ j)"
      using hj by (simp only: of_nat_le_iff)
    moreover have "(2::real) ^ j * (1 - 1 / 2 ^ j) = 2 ^ j - 1"
      by (simp add: right_diff_distrib)
    ultimately have "real m \<le> 2 ^ j * (1 - 1 / 2 ^ j)"
      by simp
    then have "log 2 (real m) \<le> log 2 (2 ^ j * (1 - 1 / 2 ^ j))"
      by (simp only: log_le_cancel_iff [OF one2 mpos posu])
    moreover have "log 2 (2 ^ j * (1 - 1 / 2 ^ j)) = real j + log 2 (1 - 1 / 2 ^ j)"
      by (simp add: log_mult_pos [OF pj0 fu1])
    moreover have "log 2 (1 - 1 / 2 ^ j) \<le> - (1 / 2 ^ j)"
      using invj by (intro log2_one_minus)
    moreover have "1 / 2 ^ 19 \<le> 1 / (2::real) ^ j"
      using j19 by (intro divide_left_mono power_increasing) simp_all
    ultimately have upper: "log 2 (real m) \<le> real k + 1 - 1 / 2 ^ 19"
      using jk by linarith
    have "real m < real (2 ^ 19)"
      using m(2) by (simp only: of_nat_less_iff)
    then have "1 \<le> real m \<and> real m < 2 ^ 19"
      using m(1) by simp
    then have "\<bar>log2f (real m) - log 2 (real m)\<bar> < 1 / 2 ^ 19"
      using acc by blast
    with lower upper have "real k \<le> log2f (real m)" "log2f (real m) < real k + 1"
      by linarith+
    then have "\<lfloor>log2f (real m)\<rfloor> = int k"
      by (intro floor_unique) auto
    then show ?thesis
      by (simp add: fl)
  qed
qed


lemma ucast_succ: "(ucast ((ucast (w :: 8 word) :: 32 word) + 1) :: 8 word) = w + 1"
  by transfer (simp add: take_bit_eq_mod mod_simps)

lemma float_of_nat_exact: "n < 2 ^ 24 \<Longrightarrow> float_of_nat n = real n"
  by (simp add: float_of_nat_def)

lemma getMaxMipmapCount_small:
  assumes acc: "\<forall>x. 1 \<le> x \<and> x < 2 ^ 19 \<longrightarrow> \<bar>log2f x - log 2 x\<bar> < 1 / 2 ^ 19"
    and pow2: "\<forall>k<19. log2f (2 ^ k) = real k"
    and m: "0 < unat maxResolution" "unat maxResolution < 2 ^ 19"
  shows "map_sum id unat (getMaxMipmapCount log2f maxResolution)
           = Inr (nat \<lfloor>log 2 (real (unat maxResolution))\<rfloor> + 1)"
proof -
  define m where "m = unat maxResolution"
  define k where "k = nat \<lfloor>log 2 (real m)\<rfloor>"
  have m0: "0 < m" and m19: "m < 2 ^ 19"
    using m by (simp_all add: m_def)
  have "0 \<le> log 2 (real m)"
    using m0 by simp
  then have fl: "\<lfloor>log 2 (real m)\<rfloor> = int k"
    by (simp add: k_def)
  then have "2 ^ k \<le> m"
    using floor_log_nat_eq_powr_iff [of 2 m k] m0 by simp
  then have "(2::nat) ^ k < 2 ^ 19"
    using m19 by (rule le_less_trans)
  then have k19: "k < 19"
    by (rule power_less_imp_less_exp [of 2, rotated]) simp
  have ne: "maxResolution \<noteq> 0"
    using m(1) by auto
  have "m < 2 ^ 24"
    using m19 by (rule less_trans) simp
  then have fx: "float_of_nat m = real m"
    by (rule float_of_nat_exact)
  have "\<lfloor>log2f (real m)\<rfloor> = int k"
    using floor_log2f [OF acc pow2 m0 m19] fl by simp
  then have ff: "floorf (log2f (float_of_nat m)) = real k"
    by (simp add: floorf_def fx)
  have cast: "(float_to_unsigned (real k) :: error + 8 word) = Inr (of_nat k)"
    using k19 by (simp add: float_to_unsigned_def truncf_def)
  have un: "unat (of_nat k + 1 :: 8 word) = k + 1"
    using k19 by (simp add: unat_word_ariths unat_of_nat)
  have "getMaxMipmapCount log2f maxResolution = Inr (of_nat k + 1)"
    using ne by (simp add: getMaxMipmapCount_def m_def [symmetric] ff cast bindE_def ucast_succ)
  then have "map_sum id unat (getMaxMipmapCount log2f maxResolution) = Inr (k + 1)"
    by (simp add: un)
  then show ?thesis
    by (simp only: k_def m_def)
qed

lemma floor_log2_256: "nat \<lfloor>log 2 (real 256)\<rfloor> = 8"
  using floor_log_nat_eq_if [of 2 8 256] by simp

lemma floor_log2_255: "nat \<lfloor>log 2 (real 255)\<rfloor> = 7"
  using floor_log_nat_eq_if [of 2 7 255] by simp

lemma map_sum_unat_eq: "map_sum id unat r = Inr n \<Longrightarrow> n < 256 \<Longrightarrow> r = Inr (of_nat n :: 8 word)"
  by (cases r) auto

text \<open>
  Claim C5, amended. Let \<^verbatim>\<open>log2f\<close> be, on the arguments from 1 up to \<open>2 ^ 19\<close>, exact
  at the powers of two and off by less than \<open>1 / 2 ^ 19\<close> elsewhere. Then
  \<^verbatim>\<open>getMaxMipmapCount\<close> returns 0 for 0 and \<open>floor (log2 maxResolution) + 1\<close> for
  every other \<open>maxResolution\<close> below \<open>2 ^ 19\<close>, in particular 9 for 256 and 8 for 255;
  the overloads for two and three dimensions are \<^verbatim>\<open>getMaxMipmapCount\<close> at the largest
  of their arguments.
\<close>

theorem getMaxMipmapCount_floor_log2:
  assumes acc: "\<forall>x. 1 \<le> x \<and> x < 2 ^ 19 \<longrightarrow> \<bar>log2f x - log 2 x\<bar> < 1 / 2 ^ 19"
    and pow2: "\<forall>k<19. log2f (2 ^ k) = real k"
  shows "getMaxMipmapCount log2f 0 = Inr 0
     \<and> (0 < unat maxResolution \<and> unat maxResolution < 2 ^ 19 \<longrightarrow>
          map_sum id unat (getMaxMipmapCount log2f maxResolution)
            = Inr (nat \<lfloor>log 2 (real (unat maxResolution))\<rfloor> + 1))
     \<and> getMaxMipmapCount log2f 256 = Inr 9
     \<and> getMaxMipmapCount log2f 255 = Inr 8
     \<and> getMaxMipmapCount_wh log2f width height = getMaxMipmapCount log2f (max width height)
     \<and> getMaxMipmapCount_whd log2f width height depth
           = getMaxMipmapCount log2f (max (max width height) depth)"
proof -
  have "map_sum id unat (getMaxMipmapCount log2f 256) = Inr (nat \<lfloor>log 2 (real (unat (256 :: 32 word)))\<rfloor> + 1)"
    by (rule getMaxMipmapCount_small [OF acc pow2]) simp_all
  then have a: "getMaxMipmapCount log2f 256 = Inr 9"
    using floor_log2_256 by (auto dest: map_sum_unat_eq)
  have "map_sum id unat (getMaxMipmapCount log2f 255) = Inr (nat \<lfloor>log 2 (real (unat (255 :: 32 word)))\<rfloor> + 1)"
    by (rule getMaxMipmapCount_small [OF acc pow2]) simp_all
  then have b: "getMaxMipmapCount log2f 255 = Inr 8"
    using floor_log2_255 by (auto dest: map_sum_unat_eq)
  show ?thesis
    using a b getMaxMipmapCount_small [OF acc pow2, of maxResolution]
    by (simp add: getMaxMipmapCount_def getMaxMipmapCount_wh_def getMaxMipmapCount_whd_def)
qed

theorem getMaxMipmapCount_floor_log2_witness:
  "getMaxMipmapCount (\<lambda>x. float_round (log 2 x)) 0 = Inr 0
   \<and> map_sum id unat (getMaxMipmapCount (\<lambda>x. float_round (log 2 x)) 1000)
       = Inr (nat \<lfloor>log 2 (real (unat (1000 :: 32 word)))\<rfloor> + 1)
   \<and> getMaxMipmapCount (\<lambda>x. float_round (log 2 x)) 256 = Inr 9
   \<and> getMaxMipmapCount (\<lambda>x. float_round (log 2 x)) 255 = Inr 8
   \<and> getMaxMipmapCount_wh (\<lambda>x. float_round (log 2 x)) 640 480
       = getMaxMipmapCount (\<lambda>x. float_round (log 2 x)) (max 640 480)
   \<and> getMaxMipmapCount_whd (\<lambda>x. float_round (log 2 x)) 640 480 128
       = getMaxMipmapCount (\<lambda>x. float_round (log 2 x)) (max (max 640 480) 128)"
proof -
  have h1: "\<forall>x. 1 \<le> x \<and> x < 2 ^ 19 \<longrightarrow> \<bar>float_round (log 2 x) - log 2 x\<bar> < 1 / 2 ^ 19"
    using float_round_log2 by blast
  have "float_round (log 2 (2 ^ k)) = real k" if "k < 19" for k :: nat
  proof -
    have "log 2 ((2::real) ^ k) = real k"
      by (rule log_pow_cancel) simp_all
    moreover have "float_round (of_int (int k)) = of_int (int k)"
      using that by (intro float_round_of_int) simp
    ultimately show ?thesis
      by simp
  qed
  then have h2: "\<forall>k<19. float_round (log 2 (2 ^ k)) = real k"
    by blast
  have h3: "0 < unat (1000 :: 32 word) \<and> unat (1000 :: 32 word) < 2 ^ 19"
    by simp
  show ?thesis
    using h3 getMaxMipmapCount_floor_log2 [OF h1 h2, where maxResolution = 1000 and width = 640 and height = 480 and depth = 128] by simp
qed

lemma floorlog_uint32_max: "floorlog 2 4294967295 = 32"
  by (simp add: compute_floorlog)

text \<open>
  Claim C5, as stated for every \<open>maxResolution\<close>, fails for large arguments: the
  conversion of 4294967295 to \<^verbatim>\<open>float\<close> gives \<open>2 ^ 32\<close>, whose logarithm is 32, so
  that the result is 33 even with the exact logarithm in the place of \<^verbatim>\<open>log2f\<close>,
  while \<open>floor (log2 4294967295) + 1\<close> is 32.
\<close>

theorem getMaxMipmapCount_uint32_max:
  "getMaxMipmapCount (log 2) 4294967295 = Inr 33
   \<and> \<lfloor>log 2 (real (unat (4294967295 :: 32 word)))\<rfloor> + 1 = 32"
proof -
  have "float_of_nat 4294967295 = 2 ^ 32"
    by (simp add: float_of_nat_def floorlog_uint32_max Let_def)
  moreover have "log 2 ((2::real) ^ 32) = real 32"
    by (rule log_pow_cancel) simp_all
  ultimately have "floorf (log 2 (float_of_nat 4294967295)) = 32"
    by (simp add: floorf_def)
  then have a: "getMaxMipmapCount (log 2) 4294967295 = Inr 33"
    by (simp add: getMaxMipmapCount_def bindE_def float_to_unsigned_def truncf_def)
  have "\<lfloor>log 2 (real 4294967295)\<rfloor> = int 31"
    using floor_log_nat_eq_if [of 2 31 4294967295] by simp
  then have b: "\<lfloor>log 2 (real (unat (4294967295 :: 32 word)))\<rfloor> + 1 = 32"
    by simp
  from a b show ?thesis ..
qed

subsection \<open>Block edges\<close>

text \<open>
  Claim C7. \<^verbatim>\<open>getCompressedBlockWidth\<close> returns 4 for every format of the BCn, ETC2,
  EAC and ATC families, 0 for every PVRTC format whatever the strict flag is, 0 for
  ETC1 when the strict flag is set and 4 when it is not, and 1 for every format whose
  descriptor does not carry the Compressed flag; \<^verbatim>\<open>getCompressedBlockHeight\<close> returns
  what \<^verbatim>\<open>getCompressedBlockWidth\<close> returns, for every format and flag.
\<close>

theorem getCompressedBlockWidth_families:
  "(\<forall>fmt \<in> {PFG_BC1_UNORM, PFG_BC1_UNORM_SRGB, PFG_BC2_UNORM, PFG_BC2_UNORM_SRGB,
               PFG_BC3_UNORM, PFG_BC3_UNORM_SRGB, PFG_BC4_UNORM, PFG_BC4_SNORM,
               PFG_BC5_UNORM, PFG_BC5_SNORM, PFG_BC6H_UF16, PFG_BC6H_SF16,
               PFG_BC7_UNORM, PFG_BC7_UNORM_SRGB,
               PFG_ETC2_RGB8_UNORM, PFG_ETC2_RGB8_UNORM_SRGB,
               PFG_ETC2_RGBA8_UNORM, PFG_ETC2_RGBA8_UNORM_SRGB,
               PFG_ETC2_RGB8A1_UNORM, PFG_ETC2_RGB8A1_UNORM_SRGB,
               PFG_EAC_R11_UNORM, PFG_EAC_R11_SNORM,
               PFG_EAC_R11G11_UNORM, PFG_EAC_R11G11_SNORM,
               PFG_ATC_RGB, PFG_ATC_RGBA_EXPLICIT_ALPHA,
               PFG_ATC_RGBA_INTERPOLATED_ALPHA}. getCompressedBlockWidth fmt apiStrict = Inr 4)
   \<and> (\<forall>fmt \<in> {PFG_PVRTC_RGB2, PFG_PVRTC_RGBA2, PFG_PVRTC_RGB4, PFG_PVRTC_RGBA4,
               PFG_PVRTC2_2BPP, PFG_PVRTC2_4BPP}. getCompressedBlockWidth fmt apiStrict = Inr 0)
   \<and> getCompressedBlockWidth PFG_ETC1_RGB8_UNORM True = Inr 0
   \<and> getCompressedBlockWidth PFG_ETC1_RGB8_UNORM False = Inr 4
   \<and> (isCompressed format = Inr False \<longrightarrow> getCompressedBlockWidth format apiStrict = Inr 1)
   \<and> getCompressedBlockHeight format apiStrict = getCompressedBlockWidth format apiStrict"
proof -
  have unc: "getCompressedBlockWidth format apiStrict = Inr 1" if "isCompressed format = Inr False"
  proof (cases "format < PFG_COUNT")
    case True
    from that have "format \<notin> {PFG_BC1_UNORM, PFG_BC1_UNORM_SRGB, PFG_BC2_UNORM, PFG_BC2_UNORM_SRGB,
               PFG_BC3_UNORM, PFG_BC3_UNORM_SRGB, PFG_BC4_UNORM, PFG_BC4_SNORM,
               PFG_BC5_UNORM, PFG_BC5_SNORM, PFG_BC6H_UF16, PFG_BC6H_SF16,
               PFG_BC7_UNORM, PFG_BC7_UNORM_SRGB,
               PFG_PVRTC_RGB2, PFG_PVRTC_RGBA2, PFG_PVRTC_RGB4, PFG_PVRTC_RGBA4,
               PFG_PVRTC2_2BPP, PFG_PVRTC2_4BPP, PFG_ETC1_RGB8_UNORM,
               PFG_ETC2_RGB8_UNORM, PFG_ETC2_RGB8_UNORM_SRGB,
               PFG_ETC2_RGBA8_UNORM, PFG_ETC2_RGBA8_UNORM_SRGB,
               PFG_ETC2_RGB8A1_UNORM, PFG_ETC2_RGB8A1_UNORM_SRGB,
               PFG_EAC_R11_UNORM, PFG_EAC_R11_SNORM,
               PFG_EAC_R11G11_UNORM, PFG_EAC_R11G11_SNORM,
               PFG_ATC_RGB, PFG_ATC_RGBA_EXPLICIT_ALPHA,
               PFG_ATC_RGBA_INTERPOLATED_ALPHA}"
      unfolding isCompressed_iff [OF True] by simp
    with that show ?thesis
      by (simp add: getCompressedBlockWidth_def)
  next
    case False
    with that show ?thesis
      by (simp add: isCompressed_out_of_range)
  qed
  have four: "\<forall>fmt \<in> {PFG_BC1_UNORM, PFG_BC1_UNORM_SRGB, PFG_BC2_UNORM, PFG_BC2_UNORM_SRGB,
               PFG_BC3_UNORM, PFG_BC3_UNORM_SRGB, PFG_BC4_UNORM, PFG_BC4_SNORM,
               PFG_BC5_UNORM, PFG_BC5_SNORM, PFG_BC6H_UF16, PFG_BC6H_SF16,
               PFG_BC7_UNORM, PFG_BC7_UNORM_SRGB,
               PFG_ETC2_RGB8_UNORM, PFG_ETC2_RGB8_UNORM_SRGB,
               PFG_ETC2_RGBA8_UNORM, PFG_ETC2_RGBA8_UNORM_SRGB,
               PFG_ETC2_RGB8A1_UNORM, PFG_ETC2_RGB8A1_UNORM_SRGB,
               PFG_EAC_R11_UNORM, PFG_EAC_R11_SNORM,
               PFG_EAC_R11G11_UNORM, PFG_EAC_R11G11_SNORM,
               PFG_ATC_RGB, PFG_ATC_RGBA_EXPLICIT_ALPHA,
               PFG_ATC_RGBA_INTERPOLATED_ALPHA}. getCompressedBlockWidth fmt apiStrict = Inr 4"
    by (simp add: getCompressedBlockWidth_def)
  have zero: "\<forall>fmt \<in> {PFG_PVRTC_RGB2, PFG_PVRTC_RGBA2, PFG_PVRTC_RGB4, PFG_PVRTC_RGBA4,
               PFG_PVRTC2_2BPP, PFG_PVRTC2_4BPP}. getCompressedBlockWidth fmt apiStrict = Inr 0"
    by (simp add: getCompressedBlockWidth_def PixelFormatGpu_defs)
  have etc1: "getCompressedBlockWidth PFG_ETC1_RGB8_UNORM True = Inr 0"
    "getCompressedBlockWidth PFG_ETC1_RGB8_UNORM False = Inr 4"
    by (simp_all add: getCompressedBlockWidth_def PixelFormatGpu_defs)
  show ?thesis
    using unc four zero etc1 by (simp add: getCompressedBlockHeight_def)
qed

theorem getCompressedBlockWidth_families_witness:
  "getCompressedBlockWidth PFG_BC7_UNORM True = Inr 4
   \<and> getCompressedBlockWidth PFG_PVRTC_RGBA4 True = Inr 0
   \<and> isCompressed PFG_RGBA8_UNORM = Inr False
   \<and> getCompressedBlockWidth PFG_RGBA8_UNORM True = Inr 1
   \<and> getCompressedBlockHeight PFG_RGBA8_UNORM True = Inr 1"
proof -
  have h: "isCompressed PFG_RGBA8_UNORM = Inr False"
    by (simp add: isCompressed_def desc_defs)
  show ?thesis
    using h getCompressedBlockWidth_families [of True PFG_RGBA8_UNORM] by simp
qed

subsection \<open>Format families\<close>

text \<open>
  \<^verbatim>\<open>getFamily\<close> is idempotent, and a format has the bytes per pixel of its family.
  It has the component count of its family too, with one exception.
\<close>

lemma getFamily_idempotent: "getFamily (getFamily format) = getFamily format"
  unfolding getFamily_def PixelFormatGpu_defs by (simp split: if_splits)

lemma getFamily_valid: "fmt < PFG_COUNT \<Longrightarrow> getFamily fmt < PFG_COUNT"
  unfolding getFamily_def PixelFormatGpu_defs by (simp split: if_splits)

lemma getFamily_table:
  "list_all (\<lambda>fmt.
      map bytesPerPixel msPixelFormatDesc ! getFamily fmt = map bytesPerPixel msPixelFormatDesc ! fmt
      \<and> (fmt \<noteq> PFG_BGRX8_UNORM_SRGB \<longrightarrow>
           map components msPixelFormatDesc ! getFamily fmt = map components msPixelFormatDesc ! fmt))
     [0..<114]"
  unfolding msPixelFormatDesc_bytesPerPixel msPixelFormatDesc_components
  by (simp add: upt_114 PixelFormatGpu_defs getFamily_def)

lemma getFamily_bytesPerPixel:
  assumes "fmt < PFG_COUNT"
  shows "getBytesPerPixel (getFamily fmt) = getBytesPerPixel fmt"
proof -
  have "fmt \<in> set [0..<114]"
    using assms by (simp add: PFG_COUNT_def)
  then have "map bytesPerPixel msPixelFormatDesc ! getFamily fmt = map bytesPerPixel msPixelFormatDesc ! fmt"
    using getFamily_table unfolding list_all_iff by blast
  then show ?thesis
    using assms getFamily_valid [OF assms]
    by (simp add: getBytesPerPixel_def getDescriptionFor_def bytesPerPixel_nth)
qed

lemma getFamily_components:
  assumes "fmt < PFG_COUNT" and "fmt \<noteq> PFG_BGRX8_UNORM_SRGB"
  shows "getNumberOfComponents (getFamily fmt) = getNumberOfComponents fmt"
proof -
  have "fmt \<in> set [0..<114]"
    using assms by (simp add: PFG_COUNT_def)
  then have "map components msPixelFormatDesc ! getFamily fmt = map components msPixelFormatDesc ! fmt"
    using getFamily_table assms(2) unfolding list_all_iff by blast
  then show ?thesis
    using assms getFamily_valid [OF assms(1)]
    by (simp add: getNumberOfComponents_def getDescriptionFor_def components_nth)
qed

text \<open>
  Claim C3. \<^verbatim>\<open>getFamily\<close> is idempotent (lemma \<open>getFamily_idempotent\<close>), but two
  formats of one family need not have the same component count: \<^verbatim>\<open>PFG_BGRX8_UNORM\<close>
  and \<^verbatim>\<open>PFG_BGRX8_UNORM_SRGB\<close> are mapped to the same family, and their descriptors
  give 4 and 3 components.
\<close>

theorem getFamily_BGRX8_components_differ: "getFamily PFG_BGRX8_UNORM = getFamily PFG_BGRX8_UNORM_SRGB
   \<and> getNumberOfComponents PFG_BGRX8_UNORM = Inr 4
   \<and> getNumberOfComponents PFG_BGRX8_UNORM_SRGB = Inr 3"
  by (simp add: getFamily_def getNumberOfComponents_def desc_defs)

subsection \<open>The pixel codecs\<close>

lemma upt_small: "[0..<1] = [0]" "[0..<2] = [0, 1]" "[0..<3] = [0, 1, 2]" "[0..<4] = [0, 1, 2, 3]"
  by (simp_all add: upt_rec)

lemma float_of_int_exact: "\<bar>i\<bar> < 2 ^ 24 \<Longrightarrow> float_of_int i = real_of_int i"
  by (auto simp: float_of_int_def float_of_nat_def)

lemma sint8_small: "\<bar>sint (v :: 8 word)\<bar> < 2 ^ 24"
proof -
  have "- (2 ^ 7) \<le> sint v" "sint v < 2 ^ 7"
    using sint_ge [of v] sint_lt [of v] by simp_all
  then show ?thesis by simp
qed

lemma sint16_small: "\<bar>sint (v :: 16 word)\<bar> < 2 ^ 24"
proof -
  have "- (2 ^ 15) \<le> sint v" "sint v < 2 ^ 15"
    using sint_ge [of v] sint_lt [of v] by simp_all
  then show ?thesis by simp
qed

lemma convertToFloat_channel_int8:
  fixes flags :: "32 word"
  assumes "flags AND PFF_FLOAT = 0" and "flags AND PFF_HALF = 0"
    and "flags AND PFF_NORMALIZED \<noteq> 0" and "flags AND PFF_SIGNED \<noteq> 0"
  shows "convertToFloat_channel halfToFloat T_int8 flags (CU8 v)
           = Inr (float_round (snorm_decode_spec 8 (sint v)))"
proof -
  have "convertToFloat_channel halfToFloat T_int8 flags (CU8 v)
      = Inr (max (float_round (real_of_int (sint v) / 127)) (- 1))"
    using assms
    by (simp add: convertToFloat_channel_def read_T_def bindE_def numeric_limits_max_def
        float_of_int_exact [OF sint8_small] float_of_nat_def)
  then show ?thesis
    by (simp add: float_round_max_minus_one snorm_decode_spec_def)
qed

lemma convertToFloat_channel_int16:
  fixes flags :: "32 word"
  assumes "flags AND PFF_FLOAT = 0" and "flags AND PFF_HALF = 0"
    and "flags AND PFF_NORMALIZED \<noteq> 0" and "flags AND PFF_SIGNED \<noteq> 0"
  shows "convertToFloat_channel halfToFloat T_int16 flags (CU16 v)
           = Inr (float_round (snorm_decode_spec 16 (sint v)))"
proof -
  have "convertToFloat_channel halfToFloat T_int16 flags (CU16 v)
      = Inr (max (float_round (real_of_int (sint v) / 32767)) (- 1))"
    using assms
    by (simp add: convertToFloat_channel_def read_T_def bindE_def numeric_limits_max_def
        float_of_int_exact [OF sint16_small] float_of_nat_def)
  then show ?thesis
    by (simp add: float_round_max_minus_one snorm_decode_spec_def)
qed

text \<open>
  \<^verbatim>\<open>convertToFloat\<close> on a pixel with as many cells as components, when every channel
  decodes.
\<close>

lemma sequenceE_map_Inr: "sequenceE (map (\<lambda>x. Inr (g x)) xs) = Inr (map g xs)"
  by (induction xs) (simp_all add: bindE_def)

lemma convertToFloat_cells:
  fixes flags :: "32 word"
  assumes "\<And>v. convertToFloat_channel halfToFloat T flags (C v) = Inr (g v)"
  shows "convertToFloat halfToFloat T (map C vs) (length vs) flags
           = Inr (map g vs @ replicate (3 - length vs) 0 @ (if length vs < 4 then [1] else []))"
proof -
  have "map (\<lambda>i. bindE (cell_at (map C vs) i) (convertToFloat_channel halfToFloat T flags))
            [0..<length vs]
      = map (\<lambda>i. Inr (g (vs ! i))) [0..<length vs]"
    by (rule map_cong) (simp_all add: cell_at_def bindE_def assms)
  also have "\<dots> = map (\<lambda>v. Inr (g v)) (map (\<lambda>i. vs ! i) [0..<length vs])"
    by (simp add: comp_def)
  also have "\<dots> = map (\<lambda>v. Inr (g v)) vs"
    by (simp only: map_nth)
  finally show ?thesis
    by (simp add: convertToFloat_def sequenceE_map_Inr bindE_def)
qed

lemma snorm_flags:
  "(56 :: 32 word) AND PFF_FLOAT = 0" "(56 :: 32 word) AND PFF_HALF = 0"
  "(56 :: 32 word) AND PFF_NORMALIZED \<noteq> 0" "(56 :: 32 word) AND PFF_SIGNED \<noteq> 0"
  by (simp_all add: PFF_defs)

lemma unpackColour_dispatch8:
  "unpackColour halfToFloat PFG_RGBA8_SNORM srcPtr = convertToFloat halfToFloat T_int8 srcPtr 4 56"
  "unpackColour halfToFloat PFG_RG8_SNORM srcPtr = convertToFloat halfToFloat T_int8 srcPtr 2 56"
  "unpackColour halfToFloat PFG_R8_SNORM srcPtr = convertToFloat halfToFloat T_int8 srcPtr 1 56"
  by (simp_all add: unpackColour_def getFlags_def desc_defs bindE_def)

lemma unpackColour_dispatch16:
  "unpackColour halfToFloat PFG_RGBA16_SNORM srcPtr = convertToFloat halfToFloat T_int16 srcPtr 4 56"
  "unpackColour halfToFloat PFG_RG16_SNORM srcPtr = convertToFloat halfToFloat T_int16 srcPtr 2 56"
  "unpackColour halfToFloat PFG_R16_SNORM srcPtr = convertToFloat halfToFloat T_int16 srcPtr 1 56"
  by (simp_all add: unpackColour_def getFlags_def desc_defs bindE_def)

lemma unpackColour_SNORM8:
  assumes "(pf, length vs) \<in> {(PFG_RGBA8_SNORM, 4), (PFG_RG8_SNORM, 2), (PFG_R8_SNORM, 1)}"
  shows "unpackColour halfToFloat pf (map CU8 vs)
           = Inr (map (\<lambda>v. float_round (snorm_decode_spec 8 (sint v))) vs
                  @ replicate (3 - length vs) 0 @ (if length vs < 4 then [1] else []))"
proof -
  have "unpackColour halfToFloat pf (map CU8 vs)
      = convertToFloat halfToFloat T_int8 (map CU8 vs) (length vs) 56"
    using assms by (auto simp: unpackColour_dispatch8)
  then show ?thesis
    by (simp only: convertToFloat_cells [where C = CU8, OF convertToFloat_channel_int8 [OF snorm_flags]])
qed

lemma unpackColour_SNORM16:
  assumes "(pf, length ws) \<in> {(PFG_RGBA16_SNORM, 4), (PFG_RG16_SNORM, 2), (PFG_R16_SNORM, 1)}"
  shows "unpackColour halfToFloat pf (map CU16 ws)
           = Inr (map (\<lambda>v. float_round (snorm_decode_spec 16 (sint v))) ws
                  @ replicate (3 - length ws) 0 @ (if length ws < 4 then [1] else []))"
proof -
  have "unpackColour halfToFloat pf (map CU16 ws)
      = convertToFloat halfToFloat T_int16 (map CU16 ws) (length ws) 56"
    using assms by (auto simp: unpackColour_dispatch16)
  then show ?thesis
    by (simp only: convertToFloat_cells [where C = CU16, OF convertToFloat_channel_int16 [OF snorm_flags]])
qed

lemma snorm_decode_spec_bounds:
  assumes "v < 2 ^ (w - 1)" and "2 \<le> w"
  shows "- 1 \<le> snorm_decode_spec w v" and "snorm_decode_spec w v \<le> 1"
proof -
  define M :: int where "M = 2 ^ (w - 1) - 1"
  have "(2::int) ^ 1 \<le> 2 ^ (w - 1)"
    using assms(2) by (intro power_increasing) simp_all
  then have M: "0 < M" "v \<le> M"
    using assms(1) by (simp_all add: M_def)
  have s: "snorm_decode_spec w v = max (real_of_int v / real_of_int M) (- 1)"
    by (simp add: snorm_decode_spec_def M_def)
  show "- 1 \<le> snorm_decode_spec w v"
    by (simp add: s)
  have "real_of_int v / real_of_int M \<le> 1"
    using M by simp
  then show "snorm_decode_spec w v \<le> 1"
    by (simp add: s)
qed

lemma snorm_decode_accuracy:
  assumes "v < 2 ^ (w - 1)" and "2 \<le> w"
  shows "\<bar>float_round (snorm_decode_spec w v) - snorm_decode_spec w v\<bar> \<le> 1 / 2 ^ 24"
  using snorm_decode_spec_bounds [OF assms] by (intro float_round_error_small) simp

lemma snorm_decode_extremes:
  "float_round (snorm_decode_spec 8 (- 128)) = - 1" "float_round (snorm_decode_spec 8 (- 127)) = - 1"
  "float_round (snorm_decode_spec 16 (- 32768)) = - 1" "float_round (snorm_decode_spec 16 (- 32767)) = - 1"
  by (simp_all add: snorm_decode_spec_def float_round_minus_one)

text \<open>
  Claim C6. A channel of a signed normalized format is stored as an \<^verbatim>\<open>int8\<close> or an
  \<^verbatim>\<open>int16\<close>. \<^verbatim>\<open>convertToFloat\<close>, with the flags Normalized and Signed set and Float and
  Half clear, and \<^verbatim>\<open>unpackColour\<close> for the formats \<^verbatim>\<open>PFG_RGBA8_SNORM\<close>, \<^verbatim>\<open>PFG_RG8_SNORM\<close>,
  \<^verbatim>\<open>PFG_R8_SNORM\<close>, \<^verbatim>\<open>PFG_RGBA16_SNORM\<close>, \<^verbatim>\<open>PFG_RG16_SNORM\<close> and \<^verbatim>\<open>PFG_R16_SNORM\<close>,
  decode every channel of width \<open>w\<close> to the two's-complement value divided by
  \<open>2 ^ (w - 1) - 1\<close> and clamped below at \<open>- 1\<close>, as a single-precision value: the
  value of the format nearest to that number, which is within \<open>1 / 2 ^ 24\<close> of it. The
  lanes without a channel are 0, the alpha lane 1. The two most negative codes (-128
  and -127, -32768 and -32767) both decode to exactly \<open>- 1\<close>.
\<close>

theorem convertToFloat_signed_normalized:
  fixes flags :: "32 word" and vs :: "8 word list" and ws :: "16 word list"
    and v :: "8 word" and w :: "16 word"
  shows
    "(flags AND PFF_FLOAT = 0 \<and> flags AND PFF_HALF = 0
        \<and> flags AND PFF_NORMALIZED \<noteq> 0 \<and> flags AND PFF_SIGNED \<noteq> 0 \<longrightarrow>
        convertToFloat halfToFloat T_int8 (map CU8 vs) (length vs) flags
          = Inr (map (\<lambda>v. float_round (snorm_decode_spec 8 (sint v))) vs
                 @ replicate (3 - length vs) 0 @ (if length vs < 4 then [1] else []))
        \<and> convertToFloat halfToFloat T_int16 (map CU16 ws) (length ws) flags
          = Inr (map (\<lambda>v. float_round (snorm_decode_spec 16 (sint v))) ws
                 @ replicate (3 - length ws) 0 @ (if length ws < 4 then [1] else [])))
     \<and> ((pfa, length vs) \<in> {(PFG_RGBA8_SNORM, 4), (PFG_RG8_SNORM, 2), (PFG_R8_SNORM, 1)} \<longrightarrow>
        unpackColour halfToFloat pfa (map CU8 vs)
          = Inr (map (\<lambda>v. float_round (snorm_decode_spec 8 (sint v))) vs
                 @ replicate (3 - length vs) 0 @ (if length vs < 4 then [1] else [])))
     \<and> ((pfb, length ws) \<in> {(PFG_RGBA16_SNORM, 4), (PFG_RG16_SNORM, 2), (PFG_R16_SNORM, 1)} \<longrightarrow>
        unpackColour halfToFloat pfb (map CU16 ws)
          = Inr (map (\<lambda>v. float_round (snorm_decode_spec 16 (sint v))) ws
                 @ replicate (3 - length ws) 0 @ (if length ws < 4 then [1] else [])))
     \<and> \<bar>float_round (snorm_decode_spec 8 (sint v)) - snorm_decode_spec 8 (sint v)\<bar> \<le> 1 / 2 ^ 24
     \<and> \<bar>float_round (snorm_decode_spec 16 (sint w)) - snorm_decode_spec 16 (sint w)\<bar> \<le> 1 / 2 ^ 24
     \<and> unpackColour halfToFloat PFG_R8_SNORM [CU8 (- 128)] = Inr [- 1, 0, 0, 1]
     \<and> unpackColour halfToFloat PFG_R8_SNORM [CU8 (- 127)] = Inr [- 1, 0, 0, 1]
     \<and> unpackColour halfToFloat PFG_R16_SNORM [CU16 (- 32768)] = Inr [- 1, 0, 0, 1]
     \<and> unpackColour halfToFloat PFG_R16_SNORM [CU16 (- 32767)] = Inr [- 1, 0, 0, 1]"
proof -
  have a8: "\<bar>float_round (snorm_decode_spec 8 (sint v)) - snorm_decode_spec 8 (sint v)\<bar> \<le> 1 / 2 ^ 24"
    using sint_lt [of v] by (intro snorm_decode_accuracy) simp_all
  have a16: "\<bar>float_round (snorm_decode_spec 16 (sint w)) - snorm_decode_spec 16 (sint w)\<bar> \<le> 1 / 2 ^ 24"
    using sint_lt [of w] by (intro snorm_decode_accuracy) simp_all
  have x1: "unpackColour halfToFloat PFG_R8_SNORM [CU8 (- 128)] = Inr [- 1, 0, 0, 1]"
    using unpackColour_SNORM8 [of PFG_R8_SNORM "[- 128]" halfToFloat]
    by (simp add: snorm_decode_extremes numeral_2_eq_2)
  have x2: "unpackColour halfToFloat PFG_R8_SNORM [CU8 (- 127)] = Inr [- 1, 0, 0, 1]"
    using unpackColour_SNORM8 [of PFG_R8_SNORM "[- 127]" halfToFloat]
    by (simp add: snorm_decode_extremes numeral_2_eq_2)
  have x3: "unpackColour halfToFloat PFG_R16_SNORM [CU16 (- 32768)] = Inr [- 1, 0, 0, 1]"
    using unpackColour_SNORM16 [of PFG_R16_SNORM "[- 32768]" halfToFloat]
    by (simp add: snorm_decode_extremes numeral_2_eq_2)
  have x4: "unpackColour halfToFloat PFG_R16_SNORM [CU16 (- 32767)] = Inr [- 1, 0, 0, 1]"
    using unpackColour_SNORM16 [of PFG_R16_SNORM "[- 32767]" halfToFloat]
    by (simp add: snorm_decode_extremes numeral_2_eq_2)
  have c8: "convertToFloat halfToFloat T_int8 (map CU8 vs) (length vs) flags
          = Inr (map (\<lambda>v. float_round (snorm_decode_spec 8 (sint v))) vs
                 @ replicate (3 - length vs) 0 @ (if length vs < 4 then [1] else []))"
    and c16: "convertToFloat halfToFloat T_int16 (map CU16 ws) (length ws) flags
          = Inr (map (\<lambda>v. float_round (snorm_decode_spec 16 (sint v))) ws
                 @ replicate (3 - length ws) 0 @ (if length ws < 4 then [1] else []))"
    if "flags AND PFF_FLOAT = 0" "flags AND PFF_HALF = 0"
      "flags AND PFF_NORMALIZED \<noteq> 0" "flags AND PFF_SIGNED \<noteq> 0"
    using convertToFloat_cells [where C = CU8, OF convertToFloat_channel_int8 [OF that]]
      convertToFloat_cells [where C = CU16, OF convertToFloat_channel_int16 [OF that]]
    by blast+
  show ?thesis
    using a8 a16 x1 x2 x3 x4 c8 c16
      unpackColour_SNORM8 [of pfa vs halfToFloat] unpackColour_SNORM16 [of pfb ws halfToFloat]
    by blast
qed

theorem convertToFloat_signed_normalized_witness:
  "convertToFloat (\<lambda>h. 0) T_int8 [CU8 64, CU8 (- 128)] 2 (PFF_INTEGER OR PFF_SIGNED OR PFF_NORMALIZED)
     = Inr [8454660 / 16777216, - 1, 0, 1]
   \<and> convertToFloat (\<lambda>h. 0) T_int16 [CU16 (- 32767)] 1 (PFF_INTEGER OR PFF_SIGNED OR PFF_NORMALIZED)
     = Inr [- 1, 0, 0, 1]
   \<and> unpackColour (\<lambda>h. 0) PFG_RG8_SNORM [CU8 64, CU8 (- 128)] = Inr [8454660 / 16777216, - 1, 0, 1]
   \<and> unpackColour (\<lambda>h. 0) PFG_R16_SNORM [CU16 (- 32767)] = Inr [- 1, 0, 0, 1]
   \<and> \<bar>8454660 / 16777216 - 64 / (127 :: real)\<bar> \<le> 1 / 2 ^ 24"
proof -
  have h: "(PFF_INTEGER OR PFF_SIGNED OR PFF_NORMALIZED) AND PFF_FLOAT = 0
      \<and> (PFF_INTEGER OR PFF_SIGNED OR PFF_NORMALIZED) AND PFF_HALF = 0
      \<and> (PFF_INTEGER OR PFF_SIGNED OR PFF_NORMALIZED) AND PFF_NORMALIZED \<noteq> 0
      \<and> (PFF_INTEGER OR PFF_SIGNED OR PFF_NORMALIZED) AND PFF_SIGNED \<noteq> 0"
    by (simp add: PFF_defs)
  have p8: "(PFG_RG8_SNORM, length [64, - 128 :: 8 word])
      \<in> {(PFG_RGBA8_SNORM, 4), (PFG_RG8_SNORM, 2), (PFG_R8_SNORM, 1)}"
    by simp
  have p16: "(PFG_R16_SNORM, length [- 32767 :: 16 word])
      \<in> {(PFG_RGBA16_SNORM, 4), (PFG_RG16_SNORM, 2), (PFG_R16_SNORM, 1)}"
    by simp
  have e: "float_round (64 / 127) = 8454660 / 16777216" "float_round (- 1) = - 1"
    "snorm_decode_spec 8 64 = 64 / 127" "snorm_decode_spec 8 (- 128) = - 1"
    "snorm_decode_spec 16 (- 32767) = - 1"
    by (simp_all add: snorm_decode_spec_def float_round_def float_exponent_def compute_floorlog Let_def)
  show ?thesis
    using h p8 p16
      convertToFloat_signed_normalized [where flags = "PFF_INTEGER OR PFF_SIGNED OR PFF_NORMALIZED"
        and halfToFloat = "\<lambda>h. 0" and vs = "[64, - 128]" and ws = "[- 32767]"
        and pfa = PFG_RG8_SNORM and pfb = PFG_R16_SNORM and v = 64 and w = "- 32767"]
    by (simp add: e numeral_2_eq_2)
qed

text \<open>
  An 8-bit unsigned normalized channel that is not sRGB survives the round trip
  through \<^verbatim>\<open>convertFromFloat\<close> and \<^verbatim>\<open>convertToFloat\<close> within half a step and the
  rounding of the quotient.
\<close>

lemma round_quantize:
  fixes x :: real and M :: int
  assumes x: "0 \<le> x" "x \<le> 1" and M: "0 < M"
  defines "q \<equiv> \<lfloor>x * real_of_int M + 1 / 2\<rfloor>"
  shows "0 \<le> q" and "q \<le> M" and "\<bar>real_of_int q / real_of_int M - x\<bar> \<le> 1 / (2 * real_of_int M)"
proof -
  have nn: "0 \<le> x * real_of_int M"
    using x M by simp
  then show "0 \<le> q"
    by (simp add: q_def)
  have "x * real_of_int M \<le> 1 * real_of_int M"
    using x M by (intro mult_right_mono) simp_all
  then have "x * real_of_int M + 1 / 2 < real_of_int (M + 1)"
    by simp
  then have "q < M + 1"
    unfolding q_def by (simp only: floor_less_iff)
  then show "q \<le> M"
    by simp
  have "real_of_int q \<le> x * real_of_int M + 1 / 2" "x * real_of_int M + 1 / 2 < real_of_int q + 1"
    unfolding q_def by linarith+
  then have "\<bar>real_of_int q - x * real_of_int M\<bar> \<le> 1 / 2"
    by linarith
  then have "\<bar>real_of_int q - x * real_of_int M\<bar> / real_of_int M \<le> (1 / 2) / real_of_int M"
    using M by (intro divide_right_mono) simp_all
  moreover have "\<bar>real_of_int q - x * real_of_int M\<bar> / real_of_int M = \<bar>real_of_int q / real_of_int M - x\<bar>"
    using M by (simp add: abs_div_pos diff_divide_distrib)
  ultimately show "\<bar>real_of_int q / real_of_int M - x\<bar> \<le> 1 / (2 * real_of_int M)"
    by simp
qed

lemma unorm8_roundtrip:
  fixes flags :: "32 word"
  assumes fl: "flags AND PFF_FLOAT = 0" "flags AND PFF_HALF = 0" "flags AND PFF_NORMALIZED \<noteq> 0"
      "flags AND PFF_SIGNED = 0" "flags AND PFF_SRGB = 0"
    and x: "0 \<le> x" "x \<le> 1"
  shows "\<exists>w y. convertFromFloat_channel floatToHalf T_uint8 flags x = Inr (CU8 w)
           \<and> convertToFloat_channel halfToFloat T_uint8 flags (CU8 w) = Inr y
           \<and> \<bar>y - x\<bar> \<le> 1 / 510 + 1 / 2 ^ 24"
proof -
  define q where "q = \<lfloor>x * real_of_int 255 + 1 / 2\<rfloor>"
  have q: "0 \<le> q" "q \<le> 255" "\<bar>real_of_int q / real_of_int 255 - x\<bar> \<le> 1 / (2 * real_of_int 255)"
    unfolding q_def using round_quantize [OF x, of 255] by simp_all
  have nn: "0 \<le> x * 255"
    using x by simp
  have enc: "convertFromFloat_channel floatToHalf T_uint8 flags x = Inr (CU8 (word_of_int q))"
    using fl x q(1,2) nn
    by (simp add: convertFromFloat_channel_def saturate_def numeric_limits_max_def float_of_nat_def
        roundf_def static_cast_T_def float_to_unsigned_def truncf_def q_def Let_def)
  have "uint (word_of_int q :: 8 word) = q"
    using q(1,2) by (simp add: uint_word_of_int take_bit_int_eq_self)
  moreover have "nat q < 16777216"
    using q(2) by simp
  ultimately have dec: "convertToFloat_channel halfToFloat T_uint8 flags (CU8 (word_of_int q))
      = Inr (float_round (real_of_int q / 255))"
    using fl q(1,2)
    by (simp add: convertToFloat_channel_def read_T_def bindE_def numeric_limits_max_def
        float_of_nat_def float_of_int_def)
  have "\<bar>real_of_int q / 255\<bar> < 2"
    using q(1,2) by simp
  then have "\<bar>float_round (real_of_int q / 255) - real_of_int q / 255\<bar> \<le> 1 / 2 ^ 24"
    by (rule float_round_error_small)
  moreover have "\<bar>real_of_int q / 255 - x\<bar> \<le> 1 / 510"
    using q(3) by simp
  ultimately have "\<bar>float_round (real_of_int q / 255) - x\<bar> \<le> 1 / 510 + 1 / 2 ^ 24"
    by linarith
  with enc dec show ?thesis
    by blast
qed

text \<open>
  Claim C1. \<^verbatim>\<open>packColour\<close> for \<^verbatim>\<open>PFG_B4G4R4A4_UNORM\<close> computes the alpha nibble
  from lane 2 (blue) instead of lane 3. Opaque black, \<open>[0, 0, 0, 1]\<close>, is packed to
  the 16-bit value 0 and unpacked to \<open>[0, 0, 0, 0]\<close>: the alpha lane is off by 1,
  where one quantization step of a 4-bit lane is \<open>1 / 15\<close>.
\<close>

theorem packColour_B4G4R4A4_alpha_from_blue:
  "packColour (\<lambda>v. 0) [0, 0, 0, 1] PFG_B4G4R4A4_UNORM = Inr [CU16 0]
   \<and> unpackColour (\<lambda>h. 0) PFG_B4G4R4A4_UNORM [CU16 0] = Inr [0, 0, 0, 0]
   \<and> \<bar>[0, 0, 0, 1] ! 3 - [0, 0, 0, 0 :: real] ! 3\<bar> > 1 / 15"
  by (simp add: packColour_def unpackColour_def getFlags_def desc_defs bindE_def float_to_unsigned_def
      truncf_def saturate_def read_uint16_def cell_at_def float_of_nat_def)

subsection \<open>Bulk conversion\<close>

text \<open>
  Claim C8. \<^verbatim>\<open>bulkPixelConversion\<close> between two regions of equal size whose formats
  are both below \<^verbatim>\<open>PFG_COUNT\<close> and different, one of them at least compressed, raises
  \<^verbatim>\<open>ERR_NOT_IMPLEMENTED\<close> and leaves the memory as it was. (The raw copy of the whole
  buffer needs equal formats.)
\<close>

theorem bulkPixelConversion_compressed_mismatch:
  assumes src: "srcFormat < PFG_COUNT" and dst: "dstFormat < PFG_COUNT"
    and ne: "srcFormat \<noteq> dstFormat"
    and sz: "equalSize src dst"
    and c: "isCompressed srcFormat = Inr True \<or> isCompressed dstFormat = Inr True"
  shows "bulkPixelConversion pl mem src srcFormat dst dstFormat = (Some ERR_NOT_IMPLEMENTED, mem)"
proof -
  obtain cs where cs: "isCompressed srcFormat = Inr cs"
    using isCompressed_iff [OF src] by blast
  obtain cd where cd: "isCompressed dstFormat = Inr cd"
    using isCompressed_iff [OF dst] by blast
  have "bindE (isCompressed srcFormat) (\<lambda>c. if c then Inr True else isCompressed dstFormat) = Inr True"
    using c cs cd by (auto simp: bindE_def)
  then show ?thesis
    using ne sz by (simp add: bulkPixelConversion_def)
qed

theorem bulkPixelConversion_compressed_mismatch_witness:
  "bulkPixelConversion
     \<lparr>pl_halfToFloat = (\<lambda>h. 0), pl_floatToHalf = (\<lambda>v. 0), pl_load = (\<lambda>m a f. []), pl_store = (\<lambda>m a c. m)\<rparr>
     (\<lambda>a. 0)
     \<lparr>box_x = 0, box_y = 0, box_z = 0, box_sliceStart = 0, box_width = 8, box_height = 8,
      box_depth = 1, box_numSlices = 1, box_bytesPerPixel = 0, box_bytesPerRow = 16,
      box_bytesPerImage = 32, box_data = 0\<rparr>
     PFG_BC1_UNORM
     \<lparr>box_x = 0, box_y = 0, box_z = 0, box_sliceStart = 0, box_width = 8, box_height = 8,
      box_depth = 1, box_numSlices = 1, box_bytesPerPixel = 4, box_bytesPerRow = 32,
      box_bytesPerImage = 256, box_data = 4096\<rparr>
     PFG_RGBA8_UNORM
   = (Some ERR_NOT_IMPLEMENTED, (\<lambda>a. 0))"
proof -
  have h1: "PFG_BC1_UNORM < PFG_COUNT" and h2: "PFG_RGBA8_UNORM < PFG_COUNT"
    and h3: "PFG_BC1_UNORM \<noteq> PFG_RGBA8_UNORM"
    by (simp_all add: PixelFormatGpu_defs)
  have h4: "equalSize
     \<lparr>box_x = 0, box_y = 0, box_z = 0, box_sliceStart = 0, box_width = 8, box_height = 8,
      box_depth = 1, box_numSlices = 1, box_bytesPerPixel = 0, box_bytesPerRow = 16,
      box_bytesPerImage = 32, box_data = 0\<rparr>
     \<lparr>box_x = 0, box_y = 0, box_z = 0, box_sliceStart = 0, box_width = 8, box_height = 8,
      box_depth = 1, box_numSlices = 1, box_bytesPerPixel = 4, box_bytesPerRow = 32,
      box_bytesPerImage = 256, box_data = 4096\<rparr>"
    by (simp add: equalSize_def)
  have h5: "isCompressed PFG_BC1_UNORM = Inr True \<or> isCompressed PFG_RGBA8_UNORM = Inr True"
    by (simp add: isCompressed_def desc_defs)
  show ?thesis
    by (rule bulkPixelConversion_compressed_mismatch [OF h1 h2 h3 h4 h5])
qed

end
